theory Spec2Isabelle
  imports Complex_Main "HOL-Library.AList"
begin

text \<open>
  The backend of the self-improving voice agent: the capability registry and the creation
  of capabilities from source text (tools.ts), the adapter that rewrites the provider's
  assistant profile (vapi.ts), the operator notifications (integrations.ts), the workflow
  deployment (n8n.ts), the reasoning gateway and the improvement pipeline
  (self-improve.ts), the reset (baseline.ts) and the end-of-call webhook (index.ts).

  Each asynchronous function is a function from the state to a result and the state
  after it; a rejected promise is \<open>Inl\<close> of the error.  One call runs from start to end
  without interleaving with another.  What \<^verbatim>\<open>console.log\<close> and \<^verbatim>\<open>console.warn\<close> print,
  the text of the request sent to the reasoning service and the passing of time are not
  represented; the calls of \<^verbatim>\<open>console.error\<close> are the list \<open>errlog\<close>.
\<close>

section \<open>Values shared by all modules\<close>

text \<open>
  JSON values as the TypeScript code handles them after \<^verbatim>\<open>res.json()\<close> and
  \<^verbatim>\<open>JSON.parse\<close>.  An object is an association list in insertion order, with one entry
  per key.  Numbers are rationals: the code stores and forwards them and never computes
  with them.
\<close>

datatype json =
    JNull
  | JBool bool
  | JNum rat
  | JStr string
  | JArr "json list"
  | JObj "(string \<times> json) list"

type_synonym jobj = "(string \<times> json) list"

text \<open>A thrown JavaScript \<^verbatim>\<open>Error\<close> with its message.\<close>

datatype error = Error string

fun message :: "error \<Rightarrow> string" where
  "message (Error m) = m"

text \<open>\<^verbatim>\<open>v.k\<close> and \<^verbatim>\<open>v?.k\<close> on a decoded value: \<^verbatim>\<open>undefined\<close> is \<open>None\<close>.\<close>

fun getProp :: "string \<Rightarrow> json option \<Rightarrow> json option" where
  "getProp k (Some (JObj kvs)) = map_of kvs k"
| "getProp k _ = None"

text \<open>JavaScript truthiness of a possibly undefined value.\<close>

fun truthy :: "json option \<Rightarrow> bool" where
  "truthy None = False"
| "truthy (Some JNull) = False"
| "truthy (Some (JBool b)) = b"
| "truthy (Some (JNum n)) = (n \<noteq> 0)"
| "truthy (Some (JStr s)) = (s \<noteq> [])"
| "truthy (Some (JArr _)) = True"
| "truthy (Some (JObj _)) = True"

text \<open>Truthiness of an optional string (\<^verbatim>\<open>if (callId && ...)\<close>).\<close>

fun truthyStr :: "string option \<Rightarrow> bool" where
  "truthyStr None = False"
| "truthyStr (Some s) = (s \<noteq> [])"

text \<open>
  The object spread \<^verbatim>\<open>{ ...a, ...b }\<close>: keys of \<open>a\<close> keep their place, a key of
  \<open>b\<close> replaces the value in place or is appended.
\<close>

definition spread :: "jobj \<Rightarrow> jobj \<Rightarrow> jobj" where
  "spread a b = fold (\<lambda>(k, v). AList.update k v) b a"

text \<open>
  The messages of the TypeErrors the engine raises when a property of \<^verbatim>\<open>undefined\<close> or
  \<^verbatim>\<open>null\<close> is read and when a value that is not a function is called, in the words of
  Node.js.
\<close>

definition sq :: "string \<Rightarrow> string" where
  "sq t = [CHR 0x27] @ t @ [CHR 0x27]"

definition cannotRead :: "string \<Rightarrow> string \<Rightarrow> error" where
  "cannotRead what p = Error (''Cannot read properties of '' @ what @ '' (reading '' @ sq p @ '')'')"

definition notFunction :: "string \<Rightarrow> error" where
  "notFunction expr = Error (expr @ '' is not a function'')"

text \<open>Decimal rendering of a natural number in a template literal.\<close>

fun showNat :: "nat \<Rightarrow> string" where
  "showNat n =
     (if n < 10 then [''0123456789'' ! n]
      else showNat (n div 10) @ [''0123456789'' ! (n mod 10)])"

declare showNat.simps [simp del]

text \<open>\<^verbatim>\<open>xs.join(sep)\<close>.\<close>

fun joinWith :: "string \<Rightarrow> string list \<Rightarrow> string" where
  "joinWith sep [] = []"
| "joinWith sep [x] = x"
| "joinWith sep (x # y # ys) = x @ sep @ joinWith sep (y # ys)"

section \<open>Text\<close>

text \<open>
  Text is held as its UTF-8 bytes; a character is a lead byte with the continuation bytes
  that follow it.  JavaScript counts and cuts a string by UTF-16 code units: a character
  of one to three bytes is one unit, a character of four bytes is two, a surrogate pair.
  A cut that falls inside a pair leaves the high surrogate alone, written here in the
  three bytes of its generalized UTF-8 form.
\<close>

definition cont :: "char \<Rightarrow> bool" where
  "cont c = (128 \<le> (of_char c :: nat) \<and> (of_char c :: nat) < 192)"

function chars :: "string \<Rightarrow> string list" where
  "chars [] = []"
| "chars (c # cs) = (c # takeWhile cont cs) # chars (dropWhile cont cs)"
  by pat_completeness auto
termination
  by (relation "measure length") (auto simp: length_dropWhile_le less_Suc_eq_le)

definition width :: "string \<Rightarrow> nat" where
  "width ch = (if length ch < 4 then 1 else 2)"

definition codePoint :: "string \<Rightarrow> nat" where
  "codePoint ch =
     (of_char (ch ! 0) mod 8) * 262144 + (of_char (ch ! 1) mod 64) * 4096 +
     (of_char (ch ! 2) mod 64) * 64 + of_char (ch ! 3) mod 64"

definition surrogate :: "nat \<Rightarrow> string" where
  "surrogate u = [CHR 0xED, char_of (128 + u div 64 mod 64), char_of (128 + u mod 64)]"

definition highSurrogate :: "string \<Rightarrow> string" where
  "highSurrogate ch = surrogate (55296 + (codePoint ch - 65536) div 1024)"

definition lowSurrogate :: "string \<Rightarrow> string" where
  "lowSurrogate ch = surrogate (56320 + (codePoint ch - 65536) mod 1024)"

text \<open>The code units of a text, each as a text of its own: what indexing a string yields.\<close>

definition codeUnits :: "string \<Rightarrow> string list" where
  "codeUnits t =
     concat (map (\<lambda>ch. if width ch = 1 then [ch] else [highSurrogate ch, lowSurrogate ch]) (chars t))"

text \<open>\<^verbatim>\<open>t.length\<close>.\<close>

definition units :: "string \<Rightarrow> nat" where
  "units t = sum_list (map width (chars t))"

text \<open>\<^verbatim>\<open>t.slice(0, n)\<close>.\<close>

fun sliceChars :: "nat \<Rightarrow> string list \<Rightarrow> string" where
  "sliceChars n [] = []"
| "sliceChars n (ch # rest) =
     (if n = 0 then []
      else if width ch \<le> n then ch @ sliceChars (n - width ch) rest
      else highSurrogate ch)"

definition sliceTo :: "nat \<Rightarrow> string \<Rightarrow> string" where
  "sliceTo n t = sliceChars n (chars t)"

text \<open>
  \<^verbatim>\<open>t.trim()\<close>: the white space and line terminators of ECMAScript, which are the six
  ASCII ones, U+00A0, U+1680, U+2000 to U+200A, U+2028, U+2029, U+202F, U+205F, U+3000
  and U+FEFF.
\<close>

definition whitespace :: "string list" where
  "whitespace =
     map (\<lambda>c. [c]) [CHR 0x09, CHR 0x0A, CHR 0x0B, CHR 0x0C, CHR 0x0D, CHR 0x20] @
     [[CHR 0xC2, CHR 0xA0], [CHR 0xE1, CHR 0x9A, CHR 0x80]] @
     map (\<lambda>c. [CHR 0xE2, CHR 0x80, c])
       [CHR 0x80, CHR 0x81, CHR 0x82, CHR 0x83, CHR 0x84, CHR 0x85, CHR 0x86, CHR 0x87,
        CHR 0x88, CHR 0x89, CHR 0x8A, CHR 0xA8, CHR 0xA9, CHR 0xAF] @
     [[CHR 0xE2, CHR 0x81, CHR 0x9F], [CHR 0xE3, CHR 0x80, CHR 0x80],
      [CHR 0xEF, CHR 0xBB, CHR 0xBF]]"

definition isSpace :: "string \<Rightarrow> bool" where
  "isSpace ch = (ch \<in> set whitespace)"

definition trim :: "string \<Rightarrow> string" where
  "trim t = concat (rev (dropWhile isSpace (rev (dropWhile isSpace (chars t)))))"

section \<open>Reading values the way JavaScript does\<close>

text \<open>
  \<^verbatim>\<open>String(v)\<close> and \<^verbatim>\<open>`${v}`\<close> of a decoded value.  \<open>nt\<close> renders a number; an
  array is its elements joined by commas, \<^verbatim>\<open>null\<close> among them rendered empty.
\<close>

fun jsText :: "(rat \<Rightarrow> string) \<Rightarrow> json \<Rightarrow> string" where
  "jsText nt JNull = ''null''"
| "jsText nt (JBool b) = (if b then ''true'' else ''false'')"
| "jsText nt (JNum q) = nt q"
| "jsText nt (JStr t) = t"
| "jsText nt (JArr xs) = joinWith '','' (map (\<lambda>x. if x = JNull then [] else jsText nt x) xs)"
| "jsText nt (JObj kvs) = ''[object Object]''"

definition natNum :: "nat \<Rightarrow> json" where
  "natNum n = JNum (of_nat n)"

text \<open>
  \<^verbatim>\<open>v.length\<close>: a TypeError on \<^verbatim>\<open>undefined\<close> and \<^verbatim>\<open>null\<close>, the count of a string
  or an array, the property of that name of an object, \<^verbatim>\<open>undefined\<close> otherwise.
  \<^verbatim>\<open>v?.length\<close> is \<^verbatim>\<open>undefined\<close> where \<^verbatim>\<open>v.length\<close> throws.
\<close>

definition lengthOf :: "json option \<Rightarrow> error + json option" where
  "lengthOf v =
     (case v of
        None \<Rightarrow> Inl (cannotRead ''undefined'' ''length'')
      | Some JNull \<Rightarrow> Inl (cannotRead ''null'' ''length'')
      | Some (JStr t) \<Rightarrow> Inr (Some (natNum (units t)))
      | Some (JArr xs) \<Rightarrow> Inr (Some (natNum (length xs)))
      | Some (JObj kvs) \<Rightarrow> Inr (map_of kvs ''length'')
      | Some _ \<Rightarrow> Inr None)"

definition optLength :: "json option \<Rightarrow> json option" where
  "optLength v = (case lengthOf v of Inl e \<Rightarrow> None | Inr n \<Rightarrow> n)"

text \<open>
  The order in which \<^verbatim>\<open>Object.keys\<close> and \<^verbatim>\<open>Object.entries\<close> enumerate an object: the
  keys that are array indices (canonical decimal numerals below 4294967295) in
  ascending order, then the other keys in insertion order.
\<close>

definition natOf :: "string \<Rightarrow> nat" where
  "natOf k = foldl (\<lambda>n c. 10 * n + (of_char c - 48)) 0 k"

definition isIndex :: "string \<Rightarrow> bool" where
  "isIndex k =
     (k \<noteq> [] \<and> list_all (\<lambda>c. c \<in> set ''0123456789'') k \<and>
      (if hd k = CHR ''0'' then k = ''0'' else True) \<and> length k \<le> 10 \<and> natOf k < 4294967295)"

definition ownKeys :: "(string \<times> 'a) list \<Rightarrow> (string \<times> 'a) list" where
  "ownKeys kvs =
     sort_key (\<lambda>e. natOf (fst e)) (filter (\<lambda>e. isIndex (fst e)) kvs) @
     filter (\<lambda>e. \<not> isIndex (fst e)) kvs"

text \<open>\<^verbatim>\<open>Object.keys(v)\<close> of a value that is neither \<^verbatim>\<open>undefined\<close> nor \<^verbatim>\<open>null\<close>.\<close>

fun keysOf :: "json \<Rightarrow> string list" where
  "keysOf (JObj kvs) = map fst (ownKeys kvs)"
| "keysOf (JArr xs) = map showNat [0..<length xs]"
| "keysOf (JStr t) = map showNat [0..<units t]"
| "keysOf _ = []"

section \<open>types.ts\<close>

record PropSpec =
  ptype :: string
  pdescription :: string

record ToolParameters =
  properties :: "(string \<times> PropSpec) list"
  required :: "string list option"

text \<open>
  \<^verbatim>\<open>ToolHandler = (args: Record<string, unknown>) => Promise<string>\<close>: the promise
  rejects (\<open>Inl\<close>) or resolves (\<open>Inr\<close>).  A handler compiled from source text resolves
  to whatever its code returns, \<^verbatim>\<open>undefined\<close> when it returns nothing; the declared
  type is not checked.
\<close>

type_synonym ToolHandler = "jobj \<Rightarrow> error + json option"

record RegisteredTool =
  name :: string
  description :: string
  parameters :: ToolParameters
  handler :: ToolHandler
  createdAt :: nat
  isDynamic :: bool

section \<open>tools.ts: the in-memory registry\<close>

text \<open>
  \<^verbatim>\<open>const registry = new Map<string, RegisteredTool>()\<close>.  A JavaScript \<^verbatim>\<open>Map\<close> keeps
  insertion order and has one entry per key; \<^verbatim>\<open>set\<close> on a present key replaces the
  value in place.  The model is an association list whose keys are distinct.
\<close>

type_synonym registry = "(string \<times> RegisteredTool) list"

definition wfRegistry :: "registry \<Rightarrow> bool" where
  "wfRegistry reg = distinct (map fst reg)"

definition getTool :: "registry \<Rightarrow> string \<Rightarrow> RegisteredTool option" where
  "getTool reg n = map_of reg n"

definition getAllTools :: "registry \<Rightarrow> RegisteredTool list" where
  "getAllTools reg = map snd reg"

definition getDynamicTools :: "registry \<Rightarrow> RegisteredTool list" where
  "getDynamicTools reg = filter isDynamic (map snd reg)"

definition registerTool :: "RegisteredTool \<Rightarrow> registry \<Rightarrow> registry" where
  "registerTool tool reg = AList.update (name tool) tool reg"

text \<open>
  \<^verbatim>\<open>for (const [name, tool] of registry) if (tool.isDynamic) registry.delete(name)\<close>.
  The first argument is what the iterator still has to visit, the second the registry
  being mutated; deleting the entry under the cursor does not disturb the entries after it.
\<close>

fun clearLoop :: "(string \<times> RegisteredTool) list \<Rightarrow> registry \<Rightarrow> registry" where
  "clearLoop [] reg = reg"
| "clearLoop ((n, tool) # rest) reg =
     (if isDynamic tool then clearLoop rest (AList.delete n reg) else clearLoop rest reg)"

definition clearDynamicTools :: "registry \<Rightarrow> registry" where
  "clearDynamicTools reg = clearLoop reg reg"

section \<open>Records of self-improve.ts\<close>

datatype StepStatus = ok | error | skipped

record PipelineStep =
  step :: string
  status :: StepStatus
  detail :: string
  timestamp :: nat

text \<open>The argument of \<^verbatim>\<open>createAndRegisterTool\<close> and the elements of \<^verbatim>\<open>newTools\<close>.\<close>

record ToolSpec =
  specName :: string
  specDescription :: string
  specParameters :: ToolParameters
  handlerCode :: string

record WorkflowStep =
  stepName :: string
  stepMethod :: string
  stepUrl :: string
  stepHeaders :: "(string \<times> string) list option"
  bodyTemplate :: string

record WorkflowSpec =
  wfName :: string
  webhookPath :: string
  steps :: "WorkflowStep list option"

text \<open>
  \<^verbatim>\<open>interface AnalysisResult\<close>.  \<^verbatim>\<open>configChanges\<close> is declared an
  \<^verbatim>\<open>AssistantConfig\<close>, an open object whose fields are all optional; it is kept as the
  value found under that name, which nothing checks.
\<close>

record AnalysisResult =
  aFailures :: "string list"
  aChanges :: "string list"
  configChanges :: "json option"
  newTools :: "ToolSpec list option"
  newWorkflows :: "WorkflowSpec list option"
  resourceRequests :: "string list option"

record ImprovementRecord =
  callId :: string
  customerNumber :: "string option"
  recTimestamp :: nat
  recTranscript :: "string option"
  failures :: "string list"
  changes :: "string list"
  toolsCreated :: "string list"
  workflowsCreated :: "string list"
  configBefore :: jobj
  configAfter :: "json option"
  callbackTriggered :: bool
  rawAnalysis :: string
  pipelineLog :: "PipelineStep list"

text \<open>What \<^verbatim>\<open>getCall\<close> returns, as far as the pipeline reads it.\<close>

record Call =
  cid :: string
  cstatus :: string
  ctranscript :: "string option"
  endedReason :: "string option"

text \<open>
  What \<^verbatim>\<open>getAssistant\<close> returns.  \<^verbatim>\<open>systemMessage\<close> is declared a string; it is
  whatever \<^verbatim>\<open>extractSystemMessage\<close> found.
\<close>

record Assistant =
  systemMessage :: "json option"
  config :: jobj

datatype ContentBlock = TextBlock string | OtherBlock

section \<open>The process and the services it talks to\<close>

text \<open>
  One call of \<^verbatim>\<open>console.error\<close>: its first argument, a text, and its second, a text
  or a caught error.
\<close>

datatype printed = Text string | Thrown error

text \<open>
  What the messaging gateway does with one request: \<^verbatim>\<open>fetch\<close>, \<^verbatim>\<open>res.json()\<close> or
  the reading of the body throws; the gateway refuses (\<^verbatim>\<open>!res.ok\<close>) with a text; or it
  answers with a JSON object.
\<close>

datatype whapi = Throws error | Refuses string | Answers jobj

text \<open>
  The mutable state: the module-level variables of the process (\<open>registry\<close>,
  \<open>history\<close>), its error log, and the external services.  A request to the voice
  provider or to the workflow platform takes the next entry of that service's fault
  schedule: \<open>Some e\<close> makes the request throw \<open>e\<close> (network failure, non-2xx status,
  undecodable body), \<open>None\<close> and an exhausted schedule let it through.  A request to
  the messaging gateway takes the next entry of \<open>whapiReplies\<close>; an exhausted schedule
  answers that the message was sent.  \<open>handlerCalls\<close> records each invocation of a
  capability handler by the pipeline.
\<close>

record state =
  registry :: registry
  history :: "ImprovementRecord list"
  errlog :: "(string \<times> printed) list"
  now :: nat
  assistants :: "string \<Rightarrow> jobj option"
  calls :: "string \<Rightarrow> Call option"
  vapiFaults :: "error option list"
  vapiMinted :: nat
  vapiTools :: "(string \<times> string) list"
  outbound :: "(string \<times> string \<times> string option) list"
  whapiReplies :: "whapi list"
  outbox :: "(string \<times> string) list"
  n8nFaults :: "error option list"
  n8nDeployed :: "(string \<times> string) list"
  llmReply :: "error + ContentBlock list"
  handlerCalls :: "(string \<times> jobj) list"

type_synonym 'a io = "(error + 'a) \<times> state"

text \<open>
  What does not change while the process runs: the environment variables, the identifiers
  the voice provider hands out, and the JavaScript engine.  Of the engine:
  \<^verbatim>\<open>new Function\<close> yields a function or throws a SyntaxError; \<^verbatim>\<open>JSON.parse\<close>
  yields a value or throws; \<open>numText\<close> renders a number that is not a natural number
  of at most 21 digits.
  The value \<^verbatim>\<open>JSON.parse\<close> yields is cast to \<^verbatim>\<open>AnalysisResult\<close> unchecked, and the
  pipeline goes on with it whatever it is; what the pipeline then does with a value that
  is not of that type is \<open>offContract\<close>, left open.
\<close>

record runtime =
  env :: "string \<Rightarrow> string option"
  compile :: "string \<Rightarrow> error + ToolHandler"
  jsonParse :: "string \<Rightarrow> json option"
  numText :: "rat \<Rightarrow> string"
  mintId :: "nat \<Rightarrow> string"
  offContract :: "json \<Rightarrow> string \<Rightarrow> string \<Rightarrow> string option \<Rightarrow> Call \<Rightarrow> Assistant \<Rightarrow> string
                    \<Rightarrow> PipelineStep list \<Rightarrow> state \<Rightarrow> ImprovementRecord io"

definition the_default :: "'a \<Rightarrow> 'a option \<Rightarrow> 'a" where
  "the_default d v = (case v of None \<Rightarrow> d | Some x \<Rightarrow> x)"

text \<open>\<^verbatim>\<open>await\<close> in sequence: a rejection skips what follows and keeps the state reached.\<close>

definition bind :: "'a io \<Rightarrow> ('a \<Rightarrow> state \<Rightarrow> 'b io) \<Rightarrow> 'b io" where
  "bind m f = (case m of (Inl e, s) \<Rightarrow> (Inl e, s) | (Inr a, s) \<Rightarrow> f a s)"

definition nextFault :: "error option list \<Rightarrow> error option \<times> error option list" where
  "nextFault fs = (case fs of [] \<Rightarrow> (None, []) | f # rest \<Rightarrow> (f, rest))"

definition nextReply :: "whapi list \<Rightarrow> whapi \<times> whapi list" where
  "nextReply rs = (case rs of [] \<Rightarrow> (Answers [(''sent'', JBool True)], []) | r # rest \<Rightarrow> (r, rest))"

text \<open>A number, and a possibly undefined value, inside a template literal.\<close>

definition numStr :: "runtime \<Rightarrow> rat \<Rightarrow> string" where
  "numStr rt q =
     (if 0 \<le> q \<and> q < 1000000000000000000000 \<and> q = of_int \<lfloor>q\<rfloor> then showNat (nat \<lfloor>q\<rfloor>)
      else numText rt q)"

definition tmpl :: "runtime \<Rightarrow> json option \<Rightarrow> string" where
  "tmpl rt v = (case v of None \<Rightarrow> ''undefined'' | Some x \<Rightarrow> jsText (numStr rt) x)"

text \<open>
  \<^verbatim>\<open>`${v.slice(0, n)}`\<close>, \<open>expr\<close> being the source text of \<^verbatim>\<open>v\<close>: strings and
  arrays have a \<^verbatim>\<open>slice\<close>, no other decoded value has.
\<close>

definition sliceText :: "runtime \<Rightarrow> string \<Rightarrow> nat \<Rightarrow> json \<Rightarrow> error + string" where
  "sliceText rt expr n v =
     (case v of
        JNull \<Rightarrow> Inl (cannotRead ''null'' ''slice'')
      | JStr t \<Rightarrow> Inr (sliceTo n t)
      | JArr xs \<Rightarrow> Inr (jsText (numStr rt) (JArr (take n xs)))
      | _ \<Rightarrow> Inl (notFunction (expr @ ''.slice'')))"

definition sliceOf :: "runtime \<Rightarrow> string \<Rightarrow> nat \<Rightarrow> json option \<Rightarrow> error + string" where
  "sliceOf rt expr n v =
     (case v of None \<Rightarrow> Inl (cannotRead ''undefined'' ''slice'') | Some x \<Rightarrow> sliceText rt expr n x)"

section \<open>vapi.ts\<close>

text \<open>
  The provider's endpoints.  \<^verbatim>\<open>GET /assistant/:id\<close> returns the stored profile.
  \<^verbatim>\<open>PATCH /assistant/:id\<close> replaces each top-level field named in the body and keeps
  the others; a sub-object in the body replaces the stored sub-object as a whole, which
  is what the code relies on where it spreads the current \<^verbatim>\<open>voice\<close> (and, in the
  earlier iteration of this file, the current \<^verbatim>\<open>model\<close>:
  "PATCH replaces entire model object, so we must spread the current model").
\<close>

definition vapiFail :: "string \<Rightarrow> string \<Rightarrow> error" where
  "vapiFail method path = Error (''Vapi '' @ method @ '' '' @ path @ '' failed (404): not found'')"

definition getAssistantRaw :: "string \<Rightarrow> state \<Rightarrow> jobj io" where
  "getAssistantRaw assistantId s =
     (case nextFault (vapiFaults s) of
        (Some e, fs) \<Rightarrow> (Inl e, s\<lparr>vapiFaults := fs\<rparr>)
      | (None, fs) \<Rightarrow>
          (case assistants s assistantId of
             None \<Rightarrow> (Inl (vapiFail ''GET'' (''/assistant/'' @ assistantId)), s\<lparr>vapiFaults := fs\<rparr>)
           | Some profile \<Rightarrow> (Inr profile, s\<lparr>vapiFaults := fs\<rparr>)))"

definition patchAssistantRaw :: "string \<Rightarrow> jobj \<Rightarrow> state \<Rightarrow> unit io" where
  "patchAssistantRaw assistantId patch s =
     (case nextFault (vapiFaults s) of
        (Some e, fs) \<Rightarrow> (Inl e, s\<lparr>vapiFaults := fs\<rparr>)
      | (None, fs) \<Rightarrow>
          (case assistants s assistantId of
             None \<Rightarrow> (Inl (vapiFail ''PATCH'' (''/assistant/'' @ assistantId)), s\<lparr>vapiFaults := fs\<rparr>)
           | Some profile \<Rightarrow>
               (Inr (), s\<lparr>vapiFaults := fs,
                          assistants := (assistants s)(assistantId \<mapsto> spread profile patch)\<rparr>)))"

text \<open>
  \<^verbatim>\<open>extractSystemMessage\<close>: the instructions text, probed in a fixed order.
  \<^verbatim>\<open>messages.find((m) => m.role === "system")\<close> stops at the first entry whose role is
  \<^verbatim>\<open>"system"\<close> and throws on an entry that is \<^verbatim>\<open>null\<close>; it is reached when
  \<^verbatim>\<open>messages?.length\<close> is truthy, and only an array has a \<^verbatim>\<open>find\<close>.  The
  \<^verbatim>\<open>content\<close> of the entry found is returned as it is, a string or not.
\<close>

fun findSystem :: "json list \<Rightarrow> error + json option" where
  "findSystem [] = Inr None"
| "findSystem (m # ms) =
     (if m = JNull then Inl (cannotRead ''null'' ''role'')
      else if getProp ''role'' (Some m) = Some (JStr ''system'') then Inr (Some m)
      else findSystem ms)"

definition systemEntry :: "json option \<Rightarrow> error + json option" where
  "systemEntry messages =
     (if truthy (optLength messages) then
        (case messages of
           Some (JArr ms) \<Rightarrow> findSystem ms
         | _ \<Rightarrow> Inl (notFunction ''messages.find''))
      else Inr None)"

definition extractSystemMessage :: "jobj \<Rightarrow> error + json option" where
  "extractSystemMessage assistant =
     (case map_of assistant ''instructions'' of
        Some (JStr t) \<Rightarrow> Inr (Some (JStr t))
      | _ \<Rightarrow>
         (let model = map_of assistant ''model'';
              llm = map_of assistant ''llm'';
              source = (if truthy model then model else llm)
          in if truthy source then
               (case systemEntry (getProp ''messages'' source) of
                  Inl e \<Rightarrow> Inl e
                | Inr (Some sys) \<Rightarrow> Inr (getProp ''content'' (Some sys))
                | Inr None \<Rightarrow>
                    (case getProp ''systemMessage'' source of
                       Some (JStr t) \<Rightarrow> Inr (Some (JStr t))
                     | _ \<Rightarrow> Inr (Some (JStr []))))
             else Inr (Some (JStr []))))"

definition getAssistant :: "string \<Rightarrow> state \<Rightarrow> Assistant io" where
  "getAssistant assistantId s =
     bind (getAssistantRaw assistantId s)
       (\<lambda>result s1.
          case extractSystemMessage result of
            Inl e \<Rightarrow> (Inl e, s1)
          | Inr found \<Rightarrow> (Inr \<lparr>systemMessage = found, config = result\<rparr>, s1))"

text \<open>\<^verbatim>\<open>getCurrentLlmConfig\<close>: which of \<^verbatim>\<open>model\<close> and \<^verbatim>\<open>llm\<close> holds the LLM settings.\<close>

record LlmConfig =
  cfgField :: string
  cfgProvider :: "json option"
  cfgModelName :: "json option"
  cfgExisting :: "json option"

definition llmConfigOf :: "jobj \<Rightarrow> LlmConfig" where
  "llmConfigOf result =
     (let model = map_of result ''model'';
          llm = map_of result ''llm''
      in if truthy (getProp ''provider'' model) then
           \<lparr>cfgField = ''model'', cfgProvider = getProp ''provider'' model,
            cfgModelName = getProp ''model'' model, cfgExisting = model\<rparr>
         else if truthy (getProp ''provider'' llm) then
           \<lparr>cfgField = ''llm'', cfgProvider = getProp ''provider'' llm,
            cfgModelName = getProp ''model'' llm, cfgExisting = llm\<rparr>
         else
           \<lparr>cfgField = ''model'', cfgProvider = Some (JStr ''openai''),
            cfgModelName = Some (JStr ''gpt-4o''), cfgExisting = Some (JObj [])\<rparr>)"

definition getCurrentLlmConfig :: "string \<Rightarrow> state \<Rightarrow> LlmConfig io" where
  "getCurrentLlmConfig assistantId s =
     bind (getAssistantRaw assistantId s) (\<lambda>result s1. (Inr (llmConfigOf result), s1))"

text \<open>
  An object literal as \<^verbatim>\<open>JSON.stringify\<close> sends it: a property whose value is
  \<^verbatim>\<open>undefined\<close> is left out.
\<close>

fun literal :: "(string \<times> json option) list \<Rightarrow> jobj" where
  "literal [] = []"
| "literal ((k, None) # rest) = literal rest"
| "literal ((k, Some v) # rest) = (k, v) # literal rest"

text \<open>
  \<^verbatim>\<open>{ ...v }\<close> of a possibly undefined value: only own enumerable properties spread,
  which for an array are its elements and for a string its code units, under their indices.
\<close>

fun spreadOf :: "json option \<Rightarrow> jobj" where
  "spreadOf (Some (JObj kvs)) = kvs"
| "spreadOf (Some (JArr xs)) = zip (map showNat [0..<length xs]) xs"
| "spreadOf (Some (JStr t)) = zip (map showNat [0..<units t]) (map JStr (codeUnits t))"
| "spreadOf _ = []"

text \<open>\<^verbatim>\<open>if (changes.k !== undefined) patch.k' = changes.k\<close>.\<close>

definition copyField :: "jobj \<Rightarrow> string \<Rightarrow> string \<Rightarrow> jobj \<Rightarrow> jobj" where
  "copyField chg k k' patch =
     (case map_of chg k of None \<Rightarrow> patch | Some v \<Rightarrow> AList.update k' v patch)"

definition patchMaxTokens :: "string \<Rightarrow> jobj \<Rightarrow> jobj \<Rightarrow> state \<Rightarrow> jobj io" where
  "patchMaxTokens assistantId chg patch s =
     (case map_of chg ''maxTokens'' of
        None \<Rightarrow> (Inr patch, s)
      | Some maxTokens \<Rightarrow>
          bind (getCurrentLlmConfig assistantId s)
            (\<lambda>llmConfig s1.
               (Inr (AList.update (cfgField llmConfig)
                      (JObj (literal [(''provider'', cfgProvider llmConfig),
                                      (''model'', cfgModelName llmConfig),
                                      (''maxTokens'', Some maxTokens)]))
                      patch), s1)))"

definition patchVoice :: "string \<Rightarrow> jobj \<Rightarrow> jobj \<Rightarrow> state \<Rightarrow> jobj io" where
  "patchVoice assistantId chg patch s =
     (case map_of chg ''voiceSpeed'' of
        None \<Rightarrow> (Inr patch, s)
      | Some voiceSpeed \<Rightarrow>
          bind (getAssistantRaw assistantId s)
            (\<lambda>result s1.
               (Inr (AList.update ''voice''
                      (JObj (spread (spreadOf (map_of result ''voice'')) [(''speed'', voiceSpeed)]))
                      patch), s1)))"

definition updateAssistant :: "string \<Rightarrow> jobj \<Rightarrow> state \<Rightarrow> unit io" where
  "updateAssistant assistantId chg s =
     bind (patchMaxTokens assistantId chg
             (copyField chg ''systemMessage'' ''instructions'' []) s)
       (\<lambda>patch1 s1.
          bind (patchVoice assistantId chg
                  (copyField chg ''toolIds'' ''toolIds'' patch1) s1)
            (\<lambda>patch2 s2.
               (let patch =
                      copyField chg ''messagePlan'' ''messagePlan''
                        (copyField chg ''maxDurationSeconds'' ''maxDurationSeconds''
                          (copyField chg ''silenceTimeoutSeconds'' ''silenceTimeoutSeconds''
                            (copyField chg ''firstMessage'' ''firstMessage'' patch2)))
                in if patch = [] then (Inr (), s2)
                   else patchAssistantRaw assistantId patch s2)))"

text \<open>
  The earlier iteration of \<^verbatim>\<open>updateAssistant\<close> (the copy of vapi.ts that keeps the
  instructions in \<^verbatim>\<open>model.messages\<close>): "PATCH replaces entire model object, so we must
  spread the current model to preserve provider, model name, toolIds, etc."
\<close>

definition updateAssistantEarlier :: "string \<Rightarrow> jobj \<Rightarrow> state \<Rightarrow> unit io" where
  "updateAssistantEarlier assistantId chg s =
     (let modelPatch =
            copyField chg ''toolIds'' ''toolIds''
              (copyField chg ''maxTokens'' ''maxTokens''
                 (case map_of chg ''systemMessage'' of
                    None \<Rightarrow> []
                  | Some v \<Rightarrow>
                      [(''messages'', JArr [JObj [(''role'', JStr ''system''), (''content'', v)]])]))
      in bind (if modelPatch = [] then (Inr [], s)
               else bind (getAssistantRaw assistantId s)
                      (\<lambda>current s1.
                         (Inr [(''model'',
                                JObj (spread
                                        (spreadOf (if truthy (map_of current ''model'')
                                                   then map_of current ''model''
                                                   else Some (JObj [])))
                                        modelPatch))], s1)))
           (\<lambda>patch1 s1.
              bind (patchVoice assistantId chg patch1 s1)
                (\<lambda>patch2 s2.
                   (let patch =
                          copyField chg ''messagePlan'' ''messagePlan''
                            (copyField chg ''maxDurationSeconds'' ''maxDurationSeconds''
                              (copyField chg ''silenceTimeoutSeconds'' ''silenceTimeoutSeconds''
                                (copyField chg ''firstMessage'' ''firstMessage'' patch2)))
                    in if patch = [] then (Inr (), s2)
                       else patchAssistantRaw assistantId patch s2))))"

definition getCall :: "string \<Rightarrow> state \<Rightarrow> Call io" where
  "getCall cId s =
     (case nextFault (vapiFaults s) of
        (Some e, fs) \<Rightarrow> (Inl e, s\<lparr>vapiFaults := fs\<rparr>)
      | (None, fs) \<Rightarrow>
          (case calls s cId of
             None \<Rightarrow> (Inl (vapiFail ''GET'' (''/call/'' @ cId)), s\<lparr>vapiFaults := fs\<rparr>)
           | Some c \<Rightarrow> (Inr c, s\<lparr>vapiFaults := fs\<rparr>)))"

text \<open>\<^verbatim>\<open>POST /call/phone\<close> and \<^verbatim>\<open>POST /tool\<close> answer with a fresh identifier.\<close>

definition createOutboundCall ::
  "runtime \<Rightarrow> string \<Rightarrow> string \<Rightarrow> string option \<Rightarrow> state \<Rightarrow> string io" where
  "createOutboundCall rt assistantId number phoneNumberId s =
     (case nextFault (vapiFaults s) of
        (Some e, fs) \<Rightarrow> (Inl e, s\<lparr>vapiFaults := fs\<rparr>)
      | (None, fs) \<Rightarrow>
          (Inr (mintId rt (vapiMinted s)),
           s\<lparr>vapiFaults := fs, vapiMinted := Suc (vapiMinted s),
             outbound := outbound s @
               [(assistantId, number, if truthyStr phoneNumberId then phoneNumberId else None)]\<rparr>))"

definition createVapiTool :: "runtime \<Rightarrow> string \<Rightarrow> string \<Rightarrow> state \<Rightarrow> string io" where
  "createVapiTool rt toolName serverUrl s =
     (case nextFault (vapiFaults s) of
        (Some e, fs) \<Rightarrow> (Inl e, s\<lparr>vapiFaults := fs\<rparr>)
      | (None, fs) \<Rightarrow>
          (Inr (mintId rt (vapiMinted s)),
           s\<lparr>vapiFaults := fs, vapiMinted := Suc (vapiMinted s),
             vapiTools := vapiTools s @ [(mintId rt (vapiMinted s), toolName)]\<rparr>))"

text \<open>
  \<^verbatim>\<open>[...v]\<close>: an array yields its elements, a string its characters, other values throw
  a TypeError.
\<close>

fun iterate :: "json \<Rightarrow> error + json list" where
  "iterate (JArr xs) = Inr xs"
| "iterate (JStr t) = Inr (map JStr (chars t))"
| "iterate _ = Inl (Error ''existingIds is not iterable'')"

definition addToolToAssistant :: "string \<Rightarrow> string \<Rightarrow> state \<Rightarrow> unit io" where
  "addToolToAssistant assistantId toolId s =
     bind (getAssistantRaw assistantId s)
       (\<lambda>assistant s1.
          (case iterate (if truthy (map_of assistant ''toolIds'')
                         then the_default (JArr []) (map_of assistant ''toolIds'')
                         else JArr []) of
             Inl e \<Rightarrow> (Inl e, s1)
           | Inr existingIds \<Rightarrow>
               patchAssistantRaw assistantId
                 [(''toolIds'', JArr (existingIds @ [JStr toolId]))] s1))"


section \<open>integrations.ts\<close>

text \<open>Text outside ASCII is written as the bytes of the source file.\<close>

definition agentPrefix :: string where
  "agentPrefix = [CHR 0xC3, CHR 0xB0, CHR 0xC5, CHR 0xB8, CHR 0xC2, CHR 0xA4, CHR 0xE2, CHR 0x80, CHR 0x93] @ '' Agent: ''"

text \<open>A value between double quotes, as the templates write it.\<close>

definition quoted :: "string \<Rightarrow> string" where
  "quoted t = [CHR 0x22] @ t @ [CHR 0x22]"

definition emDash :: string where
  "emDash = [CHR 0xE2, CHR 0x80, CHR 0x94]"

definition rightArrow :: string where
  "rightArrow = [CHR 0xE2, CHR 0x86, CHR 0x92]"

definition keyIcon :: string where
  "keyIcon = [CHR 0xF0, CHR 0x9F, CHR 0x94, CHR 0x91]"

definition brainIcon :: string where
  "brainIcon = [CHR 0xF0, CHR 0x9F, CHR 0xA7, CHR 0xA0]"

definition crossIcon :: string where
  "crossIcon = [CHR 0xE2, CHR 0x9D, CHR 0x8C]"

definition checkIcon :: string where
  "checkIcon = [CHR 0xE2, CHR 0x9C, CHR 0x85]"

definition warnIcon :: string where
  "warnIcon = [CHR 0xE2, CHR 0x9A, CHR 0xA0, CHR 0xEF, CHR 0xB8, CHR 0x8F]"

text \<open>
  \<^verbatim>\<open>sendWhatsApp\<close>.  A refusal by the gateway (\<^verbatim>\<open>!res.ok\<close>) is written to the error
  log and returned as \<^verbatim>\<open>{ sent: false }\<close>, not thrown; an answer is returned as
  \<^verbatim>\<open>{ sent: data.sent, id: data.message?.id }\<close>.
\<close>

record SendResult =
  sent :: "json option"
  sentId :: "json option"

definition sendWhatsApp :: "string \<Rightarrow> string \<Rightarrow> state \<Rightarrow> SendResult io" where
  "sendWhatsApp to body s =
     (let chatId = (if CHR ''@'' \<in> set to then to else to @ ''@s.whatsapp.net'')
      in case nextReply (whapiReplies s) of
           (Throws e, rs) \<Rightarrow> (Inl e, s\<lparr>whapiReplies := rs\<rparr>)
         | (Refuses err, rs) \<Rightarrow>
             (Inr \<lparr>sent = Some (JBool False), sentId = None\<rparr>,
              s\<lparr>whapiReplies := rs, errlog := errlog s @ [(''[whapi] send failed:'', Text err)]\<rparr>)
         | (Answers data, rs) \<Rightarrow>
             (Inr \<lparr>sent = map_of data ''sent'',
                   sentId = getProp ''id'' (map_of data ''message'')\<rparr>,
              s\<lparr>whapiReplies := rs, outbox := outbox s @ [(chatId, body)]\<rparr>))"

text \<open>\<^verbatim>\<open>notifyOperator\<close> awaits the send and drops what it returns.\<close>

definition notifyOperator :: "runtime \<Rightarrow> string \<Rightarrow> state \<Rightarrow> unit io" where
  "notifyOperator rt msg s =
     (case env rt ''OPERATOR_PHONE'' of
        None \<Rightarrow> (Inr (), s)
      | Some phone \<Rightarrow>
          if phone = [] then (Inr (), s)
          else bind (sendWhatsApp phone (agentPrefix @ msg) s) (\<lambda>r s1. (Inr (), s1)))"

section \<open>n8n.ts\<close>

text \<open>\<^verbatim>\<open>s.replace(pat, rep)\<close> with a string pattern: the first occurrence only.\<close>

fun replaceFirst :: "string \<Rightarrow> string \<Rightarrow> string \<Rightarrow> string" where
  "replaceFirst pat rep [] = (if pat = [] then rep else [])"
| "replaceFirst pat rep (c # cs) =
     (if take (length pat) (c # cs) = pat then rep @ drop (length pat) (c # cs)
      else c # replaceFirst pat rep cs)"

definition envOr :: "runtime \<Rightarrow> string \<Rightarrow> string" where
  "envOr rt k = (case env rt k of None \<Rightarrow> [] | Some v \<Rightarrow> v)"

definition isN8nConfigured :: "runtime \<Rightarrow> bool" where
  "isN8nConfigured rt = (envOr rt ''N8N_API_URL'' \<noteq> [] \<and> envOr rt ''N8N_API_KEY'' \<noteq> [])"

text \<open>
  \<^verbatim>\<open>createCustomWorkflow\<close>: two requests, \<^verbatim>\<open>createWorkflow\<close> then
  \<^verbatim>\<open>activateWorkflow\<close>, then the webhook address computed from the API address.  The
  node graph sent as the body of the first request is built from the steps without any
  check that can fail; it is not represented, nothing later reads it.
\<close>

definition createCustomWorkflow :: "runtime \<Rightarrow> string \<Rightarrow> string \<Rightarrow> state \<Rightarrow> string io" where
  "createCustomWorkflow rt wname path s =
     (case nextFault (n8nFaults s) of
        (Some e, fs) \<Rightarrow> (Inl e, s\<lparr>n8nFaults := fs\<rparr>)
      | (None, fs) \<Rightarrow>
          (let s1 = s\<lparr>n8nFaults := fs, n8nDeployed := n8nDeployed s @ [(wname, path)]\<rparr>
           in case nextFault (n8nFaults s1) of
                (Some e, fs1) \<Rightarrow> (Inl e, s1\<lparr>n8nFaults := fs1\<rparr>)
              | (None, fs1) \<Rightarrow>
                  (Inr (replaceFirst ''/api/v1'' [] (envOr rt ''N8N_API_URL'') @ ''/webhook/'' @ path),
                   s1\<lparr>n8nFaults := fs1\<rparr>)))"

text \<open>
  The listing of existing workflows made for the prompt: \<^verbatim>\<open>listWorkflows\<close>, then
  \<^verbatim>\<open>getWorkflow\<close> for at most five of them, every failure caught.
\<close>

definition listExistingWorkflows :: "runtime \<Rightarrow> state \<Rightarrow> state" where
  "listExistingWorkflows rt s =
     (if isN8nConfigured rt then
        (case nextFault (n8nFaults s) of
           (Some e, fs) \<Rightarrow> s\<lparr>n8nFaults := fs\<rparr>
         | (None, fs) \<Rightarrow> s\<lparr>n8nFaults := drop (min 5 (length (n8nDeployed s))) fs\<rparr>)
      else s)"

section \<open>tools.ts: creating a capability from source text\<close>

definition buildHandler :: "runtime \<Rightarrow> string \<Rightarrow> error + ToolHandler" where
  "buildHandler rt code = compile rt code"

text \<open>
  The two requests of the provider sync, one after the other, as the \<^verbatim>\<open>try\<close> block
  awaits them: \<^verbatim>\<open>createVapiTool\<close>, then \<^verbatim>\<open>addToolToAssistant\<close> with the identifier
  returned.
\<close>

definition syncRequests :: "runtime \<Rightarrow> ToolSpec \<Rightarrow> string \<Rightarrow> string \<Rightarrow> state \<Rightarrow> unit io" where
  "syncRequests rt spec assistantId serverUrl s =
     bind (createVapiTool rt (specName spec) (serverUrl @ ''/vapi/tool-calls'') s)
       (\<lambda>toolId s1. addToolToAssistant assistantId toolId s1)"

text \<open>The first argument of the \<^verbatim>\<open>console.error\<close> in the \<^verbatim>\<open>catch\<close> block.\<close>

definition syncFailed :: "ToolSpec \<Rightarrow> string" where
  "syncFailed spec = ''[tools] Failed to sync '' @ quoted (specName spec) @ '' to Vapi:''"

definition syncToVapi :: "runtime \<Rightarrow> ToolSpec \<Rightarrow> string \<Rightarrow> string \<Rightarrow> state \<Rightarrow> state" where
  "syncToVapi rt spec assistantId serverUrl s =
     (case syncRequests rt spec assistantId serverUrl s of
        (Inl e, s') \<Rightarrow> s'\<lparr>errlog := errlog s' @ [(syncFailed spec, Thrown e)]\<rparr>
      | (Inr u, s') \<Rightarrow> s')"

text \<open>\<^verbatim>\<open>if (assistantId && serverUrl) { try { ... } catch (err) { ... } }\<close>.\<close>

definition syncIfConfigured :: "runtime \<Rightarrow> ToolSpec \<Rightarrow> state \<Rightarrow> state" where
  "syncIfConfigured rt spec s1 = (case (env rt ''VAPI_ASSISTANT_ID'', env rt ''SERVER_URL'') of
                       (Some assistantId, Some serverUrl) \<Rightarrow>
                         if assistantId \<noteq> [] \<and> serverUrl \<noteq> []
                         then syncToVapi rt spec assistantId serverUrl s1 else s1
                     | _ \<Rightarrow> s1)"

text \<open>The \<^verbatim>\<open>RegisteredTool\<close> object \<^verbatim>\<open>createAndRegisterTool\<close> builds.\<close>

definition newTool :: "ToolSpec \<Rightarrow> ToolHandler \<Rightarrow> nat \<Rightarrow> RegisteredTool" where
  "newTool spec h t =
     \<lparr>name = specName spec, description = specDescription spec,
      parameters = specParameters spec, handler = h,
      createdAt = t, isDynamic = True\<rparr>"

text \<open>The text of the operator notification that ends \<^verbatim>\<open>createAndRegisterTool\<close>.\<close>

definition createdNotice :: "ToolSpec \<Rightarrow> string" where
  "createdNotice spec =
     ''New tool created: '' @ quoted (specName spec) @ '' '' @ emDash @ '' '' @ specDescription spec"

definition createAndRegisterTool :: "runtime \<Rightarrow> ToolSpec \<Rightarrow> state \<Rightarrow> RegisteredTool io" where
  "createAndRegisterTool rt spec s =
     (case buildHandler rt (handlerCode spec) of
        Inl e \<Rightarrow> (Inl e, s)
      | Inr h \<Rightarrow>
          (let tool = newTool spec h (now s);
               s1 = s\<lparr>registry := registerTool tool (registry s)\<rparr>;
               s2 = syncIfConfigured rt spec s1
           in bind (notifyOperator rt (createdNotice spec) s2) (\<lambda>u s3. (Inr tool, s3))))"

text \<open>
  \<^verbatim>\<open>seedTools\<close>, run when the module is loaded: four capabilities registered in this
  order, none of them dynamic.  Their handlers are closures over the integrations;
  \<open>hs\<close> gives the handler bound under each name.
\<close>

definition stringProp :: "string \<Rightarrow> string \<Rightarrow> string \<times> PropSpec" where
  "stringProp k d = (k, \<lparr>ptype = ''string'', pdescription = d\<rparr>)"

definition seedTools :: "(string \<Rightarrow> ToolHandler) \<Rightarrow> nat \<Rightarrow> registry \<Rightarrow> registry" where
  "seedTools hs t reg =
     registerTool
       \<lparr>name = ''escalate_to_operator'',
        description = ''Escalate an issue to a human operator via WhatsApp when the agent cannot handle it'',
        parameters =
          \<lparr>properties = [stringProp ''reason'' ''Why this needs human attention'',
                         stringProp ''context'' ''Relevant details (customer info, shipment ID, etc.)''],
           required = Some [''reason'']\<rparr>,
        handler = hs ''escalate_to_operator'', createdAt = t, isDynamic = False\<rparr>
    (registerTool
       \<lparr>name = ''send_email_notification'',
        description = ''Send an email notification to a customer or internal team via n8n workflow'',
        parameters =
          \<lparr>properties = [stringProp ''to'' ''Recipient email address'',
                         stringProp ''subject'' ''Email subject'',
                         stringProp ''body'' ''Email body text''],
           required = Some [''to'', ''subject'', ''body'']\<rparr>,
        handler = hs ''send_email_notification'', createdAt = t, isDynamic = False\<rparr>
    (registerTool
       \<lparr>name = ''send_customer_whatsapp'',
        description = ''Send a WhatsApp message to a customer with shipment updates or information'',
        parameters =
          \<lparr>properties = [stringProp ''phone'' ''Customer phone number with country code'',
                         stringProp ''message'' ''Message to send''],
           required = Some [''phone'', ''message'']\<rparr>,
        handler = hs ''send_customer_whatsapp'', createdAt = t, isDynamic = False\<rparr>
    (registerTool
       \<lparr>name = ''check_shipment_status'',
        description = ''Check the current status of a shipment by container or booking ID'',
        parameters =
          \<lparr>properties = [stringProp ''shipment_id'' ''Container number or booking reference''],
           required = Some [''shipment_id'']\<rparr>,
        handler = hs ''check_shipment_status'', createdAt = t, isDynamic = False\<rparr>
       reg)))"

section \<open>self-improve.ts: the reasoning gateway\<close>

text \<open>
  \<^verbatim>\<open>text.replace(/```json?\n?/g, "").replace(/```/g, "").trim()\<close>.  The first
  pattern is three backticks, \<^verbatim>\<open>jso\<close>, then an optional \<^verbatim>\<open>n\<close> and an optional line
  feed.
\<close>

definition dropOpt :: "char \<Rightarrow> string \<Rightarrow> string" where
  "dropOpt ch cs = (case cs of [] \<Rightarrow> [] | c # rest \<Rightarrow> if c = ch then rest else cs)"

definition fence :: string where
  "fence = [CHR 0x60, CHR 0x60, CHR 0x60]"

lemma dropOpt_length: "length (dropOpt ch cs) \<le> length cs"
  by (simp add: dropOpt_def split: list.splits)

function stripJsonFences :: "string \<Rightarrow> string" where
  "stripJsonFences [] = []"
| "stripJsonFences (c # cs) =
     (if take 6 (c # cs) = fence @ ''jso''
      then stripJsonFences (dropOpt (CHR 0x0A) (dropOpt CHR ''n'' (drop 6 (c # cs))))
      else c # stripJsonFences cs)"
  by pat_completeness auto
termination
proof (relation "measure length")
  fix c :: char and cs :: string
  have "length (dropOpt (CHR 0x0A) (dropOpt CHR ''n'' (drop 6 (c # cs)))) \<le> length (drop 6 (c # cs))"
    by (rule order.trans [OF dropOpt_length dropOpt_length])
  also have "\<dots> < length (c # cs)" by simp
  finally show "(dropOpt (CHR 0x0A) (dropOpt CHR ''n'' (drop 6 (c # cs))), c # cs) \<in> measure length"
    by simp
qed auto

function stripFences :: "string \<Rightarrow> string" where
  "stripFences [] = []"
| "stripFences (c # cs) =
     (if take 3 (c # cs) = fence then stripFences (drop 3 (c # cs))
      else c # stripFences cs)"
  by pat_completeness auto
termination
  by (relation "measure length") auto

definition cleaned :: "string \<Rightarrow> string" where
  "cleaned body = trim (stripFences (stripJsonFences body))"

text \<open>
  The change-set returned when \<^verbatim>\<open>JSON.parse\<close> throws.  \<open>dash\<close> is what the source file
  holds between "made" and "parse": an em dash in the current file, the bytes
  \<^verbatim>\<open>e2 80 9a c3 84 c3 ae\<close> in the file of the earlier iteration.
\<close>

definition fallbackWith :: "string \<Rightarrow> json \<Rightarrow> json" where
  "fallbackWith dash currentPrompt =
     JObj [(''failures'', JArr [JStr ''Could not parse analysis output'']),
           (''changes'', JArr [JStr (''No changes made '' @ dash @ '' parse error'')]),
           (''configChanges'', JObj [(''systemMessage'', currentPrompt)])]"

definition parseFallback :: "json \<Rightarrow> json" where
  "parseFallback currentPrompt = fallbackWith emDash currentPrompt"

definition garbledDash :: string where
  "garbledDash = [CHR 0xE2, CHR 0x80, CHR 0x9A, CHR 0xC3, CHR 0x84, CHR 0xC3, CHR 0xAE]"

definition parseFallbackEarlier :: "json \<Rightarrow> json" where
  "parseFallbackEarlier currentPrompt = fallbackWith garbledDash currentPrompt"

text \<open>The first argument of the \<^verbatim>\<open>console.error\<close> in the \<^verbatim>\<open>catch\<close> block.\<close>

definition parseFailed :: string where
  "parseFailed = ''[self-improve] Failed to parse analysis:''"

text \<open>
  \<^verbatim>\<open>analyzeTranscriptWithRaw\<close>.  The four arguments go into the request; the reply of
  the reasoning service is \<open>llmReply\<close>, whatever the request.  \<^verbatim>\<open>currentPrompt\<close> is
  declared a string and is whatever the caller holds.  An empty content list makes
  \<^verbatim>\<open>response.content[0].type\<close> throw a TypeError.  What \<^verbatim>\<open>JSON.parse\<close> yields is
  returned as it is.
\<close>

definition analyzeTranscriptWithRaw ::
  "runtime \<Rightarrow> string option \<Rightarrow> json \<Rightarrow> jobj \<Rightarrow> (string \<times> string) list \<Rightarrow> state
     \<Rightarrow> (json \<times> string) io" where
  "analyzeTranscriptWithRaw rt transcript currentPrompt currentConfig existingTools s =
     (let s1 = listExistingWorkflows rt s
      in case llmReply s1 of
           Inl e \<Rightarrow> (Inl e, s1)
         | Inr [] \<Rightarrow> (Inl (cannotRead ''undefined'' ''type''), s1)
         | Inr (block # others) \<Rightarrow>
             (let body = (case block of TextBlock t \<Rightarrow> t | OtherBlock \<Rightarrow> [])
              in case jsonParse rt (cleaned body) of
                   Some parsed \<Rightarrow> (Inr (parsed, body), s1)
                 | None \<Rightarrow>
                     (Inr (parseFallback currentPrompt, body),
                      s1\<lparr>errlog := errlog s1 @ [(parseFailed, Text body)]\<rparr>)))"

text \<open>
  \<^verbatim>\<open>analyzeTranscript\<close>, the earlier iteration of the gateway: no workflow listing, the
  parsed value alone is returned.
\<close>

definition analyzeTranscript ::
  "runtime \<Rightarrow> string option \<Rightarrow> json \<Rightarrow> jobj \<Rightarrow> (string \<times> string) list \<Rightarrow> state
     \<Rightarrow> json io" where
  "analyzeTranscript rt transcript currentPrompt currentConfig existingTools s =
     (case llmReply s of
        Inl e \<Rightarrow> (Inl e, s)
      | Inr [] \<Rightarrow> (Inl (cannotRead ''undefined'' ''type''), s)
      | Inr (block # others) \<Rightarrow>
          (let body = (case block of TextBlock t \<Rightarrow> t | OtherBlock \<Rightarrow> [])
           in case jsonParse rt (cleaned body) of
                Some parsed \<Rightarrow> (Inr parsed, s)
              | None \<Rightarrow>
                  (Inr (parseFallbackEarlier currentPrompt),
                   s\<lparr>errlog := errlog s @ [(parseFailed, Text body)]\<rparr>)))"

section \<open>self-improve.ts: a decoded value read as an AnalysisResult\<close>

text \<open>
  The cast \<^verbatim>\<open>JSON.parse(cleaned) as AnalysisResult\<close> checks nothing.  \<open>asAnalysis\<close>
  says which values are of the declared type, and reads them at that type: the fields
  the interface declares must be there with the types it declares, \<^verbatim>\<open>configChanges\<close>
  apart, which is taken as found.  A field the interface marks optional, and
  \<^verbatim>\<open>steps\<close>, which the pipeline reads behind \<^verbatim>\<open>?.\<close>, may be missing or \<^verbatim>\<open>null\<close>:
  the pipeline treats the two alike.  Fields the interface does not declare are ignored,
  as the code ignores them.
\<close>

fun strOf :: "json option \<Rightarrow> string option" where
  "strOf (Some (JStr t)) = Some t"
| "strOf _ = None"

definition arrOf :: "(json \<Rightarrow> 'a option) \<Rightarrow> json \<Rightarrow> 'a list option" where
  "arrOf f v = (case v of JArr xs \<Rightarrow> those (map f xs) | _ \<Rightarrow> None)"

definition strArr :: "json \<Rightarrow> string list option" where
  "strArr v = arrOf (\<lambda>x. strOf (Some x)) v"

definition needed :: "(json \<Rightarrow> 'a option) \<Rightarrow> json option \<Rightarrow> 'a option" where
  "needed f v = (case v of None \<Rightarrow> None | Some x \<Rightarrow> f x)"

definition optional :: "(json \<Rightarrow> 'a option) \<Rightarrow> json option \<Rightarrow> 'a option option" where
  "optional f v =
     (case v of None \<Rightarrow> Some None | Some JNull \<Rightarrow> Some None | Some x \<Rightarrow> map_option Some (f x))"

definition objOf :: "(json \<Rightarrow> 'a option) \<Rightarrow> json \<Rightarrow> (string \<times> 'a) list option" where
  "objOf f v =
     (case v of
        JObj kvs \<Rightarrow> those (map (\<lambda>(k, x). map_option (Pair k) (f x)) kvs)
      | _ \<Rightarrow> None)"

definition propSpecOf :: "json \<Rightarrow> PropSpec option" where
  "propSpecOf v =
     (case (strOf (getProp ''type'' (Some v)), strOf (getProp ''description'' (Some v))) of
        (Some t, Some d) \<Rightarrow> Some \<lparr>ptype = t, pdescription = d\<rparr>
      | _ \<Rightarrow> None)"

definition toolParametersOf :: "json \<Rightarrow> ToolParameters option" where
  "toolParametersOf v =
     (case (needed (objOf propSpecOf) (getProp ''properties'' (Some v)),
            optional strArr (getProp ''required'' (Some v))) of
        (Some ps, Some req) \<Rightarrow> Some \<lparr>properties = ps, required = req\<rparr>
      | _ \<Rightarrow> None)"

definition toolSpecOf :: "json \<Rightarrow> ToolSpec option" where
  "toolSpecOf v =
     (case (strOf (getProp ''name'' (Some v)), strOf (getProp ''description'' (Some v)),
            needed toolParametersOf (getProp ''parameters'' (Some v)),
            strOf (getProp ''handlerCode'' (Some v))) of
        (Some n, Some d, Some ps, Some code) \<Rightarrow>
          Some \<lparr>specName = n, specDescription = d, specParameters = ps, handlerCode = code\<rparr>
      | _ \<Rightarrow> None)"

definition workflowStepOf :: "json \<Rightarrow> WorkflowStep option" where
  "workflowStepOf v =
     (case (strOf (getProp ''name'' (Some v)), strOf (getProp ''method'' (Some v)),
            strOf (getProp ''url'' (Some v)),
            optional (objOf (\<lambda>x. strOf (Some x))) (getProp ''headers'' (Some v)),
            strOf (getProp ''bodyTemplate'' (Some v))) of
        (Some n, Some m, Some u, Some hs, Some b) \<Rightarrow>
          Some \<lparr>stepName = n, stepMethod = m, stepUrl = u, stepHeaders = hs, bodyTemplate = b\<rparr>
      | _ \<Rightarrow> None)"

definition workflowSpecOf :: "json \<Rightarrow> WorkflowSpec option" where
  "workflowSpecOf v =
     (case (strOf (getProp ''name'' (Some v)), strOf (getProp ''webhookPath'' (Some v)),
            optional (arrOf workflowStepOf) (getProp ''steps'' (Some v))) of
        (Some n, Some p, Some sts) \<Rightarrow> Some \<lparr>wfName = n, webhookPath = p, steps = sts\<rparr>
      | _ \<Rightarrow> None)"

definition asAnalysis :: "json \<Rightarrow> AnalysisResult option" where
  "asAnalysis v =
     (case (needed strArr (getProp ''failures'' (Some v)),
            needed strArr (getProp ''changes'' (Some v)),
            optional (arrOf toolSpecOf) (getProp ''newTools'' (Some v)),
            optional (arrOf workflowSpecOf) (getProp ''newWorkflows'' (Some v)),
            optional strArr (getProp ''resourceRequests'' (Some v))) of
        (Some fs, Some cs, Some tools, Some flows, Some reqs) \<Rightarrow>
          Some \<lparr>aFailures = fs, aChanges = cs, configChanges = getProp ''configChanges'' (Some v),
                newTools = tools, newWorkflows = flows, resourceRequests = reqs\<rparr>
      | _ \<Rightarrow> None)"

section \<open>self-improve.ts: the pipeline\<close>

text \<open>
  \<^verbatim>\<open>logStep\<close> appends to the run's log.  The clock \<open>now\<close> is read and never advanced
  by the model.
\<close>

definition logStep :: "PipelineStep list \<Rightarrow> string \<Rightarrow> StepStatus \<Rightarrow> string \<Rightarrow> state \<Rightarrow> PipelineStep list" where
  "logStep lg stp st det s = lg @ [\<lparr>step = stp, status = st, detail = det, timestamp = now s\<rparr>]"

text \<open>A possibly undefined string inside a template literal.\<close>

definition undefOr :: "string option \<Rightarrow> string" where
  "undefOr v = (case v of None \<Rightarrow> ''undefined'' | Some t \<Rightarrow> t)"

text \<open>
  Step 3: \<^verbatim>\<open>updateAssistant\<close> inside \<^verbatim>\<open>try\<close>; a failure is logged and the run goes on.
  \<^verbatim>\<open>analysis.configChanges\<close> is handed over as found.  The first thing
  \<^verbatim>\<open>updateAssistant\<close> does is read \<^verbatim>\<open>changes.systemMessage\<close>, which throws on
  \<^verbatim>\<open>undefined\<close> and \<^verbatim>\<open>null\<close>; a value that is not an object has none of the
  properties read.
\<close>

definition changesOf :: "json option \<Rightarrow> error + jobj" where
  "changesOf v =
     (case v of
        None \<Rightarrow> Inl (cannotRead ''undefined'' ''systemMessage'')
      | Some JNull \<Rightarrow> Inl (cannotRead ''null'' ''systemMessage'')
      | Some (JObj kvs) \<Rightarrow> Inr kvs
      | Some _ \<Rightarrow> Inr [])"

definition updateWith :: "string \<Rightarrow> json option \<Rightarrow> state \<Rightarrow> unit io" where
  "updateWith assistantId v s =
     (case changesOf v of Inl e \<Rightarrow> (Inl e, s) | Inr chg \<Rightarrow> updateAssistant assistantId chg s)"

text \<open>
  \<^verbatim>\<open>Object.keys(analysis.configChanges).join(", ")\<close>, evaluated once the update has
  returned, so on a value that is neither \<^verbatim>\<open>undefined\<close> nor \<^verbatim>\<open>null\<close>.
\<close>

definition keysText :: "json option \<Rightarrow> string" where
  "keysText v = (case v of None \<Rightarrow> [] | Some x \<Rightarrow> joinWith '', '' (keysOf x))"

definition applyConfig :: "string \<Rightarrow> AnalysisResult \<Rightarrow> PipelineStep list \<Rightarrow> state \<Rightarrow> PipelineStep list \<times> state" where
  "applyConfig assistantId analysis lg s =
     (let lg1 = logStep lg ''update_assistant'' ok
                  ''Applying config changes to Vapi assistant (prompt, maxTokens, voice, etc.)...'' s
      in case updateWith assistantId (configChanges analysis) s of
           (Inl e, s1) \<Rightarrow>
             (logStep lg1 ''update_assistant'' error
                (''Failed to update assistant: '' @ message e) s1, s1)
         | (Inr u, s1) \<Rightarrow>
             (logStep lg1 ''update_assistant'' ok
                (''Updated: '' @ keysText (configChanges analysis)) s1, s1))"

text \<open>
  Step 4, the body of the loop over \<^verbatim>\<open>newTools\<close>.  The smoke test calls the handler once
  with \<^verbatim>\<open>"test"\<close> for a property of type \<^verbatim>\<open>"string"\<close> and \<^verbatim>\<open>0\<close> for any other,
  the properties taken in the order of \<^verbatim>\<open>Object.entries\<close>.  The assignment
  \<^verbatim>\<open>testArgs[key] = ...\<close> under the key \<^verbatim>\<open>__proto__\<close> meets the setter of the
  prototype, which drops a string and a number: no property is made.
\<close>

definition testArgsOf :: "ToolSpec \<Rightarrow> jobj" where
  "testArgsOf spec =
     fold (\<lambda>(key, p). if key = ''__proto__'' then id
                        else AList.update key (if ptype p = ''string'' then JStr ''test'' else JNum 0))
       (ownKeys (properties (specParameters spec))) []"

text \<open>
  The handler's promise and \<^verbatim>\<open>output.slice(0, 100)\<close> are inside one \<^verbatim>\<open>try\<close>: a
  rejection, and an output that has no \<^verbatim>\<open>slice\<close>, are both logged as a failed test.
\<close>

definition smokeTest :: "runtime \<Rightarrow> ToolSpec \<Rightarrow> RegisteredTool \<Rightarrow> PipelineStep list \<Rightarrow> state \<Rightarrow> PipelineStep list \<times> state" where
  "smokeTest rt spec tool lg s =
     (let testArgs = testArgsOf spec;
          s1 = s\<lparr>handlerCalls := handlerCalls s @ [(name tool, testArgs)]\<rparr>
      in case (case handler tool testArgs of
                 Inl e \<Rightarrow> Inl e
               | Inr output \<Rightarrow> sliceOf rt ''output'' 100 output) of
           Inr shown \<Rightarrow>
             (logStep lg ''test_tool'' ok
                (''Tool '' @ quoted (specName spec) @ '' smoke test passed: '' @ shown) s1, s1)
         | Inl e \<Rightarrow>
             (logStep lg ''test_tool'' error
                (''Tool '' @ quoted (specName spec) @ '' smoke test failed: '' @ message e) s1, s1))"

type_synonym toolAcc = "PipelineStep list \<times> string list"

definition createToolStep :: "runtime \<Rightarrow> ToolSpec \<Rightarrow> toolAcc \<Rightarrow> state \<Rightarrow> toolAcc \<times> state" where
  "createToolStep rt spec acc s =
     (case acc of (lg, created) \<Rightarrow>
        (let lg1 = logStep lg ''create_tool'' ok
                     (''Creating tool: '' @ quoted (specName spec) @ '' '' @ emDash @ '' '' @
                      specDescription spec) s
         in case createAndRegisterTool rt spec s of
              (Inl e, s1) \<Rightarrow>
                ((logStep lg1 ''create_tool'' error
                    (''Failed to create tool '' @ quoted (specName spec) @ '': '' @ message e) s1,
                  created), s1)
            | (Inr tool, s1) \<Rightarrow>
                (case smokeTest rt spec tool lg1 s1 of
                   (lg2, s2) \<Rightarrow> ((lg2, created @ [specName spec]), s2))))"

fun createTools :: "runtime \<Rightarrow> ToolSpec list \<Rightarrow> toolAcc \<Rightarrow> state \<Rightarrow> toolAcc \<times> state" where
  "createTools rt [] acc s = (acc, s)"
| "createTools rt (spec # rest) acc s =
     (case createToolStep rt spec acc s of (acc1, s1) \<Rightarrow> createTools rt rest acc1 s1)"

definition createToolsPhase :: "runtime \<Rightarrow> AnalysisResult \<Rightarrow> PipelineStep list \<Rightarrow> state \<Rightarrow> toolAcc \<times> state" where
  "createToolsPhase rt analysis lg s =
     (case newTools analysis of
        Some (spec # rest) \<Rightarrow> createTools rt (spec # rest) (lg, []) s
      | _ \<Rightarrow> ((logStep lg ''create_tool'' skipped ''No new tools requested by analysis'' s, []), s))"

text \<open>
  Step 5, the body of the loop over \<^verbatim>\<open>newWorkflows\<close>: deploy, then create the
  capability that posts to the webhook.  The whole body is one \<^verbatim>\<open>try\<close>; what was
  pushed before a failure stays pushed.
\<close>

definition wireCode :: "string \<Rightarrow> string" where
  "wireCode webhookUrl =
     ''const res = await ctx.fetch('' @ quoted webhookUrl @ '', { method: '' @ quoted ''POST'' @
     '', headers: { '' @ quoted ''Content-Type'' @ '': '' @ quoted ''application/json'' @
     '' }, body: JSON.stringify({ to: args.to, message: args.message }) }); '' @
     ''const data = await res.json(); return JSON.stringify(data);''"

definition wireSpec :: "string \<Rightarrow> string \<Rightarrow> string \<Rightarrow> ToolSpec" where
  "wireSpec toolName wname webhookUrl =
     \<lparr>specName = toolName,
      specDescription = wname @ '' '' @ emDash @ '' triggers n8n workflow via webhook'',
      specParameters =
        \<lparr>properties =
           [(''to'', \<lparr>ptype = ''string'', pdescription = ''Recipient phone number or identifier''\<rparr>),
            (''message'', \<lparr>ptype = ''string'', pdescription = ''Message content to send''\<rparr>)],
         required = Some [''to'', ''message'']\<rparr>,
      handlerCode = wireCode webhookUrl\<rparr>"

text \<open>\<^verbatim>\<open>wf.webhookPath.replace(/-/g, "_")\<close>.\<close>

definition snakeCase :: "string \<Rightarrow> string" where
  "snakeCase path = map (\<lambda>c. if c = CHR ''-'' then CHR ''_'' else c) path"

type_synonym flowAcc = "PipelineStep list \<times> string list \<times> string list"

definition deployWorkflowStep :: "runtime \<Rightarrow> WorkflowSpec \<Rightarrow> flowAcc \<Rightarrow> state \<Rightarrow> flowAcc \<times> state" where
  "deployWorkflowStep rt flow acc s =
     (case acc of (lg, created, flows) \<Rightarrow>
        (case steps flow of
           Some (st # sts) \<Rightarrow>
             (let lg1 = logStep lg ''create_workflow'' ok
                          (''Creating n8n workflow: '' @ quoted (wfName flow) @ '' ('' @
                           showNat (length (st # sts)) @ '' steps)'') s
              in case createCustomWorkflow rt (wfName flow) (webhookPath flow) s of
                   (Inl e, s1) \<Rightarrow>
                     ((logStep lg1 ''create_workflow'' error
                         (''Failed: '' @ quoted (wfName flow) @ '': '' @ message e) s1,
                       created, flows), s1)
                 | (Inr webhookUrl, s1) \<Rightarrow>
                     (let flows1 = flows @ [wfName flow @ '' '' @ rightArrow @ '' '' @ webhookUrl];
                          lg2 = logStep lg1 ''create_workflow'' ok
                                  (''Workflow '' @ quoted (wfName flow) @ '' deployed: '' @ webhookUrl) s1;
                          toolName = snakeCase (webhookPath flow);
                          lg3 = logStep lg2 ''wire_workflow_to_vapi'' ok
                                  (''Creating Vapi tool '' @ quoted toolName @ '' '' @ rightArrow @
                                   '' '' @ webhookUrl) s1
                      in case createAndRegisterTool rt (wireSpec toolName (wfName flow) webhookUrl) s1 of
                           (Inl e, s2) \<Rightarrow>
                             ((logStep lg3 ''create_workflow'' error
                                 (''Failed: '' @ quoted (wfName flow) @ '': '' @ message e) s2,
                               created, flows1), s2)
                         | (Inr tool, s2) \<Rightarrow>
                             ((logStep lg3 ''wire_workflow_to_vapi'' ok
                                 (''Vapi tool '' @ quoted toolName @
                                  '' created and attached to assistant'') s2,
                               created @ [toolName], flows1), s2)))
         | _ \<Rightarrow>
             ((logStep lg ''create_workflow'' skipped
                 (''Workflow '' @ quoted (wfName flow) @ '' has no steps'') s,
               created, flows), s)))"

fun deployWorkflows :: "runtime \<Rightarrow> WorkflowSpec list \<Rightarrow> flowAcc \<Rightarrow> state \<Rightarrow> flowAcc \<times> state" where
  "deployWorkflows rt [] acc s = (acc, s)"
| "deployWorkflows rt (flow # rest) acc s =
     (case deployWorkflowStep rt flow acc s of (acc1, s1) \<Rightarrow> deployWorkflows rt rest acc1 s1)"

text \<open>
  The three branches of step 5.  Without the n8n credentials a resource request is pushed
  onto \<^verbatim>\<open>analysis.resourceRequests\<close>; the phase returns the requests to make next.
\<close>

definition deployWorkflowsPhase ::
  "runtime \<Rightarrow> AnalysisResult \<Rightarrow> toolAcc \<Rightarrow> state \<Rightarrow> (flowAcc \<times> string list) \<times> state" where
  "deployWorkflowsPhase rt analysis acc s =
     (case acc of (lg, created) \<Rightarrow>
        (case newWorkflows analysis of
           Some (flow # rest) \<Rightarrow>
             if isN8nConfigured rt then
               (case deployWorkflows rt (flow # rest) (lg, created, []) s of
                  (acc1, s1) \<Rightarrow> ((acc1, the_default [] (resourceRequests analysis)), s1))
             else
               (((logStep lg ''create_workflow'' error
                    (''n8n not configured (N8N_API_URL or N8N_API_KEY missing) '' @ emDash @
                     '' cannot create workflows'') s,
                  created, []),
                 the_default [] (resourceRequests analysis) @
                 [''Need N8N_API_URL and N8N_API_KEY to create workflows programmatically'']), s)
         | _ \<Rightarrow>
             (((logStep lg ''create_workflow'' skipped ''No new workflows requested by analysis'' s,
                created, []),
               the_default [] (resourceRequests analysis)), s)))"

text \<open>Step 6: one operator notification per request, awaited outside any \<^verbatim>\<open>try\<close>.\<close>

fun requestResources :: "runtime \<Rightarrow> string list \<Rightarrow> PipelineStep list \<Rightarrow> state \<Rightarrow> PipelineStep list io" where
  "requestResources rt [] lg s = (Inr lg, s)"
| "requestResources rt (req # rest) lg s =
     bind (notifyOperator rt (keyIcon @ '' RESOURCE REQUEST: '' @ req) s)
       (\<lambda>u s1. requestResources rt rest (logStep lg ''resource_request'' ok req s1) s1)"

text \<open>
  Step 7: the profile is fetched again; \<^verbatim>\<open>(currentModel?.toolIds || []).length\<close> and
  \<^verbatim>\<open>updated.systemMessage.length\<close> are read inside the \<^verbatim>\<open>try\<close>.
\<close>

definition verifyAssistant :: "runtime \<Rightarrow> string \<Rightarrow> PipelineStep list \<Rightarrow> state \<Rightarrow> PipelineStep list \<times> state" where
  "verifyAssistant rt assistantId lg s =
     (case bind (getAssistant assistantId s)
             (\<lambda>updated s1.
                (let toolIds = getProp ''toolIds'' (map_of (config updated) ''model'');
                     currentToolIds = (if truthy toolIds then toolIds else Some (JArr []))
                 in case lengthOf (systemMessage updated) of
                      Inl e \<Rightarrow> (Inl e, s1)
                    | Inr promptLength \<Rightarrow>
                        (Inr (''Assistant published with '' @ tmpl rt (optLength currentToolIds) @
                              '' tools attached. Prompt length: '' @ tmpl rt promptLength @
                              '' chars''), s1))) of
        (Inl e, s1) \<Rightarrow>
          (logStep lg ''verify_assistant'' error ''Could not verify final assistant state'' s1, s1)
      | (Inr line, s1) \<Rightarrow> (logStep lg ''verify_assistant'' ok line s1, s1))"

definition newline :: string where
  "newline = [CHR 0x0A]"

definition summaryText ::
  "string \<Rightarrow> AnalysisResult \<Rightarrow> string list \<Rightarrow> string list \<Rightarrow> string option \<Rightarrow> string" where
  "summaryText cId analysis created flows number =
     joinWith newline
       ([brainIcon @ '' Self-improvement complete (call '' @ cId @ '')'',
         [],
         ''Failures: '' @ joinWith newline (map (\<lambda>f. crossIcon @ '' '' @ f) (aFailures analysis)),
         ''Changes: '' @ joinWith newline (map (\<lambda>c. checkIcon @ '' '' @ c) (aChanges analysis))] @
        (if created \<noteq> [] then [''Tools: '' @ joinWith '', '' created] else []) @
        (if flows \<noteq> [] then [''Workflows: '' @ joinWith '', '' flows] else []) @
        [if truthyStr number then ''Calling customer back...''
         else ''No customer number '' @ emDash @ '' skipping callback.''])"

text \<open>
  The callback.  \<^verbatim>\<open>record\<close> is the object already pushed onto \<^verbatim>\<open>history\<close> and
  \<^verbatim>\<open>log\<close> the array it holds, so what is appended or assigned here shows in the
  history entry, at index \<open>i\<close>.  The settle delay is time and is not represented.
\<close>

definition callbackPhase ::
  "runtime \<Rightarrow> string \<Rightarrow> string option \<Rightarrow> ImprovementRecord \<Rightarrow> nat \<Rightarrow> state \<Rightarrow> ImprovementRecord io" where
  "callbackPhase rt assistantId number r i s =
     (case (if truthyStr number then number else None) of
        Some n \<Rightarrow>
          (let lg1 = logStep (pipelineLog r) ''callback'' ok (''Triggering callback to '' @ n @ ''...'') s
           in case createOutboundCall rt assistantId n (env rt ''VAPI_PHONE_NUMBER_ID'') s of
                (Inr callbackId, s1) \<Rightarrow>
                  (let r1 = r\<lparr>callbackTriggered := True,
                               pipelineLog := logStep lg1 ''callback'' ok
                                                (''Callback initiated: '' @ callbackId) s1\<rparr>
                   in (Inr r1, s1\<lparr>history := (history s1)[i := r1]\<rparr>))
              | (Inl e, s1) \<Rightarrow>
                  (let r1 = r\<lparr>pipelineLog := logStep lg1 ''callback'' error
                                                (''Callback failed: '' @ message e) s1\<rparr>
                   in bind (notifyOperator rt
                              (warnIcon @ '' Failed to call customer back at '' @ n @ '': '' @ message e)
                              (s1\<lparr>history := (history s1)[i := r1]\<rparr>))
                        (\<lambda>u s2. (Inr r1, s2))))
      | None \<Rightarrow>
          (let r1 = r\<lparr>pipelineLog := logStep (pipelineLog r) ''callback'' skipped
                                        ''No customer number available'' s\<rparr>
           in (Inr r1, s\<lparr>history := (history s)[i := r1]\<rparr>)))"

text \<open>Steps 3 to the end: everything after the two fetches and the analysis.\<close>

definition improve ::
  "runtime \<Rightarrow> string \<Rightarrow> string \<Rightarrow> string option \<Rightarrow> Call \<Rightarrow> Assistant \<Rightarrow> AnalysisResult \<Rightarrow> string
     \<Rightarrow> PipelineStep list \<Rightarrow> state \<Rightarrow> ImprovementRecord io" where
  "improve rt cId assistantId number call assistant analysis raw lg s =
     (case applyConfig assistantId analysis lg s of (lg1, s1) \<Rightarrow>
      case createToolsPhase rt analysis lg1 s1 of (acc2, s2) \<Rightarrow>
      case deployWorkflowsPhase rt analysis acc2 s2 of (((lg3, created, flows), requests), s3) \<Rightarrow>
        bind (requestResources rt requests lg3 s3)
          (\<lambda>lg4 s4.
             case verifyAssistant rt assistantId lg4 s4 of (lg5, s5) \<Rightarrow>
               (let r = \<lparr>callId = cId, customerNumber = number, recTimestamp = now s5,
                         recTranscript = ctranscript call,
                         failures = aFailures analysis, changes = aChanges analysis,
                         toolsCreated = created, workflowsCreated = flows,
                         configBefore = config assistant, configAfter = configChanges analysis,
                         callbackTriggered = False, rawAnalysis = raw, pipelineLog = lg5\<rparr>
                in bind (notifyOperator rt (summaryText cId analysis created flows number)
                           (s5\<lparr>history := history s5 @ [r]\<rparr>))
                     (\<lambda>u s6. callbackPhase rt assistantId number r (length (history s5)) s6))))"

text \<open>
  The entries logged before the analysis.  \<open>shown\<close> is the head of the prompt,
  \<^verbatim>\<open>assistant.systemMessage.slice(0, 80)\<close>.
\<close>

definition openingLog ::
  "string \<Rightarrow> Call \<Rightarrow> string \<Rightarrow> RegisteredTool list \<Rightarrow> state \<Rightarrow> state \<Rightarrow> state \<Rightarrow> PipelineStep list" where
  "openingLog cId call shown existingTools s s1 s2 =
     (let lg0 = logStep [] ''fetch_transcript'' ok (''Fetching call '' @ cId @ '' from Vapi...'') s;
          lg1 = logStep lg0 ''fetch_transcript'' ok
                  (''Got transcript ('' @
                   showNat (case ctranscript call of None \<Rightarrow> 0 | Some t \<Rightarrow> units t) @
                   '' chars), status='' @ cstatus call @ '', ended='' @
                   undefOr (endedReason call)) s1;
          lg2 = logStep lg1 ''fetch_assistant'' ok ''Fetching current assistant config...'' s1;
          lg3 = logStep lg2 ''fetch_assistant'' ok (''Current prompt: '' @ shown @ ''...'') s2;
          lg4 = logStep lg3 ''check_tools'' ok
                  (showNat (length existingTools) @ '' existing tools: '' @
                   (if joinWith '', '' (map name existingTools) = [] then ''none''
                    else joinWith '', '' (map name existingTools))) s2;
          lg5 = logStep lg4 ''transcript_preview'' ok
                  (case ctranscript call of
                     None \<Rightarrow> ''(empty)''
                   | Some t \<Rightarrow> if sliceTo 300 t = [] then ''(empty)'' else sliceTo 300 t) s2
      in logStep lg5 ''ai_analysis'' ok ''Sending transcript to Claude for analysis...'' s2)"

text \<open>
  The entry logged after the analysis, still inside its \<^verbatim>\<open>try\<close>:
  \<^verbatim>\<open>analysis.failures.length\<close> and \<^verbatim>\<open>analysis.changes.length\<close> throw when the value
  is \<^verbatim>\<open>null\<close> or has no such field, and the error is rethrown as a failure of the
  analysis.
\<close>

definition orElse :: "json option \<Rightarrow> json \<Rightarrow> json option" where
  "orElse v d = (if truthy v then v else Some d)"

definition analysisLine :: "runtime \<Rightarrow> json \<Rightarrow> error + string" where
  "analysisLine rt analysis =
     (if analysis = JNull then Inl (cannotRead ''null'' ''failures'')
      else case lengthOf (getProp ''failures'' (Some analysis)) of
             Inl e \<Rightarrow> Inl e
           | Inr failureCount \<Rightarrow>
               (case lengthOf (getProp ''changes'' (Some analysis)) of
                  Inl e \<Rightarrow> Inl e
                | Inr changeCount \<Rightarrow>
                    Inr (''Claude identified '' @ tmpl rt failureCount @ '' failures, '' @
                         tmpl rt changeCount @ '' changes, '' @
                         tmpl rt (orElse (optLength (getProp ''newTools'' (Some analysis))) (natNum 0)) @
                         '' new tools, '' @
                         tmpl rt (orElse (optLength (getProp ''newWorkflows'' (Some analysis))) (natNum 0)) @
                         '' new workflows'')))"

text \<open>
  From the value the gateway returned to the end of the run.  A value of the declared
  type goes through steps 3 to the end as written; what the same code does with any
  other value that got past the entry above is \<open>offContract\<close>.
\<close>

definition afterAnalysis ::
  "runtime \<Rightarrow> string \<Rightarrow> string \<Rightarrow> string option \<Rightarrow> Call \<Rightarrow> Assistant \<Rightarrow> json \<Rightarrow> string
     \<Rightarrow> PipelineStep list \<Rightarrow> state \<Rightarrow> ImprovementRecord io" where
  "afterAnalysis rt cId assistantId number call assistant parsed raw lg s =
     (case analysisLine rt parsed of
        Inl e \<Rightarrow> (Inl e, s)
      | Inr line \<Rightarrow>
          (case asAnalysis parsed of
             Some analysis \<Rightarrow>
               improve rt cId assistantId number call assistant analysis raw
                 (logStep lg ''ai_analysis'' ok line s) s
           | None \<Rightarrow>
               offContract rt parsed cId assistantId number call assistant raw
                 (logStep lg ''ai_analysis'' ok line s) s))"

text \<open>
  \<^verbatim>\<open>analyzeAndImprove\<close>.  A rejection of \<^verbatim>\<open>getCall\<close>, \<^verbatim>\<open>getAssistant\<close> or the
  analysis is rethrown; the log, a local array, is lost with it.  So is the TypeError of
  \<^verbatim>\<open>assistant.systemMessage.slice(0, 80)\<close>, which is outside any \<^verbatim>\<open>try\<close>.
\<close>

definition analyzeAndImprove ::
  "runtime \<Rightarrow> string \<Rightarrow> string \<Rightarrow> string option \<Rightarrow> state \<Rightarrow> ImprovementRecord io" where
  "analyzeAndImprove rt cId assistantId number s =
     bind (getCall cId s)
       (\<lambda>call s1.
          bind (getAssistant assistantId s1)
            (\<lambda>assistant s2.
               (case systemMessage assistant of
                  None \<Rightarrow> (Inl (cannotRead ''undefined'' ''slice''), s2)
                | Some prompt \<Rightarrow>
                    (case sliceText rt ''assistant.systemMessage'' 80 prompt of
                       Inl e \<Rightarrow> (Inl e, s2)
                     | Inr shown \<Rightarrow>
                         bind (analyzeTranscriptWithRaw rt (ctranscript call) prompt
                                 (config assistant)
                                 (map (\<lambda>t. (name t, description t)) (getAllTools (registry s2))) s2)
                           (\<lambda>result s3.
                              (case result of (parsed, raw) \<Rightarrow>
                                 afterAnalysis rt cId assistantId number call assistant parsed raw
                                   (openingLog cId call shown (getAllTools (registry s2)) s s1 s2)
                                   s3))))))"

section \<open>baseline.ts\<close>

definition BASELINE :: jobj where
  "BASELINE =
     [(''systemMessage'',
       JStr (''You are a logistics assistant for Ruya Logistics in Dubai. You help customers '' @
             ''with shipping and container inquiries from Jebel Ali port.'')),
      (''maxTokens'', JNum 250),
      (''voiceSpeed'', JNum 1),
      (''firstMessage'', JStr ''Hello, this is Ruya Logistics.''),
      (''silenceTimeoutSeconds'', JNum 10),
      (''toolIds'', JArr []),
      (''messagePlan'',
       JObj [(''idleMessages'', JArr []),
             (''idleTimeoutSeconds'', JNum 10),
             (''idleMessageMaxSpokenCount'', JNum 0)])]"

definition clearHistory :: "state \<Rightarrow> state" where
  "clearHistory s = s\<lparr>history := []\<rparr>"

definition resetToBaseline :: "string \<Rightarrow> state \<Rightarrow> unit io" where
  "resetToBaseline assistantId s =
     bind (updateAssistant assistantId BASELINE s)
       (\<lambda>u s1. (Inr (), clearHistory (s1\<lparr>registry := clearDynamicTools (registry s1)\<rparr>)))"

section \<open>index.ts: the end-of-call webhook\<close>

text \<open>The fields of \<^verbatim>\<open>VapiServerMessage\<close> the handler reads; each may be missing.\<close>

record ServerMessage =
  msgType :: "string option"
  msgCallId :: "string option"
  msgAssistantId :: "string option"
  msgEndedReason :: "string option"
  msgCustomerNumber :: "string option"

definition badEndings :: "string list" where
  "badEndings = [''customer-ended-call'', ''customer-did-not-answer'', ''customer-busy'']"

definition shouldImprove :: "string option \<Rightarrow> bool" where
  "shouldImprove reason =
     (case reason of None \<Rightarrow> False | Some r \<Rightarrow> r \<noteq> [] \<and> r \<in> set badEndings)"

text \<open>\<^verbatim>\<open>payload.message.call?.assistantId || process.env.VAPI_ASSISTANT_ID\<close>.\<close>

definition resolveAssistantId :: "runtime \<Rightarrow> ServerMessage \<Rightarrow> string option" where
  "resolveAssistantId rt m =
     (if truthyStr (msgAssistantId m) then msgAssistantId m else env rt ''VAPI_ASSISTANT_ID'')"

text \<open>
  The arguments \<^verbatim>\<open>analyzeAndImprove\<close> is called with, or \<open>None\<close> when the handler does
  not call it.
\<close>

definition pipelineTrigger :: "runtime \<Rightarrow> ServerMessage \<Rightarrow> (string \<times> string \<times> string option) option" where
  "pipelineTrigger rt m =
     (if msgType m = Some ''end-of-call-report'' then
        (let assistantId = resolveAssistantId rt m
         in case (msgCallId m, assistantId) of
              (Some c, Some a) \<Rightarrow>
                if c \<noteq> [] \<and> a \<noteq> [] \<and> shouldImprove (msgEndedReason m)
                then Some (c, a, msgCustomerNumber m) else None
            | _ \<Rightarrow> None)
      else None)"

text \<open>
  The handler answers \<^verbatim>\<open>{ ok: true }\<close> in every case.  The pipeline it starts is not
  awaited; the state returned is the one reached once that detached run has ended, its
  rejection written to the error log by the \<^verbatim>\<open>catch\<close> handler.
\<close>

definition serverMessage :: "runtime \<Rightarrow> ServerMessage \<Rightarrow> state \<Rightarrow> json \<times> state" where
  "serverMessage rt m s =
     (JObj [(''ok'', JBool True)],
      case pipelineTrigger rt m of
        None \<Rightarrow> s
      | Some (c, a, number) \<Rightarrow>
          (case analyzeAndImprove rt c a number s of
             (Inl e, s1) \<Rightarrow> s1\<lparr>errlog := errlog s1 @ [(''[self-improve] Pipeline error:'', Thrown e)]\<rparr>
           | (Inr r, s1) \<Rightarrow> s1))"

section \<open>index.ts: the reset endpoint called again\<close>

text \<open>
  \<open>n\<close> further calls of \<^verbatim>\<open>resetToBaseline\<close> on the same profile, each answered with
  200 or 500 as the call returns or throws; the state goes from one call to the next.
\<close>

fun resetAgain :: "nat \<Rightarrow> string \<Rightarrow> state \<Rightarrow> state" where
  "resetAgain 0 assistantId s = s"
| "resetAgain (Suc n) assistantId s = resetAgain n assistantId (snd (resetToBaseline assistantId s))"

section \<open>Conditions on a run\<close>

text \<open>No send to the messaging gateway throws: no entry left in its schedule is \<open>Throws\<close>.\<close>

fun throws :: "whapi \<Rightarrow> bool" where
  "throws (Throws e) = True"
| "throws (Refuses err) = False"
| "throws (Answers data) = False"

definition quiet :: "state \<Rightarrow> bool" where
  "quiet s = (\<forall>r \<in> set (whapiReplies s). \<not> throws r)"

text \<open>
  What every step of the pipeline before the record is pushed leaves alone: the history
  and the clock; and a quiet gateway stays quiet.
\<close>

definition kept :: "state \<Rightarrow> state \<Rightarrow> bool" where
  "kept s s' = (history s' = history s \<and> now s' = now s \<and> (quiet s \<longrightarrow> quiet s'))"

text \<open>
  What a request to an external service leaves alone: the module-level variables of the
  process, the clock, the pending reply of the reasoning service, the handler trace; and
  it consumes the gateway's schedule from the front at most.
\<close>

definition frame :: "state \<Rightarrow> state \<Rightarrow> bool" where
  "frame s s' =
     (registry s' = registry s \<and> history s' = history s \<and> handlerCalls s' = handlerCalls s \<and>
      now s' = now s \<and> llmReply s' = llmReply s \<and> (quiet s \<longrightarrow> quiet s'))"

section \<open>Sample values for the concrete instances\<close>

text \<open>A capability whose handler answers with a fixed text, or throws.\<close>

definition sampleTool :: "string \<Rightarrow> string \<Rightarrow> bool \<Rightarrow> RegisteredTool" where
  "sampleTool n answer dyn =
     \<lparr>name = n, description = ''sample'',
      parameters = \<lparr>properties = [], required = None\<rparr>,
      handler = (\<lambda>args. if answer = [] then Inl (Error ''boom'') else Inr (Some (JStr answer))),
      createdAt = 0, isDynamic = dyn\<rparr>"

text \<open>A process that has just started, with no service holding anything.\<close>

definition idleState :: state where
  "idleState =
     \<lparr>registry = [], history = [], errlog = [], now = 0,
      assistants = (\<lambda>a. None), calls = (\<lambda>c. None), vapiFaults = [], vapiMinted = 0,
      vapiTools = [], outbound = [], whapiReplies = [], outbox = [],
      n8nFaults = [], n8nDeployed = [], llmReply = Inr [], handlerCalls = []\<rparr>"

text \<open>A live profile in the provider's current format, with its LLM settings under \<^verbatim>\<open>model\<close>.\<close>

definition liveProfile :: jobj where
  "liveProfile =
     [(''name'', JStr ''Ruya Logistics''),
      (''instructions'', JStr ''You are a logistics assistant.''),
      (''model'', JObj [(''provider'', JStr ''openai''), (''model'', JStr ''gpt-4o''),
                        (''temperature'', JNum (7 / 10)),
                        (''maxTokens'', JNum 250)]),
      (''voice'', JObj [(''provider'', JStr ''11labs''), (''voiceId'', JStr ''kdmDKE6EkgrWrrykO9Qt'')]),
      (''firstMessage'', JStr ''Hello, this is Ruya Logistics.''),
      (''serverUrl'', JStr ''https://agent.example/vapi''),
      (''silenceTimeoutSeconds'', JNum 10)]"

definition withAssistant :: "string \<Rightarrow> jobj \<Rightarrow> state \<Rightarrow> state" where
  "withAssistant assistantId profile s =
     s\<lparr>assistants := (\<lambda>a. if a = assistantId then Some profile else assistants s a)\<rparr>"

text \<open>
  A profile in the older format, whose system entry holds a list of content parts where
  the code expects a text.
\<close>

definition partsProfile :: jobj where
  "partsProfile =
     [(''name'', JStr ''Ruya Logistics''),
      (''model'',
       JObj [(''provider'', JStr ''openai''), (''model'', JStr ''gpt-4o''),
             (''messages'',
              JArr [JObj [(''role'', JStr ''system''),
                          (''content'', JObj [(''type'', JStr ''text''),
                                              (''text'', JStr ''You are a logistics assistant.'')])]])])]"

text \<open>
  Three replies of the reasoning service, as JSON text, with the values \<^verbatim>\<open>JSON.parse\<close>
  yields for them: one asks for two capabilities, the source of the first of which does
  not compile; one asks for one automation; one holds a list of failures and nothing
  else.
\<close>

definition dq :: string where
  "dq = [CHR 0x22]"

definition toolsReplyText :: string where
  "toolsReplyText =
    ''{'' @ dq @ ''failures'' @ dq @ '':['' @ dq @ ''Agent could not track the container'' @
     dq @ ''],'' @ dq @ ''changes'' @ dq @ '':['' @ dq @ ''Added a tracking tool'' @ dq @
     ''],'' @ dq @ ''configChanges'' @ dq @ '':{},'' @ dq @ ''newTools'' @ dq @ '':[{'' @ dq @
     ''name'' @ dq @ '':'' @ dq @ ''broken_tool'' @ dq @ '','' @ dq @ ''description'' @ dq @
     '':'' @ dq @ ''Does not parse'' @ dq @ '','' @ dq @ ''parameters'' @ dq @ '':{'' @ dq @
     ''type'' @ dq @ '':'' @ dq @ ''object'' @ dq @ '','' @ dq @ ''properties'' @ dq @
     '':{},'' @ dq @ ''required'' @ dq @ '':[]},'' @ dq @ ''handlerCode'' @ dq @ '':'' @ dq @
     ''return )'' @ dq @ ''},{'' @ dq @ ''name'' @ dq @ '':'' @ dq @ ''track_container'' @
     dq @ '','' @ dq @ ''description'' @ dq @ '':'' @ dq @ ''Track a container'' @ dq @
     '','' @ dq @ ''parameters'' @ dq @ '':{'' @ dq @ ''type'' @ dq @ '':'' @ dq @
     ''object'' @ dq @ '','' @ dq @ ''properties'' @ dq @ '':{'' @ dq @ ''id'' @ dq @ '':{'' @
     dq @ ''type'' @ dq @ '':'' @ dq @ ''string'' @ dq @ '','' @ dq @ ''description'' @ dq @
     '':'' @ dq @ ''Container id'' @ dq @ ''},'' @ dq @ ''count'' @ dq @ '':{'' @ dq @
     ''type'' @ dq @ '':'' @ dq @ ''number'' @ dq @ '','' @ dq @ ''description'' @ dq @
     '':'' @ dq @ ''How many'' @ dq @ ''}},'' @ dq @ ''required'' @ dq @ '':['' @ dq @
     ''id'' @ dq @ '']},'' @ dq @ ''handlerCode'' @ dq @ '':'' @ dq @ ''return String(1)'' @
     dq @ ''}]}''"

definition toolsValue :: json where
  "toolsValue =
     JObj [(''failures'', JArr [JStr ''Agent could not track the container'']),
           (''changes'', JArr [JStr ''Added a tracking tool'']),
           (''configChanges'', JObj []),
           (''newTools'',
            JArr [JObj [(''name'', JStr ''broken_tool''),
                        (''description'', JStr ''Does not parse''),
                        (''parameters'',
                         JObj [(''type'', JStr ''object''), (''properties'', JObj []),
                               (''required'', JArr [])]),
                        (''handlerCode'', JStr ''return )'')],
                  JObj [(''name'', JStr ''track_container''),
                        (''description'', JStr ''Track a container''),
                        (''parameters'',
                         JObj [(''type'', JStr ''object''),
                               (''properties'',
                                JObj [(''id'', JObj [(''type'', JStr ''string''),
                                                     (''description'', JStr ''Container id'')]),
                                      (''count'', JObj [(''type'', JStr ''number''),
                                                        (''description'', JStr ''How many'')])]),
                               (''required'', JArr [JStr ''id''])]),
                        (''handlerCode'', JStr ''return String(1)'')]])]"

definition flowReplyText :: string where
  "flowReplyText =
    ''{'' @ dq @ ''failures'' @ dq @ '':['' @ dq @
     ''Agent could not send a WhatsApp message'' @ dq @ ''],'' @ dq @ ''changes'' @ dq @
     '':['' @ dq @ ''Added a WhatsApp workflow'' @ dq @ ''],'' @ dq @ ''configChanges'' @ dq @
     '':{},'' @ dq @ ''newWorkflows'' @ dq @ '':[{'' @ dq @ ''type'' @ dq @ '':'' @ dq @
     ''custom'' @ dq @ '','' @ dq @ ''name'' @ dq @ '':'' @ dq @ ''Send Customer WhatsApp'' @
     dq @ '','' @ dq @ ''webhookPath'' @ dq @ '':'' @ dq @ ''send-customer-whatsapp'' @ dq @
     '','' @ dq @ ''steps'' @ dq @ '':[{'' @ dq @ ''name'' @ dq @ '':'' @ dq @
     ''Send via Whapi'' @ dq @ '','' @ dq @ ''method'' @ dq @ '':'' @ dq @ ''POST'' @ dq @
     '','' @ dq @ ''url'' @ dq @ '':'' @ dq @ ''https://gate.whapi.cloud/messages/text'' @
     dq @ '','' @ dq @ ''bodyTemplate'' @ dq @ '':'' @ dq @ ''={}'' @ dq @ ''}]}]}''"

definition flowValue :: json where
  "flowValue =
     JObj [(''failures'', JArr [JStr ''Agent could not send a WhatsApp message'']),
           (''changes'', JArr [JStr ''Added a WhatsApp workflow'']),
           (''configChanges'', JObj []),
           (''newWorkflows'',
            JArr [JObj [(''type'', JStr ''custom''),
                        (''name'', JStr ''Send Customer WhatsApp''),
                        (''webhookPath'', JStr ''send-customer-whatsapp''),
                        (''steps'',
                         JArr [JObj [(''name'', JStr ''Send via Whapi''),
                                     (''method'', JStr ''POST''),
                                     (''url'', JStr ''https://gate.whapi.cloud/messages/text''),
                                     (''bodyTemplate'', JStr ''={}'')]])]])]"

definition partialReplyText :: string where
  "partialReplyText =
     ''{'' @ dq @ ''failures'' @ dq @ '':['' @ dq @ ''Agent was rude'' @ dq @ '']}''"

definition partialValue :: json where
  "partialValue = JObj [(''failures'', JArr [JStr ''Agent was rude''])]"

definition brokenSpec :: ToolSpec where
  "brokenSpec =
     \<lparr>specName = ''broken_tool'', specDescription = ''Does not parse'',
      specParameters = \<lparr>properties = [], required = Some []\<rparr>,
      handlerCode = ''return )''\<rparr>"

definition trackSpec :: ToolSpec where
  "trackSpec =
     \<lparr>specName = ''track_container'', specDescription = ''Track a container'',
      specParameters =
        \<lparr>properties = [(''id'', \<lparr>ptype = ''string'', pdescription = ''Container id''\<rparr>),
                       (''count'', \<lparr>ptype = ''number'', pdescription = ''How many''\<rparr>)],
         required = Some [''id'']\<rparr>,
      handlerCode = ''return String(1)''\<rparr>"

definition toolsAnalysis :: AnalysisResult where
  "toolsAnalysis =
     \<lparr>aFailures = [''Agent could not track the container''],
      aChanges = [''Added a tracking tool''],
      configChanges = Some (JObj []),
      newTools = Some [brokenSpec, trackSpec],
      newWorkflows = None, resourceRequests = None\<rparr>"

definition flowAnalysis :: AnalysisResult where
  "flowAnalysis =
     \<lparr>aFailures = [''Agent could not send a WhatsApp message''],
      aChanges = [''Added a WhatsApp workflow''],
      configChanges = Some (JObj []),
      newTools = None,
      newWorkflows =
        Some [\<lparr>wfName = ''Send Customer WhatsApp'', webhookPath = ''send-customer-whatsapp'',
               steps = Some [\<lparr>stepName = ''Send via Whapi'', stepMethod = ''POST'',
                              stepUrl = ''https://gate.whapi.cloud/messages/text'',
                              stepHeaders = None, bodyTemplate = ''={}''\<rparr>]\<rparr>],
      resourceRequests = None\<rparr>"

text \<open>
  A JavaScript engine cut down to the texts used below.  Of the handler sources: one
  returns a text, one returns a number, one throws, the one posting to a webhook returns
  the answer of the webhook (here \<^verbatim>\<open>{}\<close>), and anything else is a SyntaxError.  Of the
  texts handed to \<^verbatim>\<open>JSON.parse\<close>: the three replies above are parsed, anything else
  is a SyntaxError.
\<close>

definition sampleCompile :: "string \<Rightarrow> error + ToolHandler" where
  "sampleCompile code =
     (if code = ''return String(1)'' then Inr (\<lambda>args. Inr (Some (JStr ''1'')))
      else if code = ''return 1'' then Inr (\<lambda>args. Inr (Some (JNum 1)))
      else if code = ''throw new Error(String(2))'' then Inr (\<lambda>args. Inl (Error ''2''))
      else if take 27 code = ''const res = await ctx.fetch'' then Inr (\<lambda>args. Inr (Some (JStr ''{}'')))
      else Inl (Error ''SyntaxError: Unexpected token''))"

definition sampleParse :: "string \<Rightarrow> json option" where
  "sampleParse body =
     (if body = toolsReplyText then Some toolsValue
      else if body = flowReplyText then Some flowValue
      else if body = partialReplyText then Some partialValue
      else None)"

definition sampleRuntime :: runtime where
  "sampleRuntime =
     \<lparr>env = map_of [(''N8N_API_URL'', ''https://n8n.example/api/v1''), (''N8N_API_KEY'', ''secret'')],
      compile = sampleCompile, jsonParse = sampleParse, numText = (\<lambda>q. ''NaN''),
      mintId = (\<lambda>n. ''id-'' @ showNat n),
      offContract = (\<lambda>parsed cId assistantId number call assistant raw lg s.
                       (Inl (Error ''not an AnalysisResult''), s))\<rparr>"

definition sampleCall :: Call where
  "sampleCall =
     \<lparr>cid = ''call-1'', cstatus = ''ended'',
      ctranscript = Some ''Customer: where is my container?'',
      endedReason = Some ''customer-ended-call''\<rparr>"

text \<open>
  A process with no capability yet, one call and one assistant at the provider, the n8n
  credentials set, no operator phone, and every service answering.
\<close>

definition sampleState :: "string \<Rightarrow> state" where
  "sampleState reply =
     idleState\<lparr>assistants := (\<lambda>a. if a = ''asst'' then Some liveProfile else None),
               calls := (\<lambda>c. if c = ''call-1'' then Some sampleCall else None),
               llmReply := Inr [TextBlock reply]\<rparr>"

definition samplePrompt :: json where
  "samplePrompt = JStr ''You are a logistics assistant.''"

definition sampleAssistant :: Assistant where
  "sampleAssistant = \<lparr>systemMessage = Some samplePrompt, config = liveProfile\<rparr>"

text \<open>
  The capability that wires the automation of the second reply, and the state after that
  automation is deployed and wired, in a process that started with the registry \<open>reg\<close>.
\<close>

definition wiringTool :: RegisteredTool where
  "wiringTool =
     newTool (wireSpec ''send_customer_whatsapp'' ''Send Customer WhatsApp''
                ''https://n8n.example/webhook/send-customer-whatsapp'')
       (\<lambda>args. Inr (Some (JStr ''{}''))) 0"

definition wiredState :: "registry \<Rightarrow> state" where
  "wiredState reg =
     (sampleState flowReplyText)
       \<lparr>registry := registerTool wiringTool reg,
         n8nDeployed := [(''Send Customer WhatsApp'', ''send-customer-whatsapp'')]\<rparr>"

text \<open>An end-of-call report for the sample call, with the given end reason.\<close>

definition endOfCall :: "string \<Rightarrow> ServerMessage" where
  "endOfCall reason =
     \<lparr>msgType = Some ''end-of-call-report'', msgCallId = Some ''call-1'',
      msgAssistantId = Some ''asst'', msgEndedReason = Some reason,
      msgCustomerNumber = Some ''+971500000000''\<rparr>"

text \<open>
  Two requested capabilities with the same parameters: the handler of the first throws
  whenever it is called, the handler of the second returns a number.
\<close>

definition flakySpec :: ToolSpec where
  "flakySpec =
     \<lparr>specName = ''check_eta'', specDescription = ''Estimate the arrival of a container'',
      specParameters =
        \<lparr>properties = [(''id'', \<lparr>ptype = ''string'', pdescription = ''Container id''\<rparr>),
                       (''count'', \<lparr>ptype = ''number'', pdescription = ''How many''\<rparr>)],
         required = Some [''id'']\<rparr>,
      handlerCode = ''throw new Error(String(2))''\<rparr>"

definition countSpec :: ToolSpec where
  "countSpec = flakySpec\<lparr>specName := ''count_containers'', handlerCode := ''return 1''\<rparr>"

text \<open>The sample runtime with the provider sync switched on and an operator phone set.\<close>

definition syncRuntime :: runtime where
  "syncRuntime =
     sampleRuntime\<lparr>env := map_of [(''VAPI_ASSISTANT_ID'', ''asst''),
                                   (''SERVER_URL'', ''https://agent.example''),
                                   (''OPERATOR_PHONE'', ''+971501111111'')]\<rparr>"

text \<open>
  The sample state with the provider refusing the first request of the sync; and with
  the provider creating the tool and refusing the request after it, the first of
  \<^verbatim>\<open>addToolToAssistant\<close>, while the messaging gateway refuses the operator notification.
\<close>

definition providerDown :: state where
  "providerDown =
     (sampleState toolsReplyText)
       \<lparr>vapiFaults := [Some (Error ''Vapi POST /tool failed (503): unavailable'')]\<rparr>"

definition attachDown :: state where
  "attachDown =
     (sampleState toolsReplyText)
       \<lparr>vapiFaults := [None, Some (Error ''Vapi GET /assistant/asst failed (503): unavailable'')],
         whapiReplies := [Refuses ''token expired'']\<rparr>"

text \<open>A record left by an earlier run.\<close>

definition sampleRecord :: ImprovementRecord where
  "sampleRecord =
     \<lparr>callId = ''call-0'', customerNumber = None, recTimestamp = 0, recTranscript = None,
      failures = [''Agent could not track the container''], changes = [''Added a tracking tool''],
      toolsCreated = [''track_container''], workflowsCreated = [],
      configBefore = liveProfile, configAfter = Some (JObj []), callbackTriggered = False,
      rawAnalysis = toolsReplyText, pipelineLog = []\<rparr>"

text \<open>A process that has run before: one seed capability, one synthesized, one record.\<close>

definition busyState :: state where
  "busyState =
     (sampleState toolsReplyText)
       \<lparr>registry := [(''lookup'', sampleTool ''lookup'' ''found'' False),
                     (''track_container'', sampleTool ''track_container'' ''1'' True)],
         history := [sampleRecord]\<rparr>"

text \<open>
  The process as it starts: the registry holds the four seed capabilities, whatever
  their handlers.
\<close>

definition bootState :: "(string \<Rightarrow> ToolHandler) \<Rightarrow> string \<Rightarrow> state" where
  "bootState hs reply = (sampleState reply)\<lparr>registry := seedTools hs 0 []\<rparr>"

text \<open>
  The process that has just taken the call of the sample, with a given registry, the
  reasoning model answering the change-set that asks for one automation.
\<close>

definition flowStart :: "registry \<Rightarrow> state" where
  "flowStart reg = (sampleState flowReplyText)\<lparr>registry := reg\<rparr>"

section \<open>Properties of the registry\<close>

lemma clearLoop_filter:
  "clearLoop todo reg =
     filter (\<lambda>e. fst e \<notin> set (map fst (filter (\<lambda>d. isDynamic (snd d)) todo))) reg"
proof (induction todo arbitrary: reg)
  case Nil
  show ?case by simp
next
  case (Cons e todo)
  obtain n t where e: "e = (n, t)" by (cases e)
  show ?case
    using Cons.IH e by (auto simp: AList.delete_eq intro!: filter_cong)
qed

lemma clearDynamicTools_filter:
  assumes "wfRegistry reg"
  shows "clearDynamicTools reg = filter (\<lambda>e. \<not> isDynamic (snd e)) reg"
proof -
  have "(fst e \<notin> set (map fst (filter (\<lambda>d. isDynamic (snd d)) reg))) = (\<not> isDynamic (snd e))"
    if "e \<in> set reg" for e
  proof
    assume "fst e \<notin> set (map fst (filter (\<lambda>d. isDynamic (snd d)) reg))"
    then show "\<not> isDynamic (snd e)" using that by force
  next
    assume nd: "\<not> isDynamic (snd e)"
    show "fst e \<notin> set (map fst (filter (\<lambda>d. isDynamic (snd d)) reg))"
    proof
      assume "fst e \<in> set (map fst (filter (\<lambda>d. isDynamic (snd d)) reg))"
      then obtain d where d: "d \<in> set reg" "isDynamic (snd d)" "fst d = fst e" by auto
      from assms have "inj_on fst (set reg)"
        unfolding wfRegistry_def by (simp add: distinct_map)
      with d(1,3) that have "d = e" by (auto dest: inj_onD)
      with nd d(2) show False by simp
    qed
  qed
  then show ?thesis
    unfolding clearDynamicTools_def clearLoop_filter
    by (auto intro!: filter_cong)
qed

lemma wfRegistry_registerTool: "wfRegistry reg \<Longrightarrow> wfRegistry (registerTool tool reg)"
  unfolding wfRegistry_def registerTool_def by (rule distinct_update)

lemma wfRegistry_filter: "wfRegistry reg \<Longrightarrow> wfRegistry (filter P reg)"
  unfolding wfRegistry_def by (simp add: distinct_map_filter)

text \<open>
  C5.  Registering a definition under a name that is already in the registry replaces the
  entry: the lookup of that name returns exactly the new definition, every other name
  looks up as before, and the registry still has one entry per name, at the place of the
  old one.
\<close>

theorem registerTool_overwrites:
  assumes "getTool reg (name new) = Some old"
  shows "getTool (registerTool new reg) (name new) = Some new \<and>
         (\<forall>n. n \<noteq> name new \<longrightarrow> getTool (registerTool new reg) n = getTool reg n) \<and>
         map fst (registerTool new reg) = map fst reg"
proof -
  from assms have "name new \<in> fst ` set reg"
    unfolding getTool_def by (metis domI dom_map_of_conv_image_fst)
  then have "map fst (registerTool new reg) = map fst reg"
    unfolding registerTool_def by (simp add: update_keys)
  then show ?thesis
    unfolding getTool_def registerTool_def by (simp add: update_conv')
qed

theorem registerTool_overwrites_witness:
  "getTool [(''track'', sampleTool ''track'' ''v1'' False)] (name (sampleTool ''track'' ''v2'' True))
     = Some (sampleTool ''track'' ''v1'' False) \<and>
   getTool (registerTool (sampleTool ''track'' ''v2'' True) [(''track'', sampleTool ''track'' ''v1'' False)])
     ''track'' = Some (sampleTool ''track'' ''v2'' True) \<and>
   map fst (registerTool (sampleTool ''track'' ''v2'' True) [(''track'', sampleTool ''track'' ''v1'' False)])
     = [''track'']"
  using registerTool_overwrites
    [of "[(''track'', sampleTool ''track'' ''v1'' False)]" "sampleTool ''track'' ''v2'' True"
        "sampleTool ''track'' ''v1'' False"]
  by (simp add: getTool_def sampleTool_def)

lemma getTool_filter:
  assumes "wfRegistry reg" and "getTool reg n = Some t"
  shows "getTool (filter P reg) n = (if P (n, t) then Some t else None)"
proof -
  from assms have mem: "(n, t) \<in> set reg"
    unfolding getTool_def by (simp add: map_of_SomeD)
  have d: "distinct (map fst reg)" using assms(1) by (simp add: wfRegistry_def)
  have df: "distinct (map fst (filter P reg))" by (simp add: d distinct_map_filter)
  show ?thesis
  proof (cases "P (n, t)")
    case True
    then have "(n, t) \<in> set (filter P reg)" using mem by simp
    with df show ?thesis using True unfolding getTool_def by simp
  next
    case False
    have "map_of (filter P reg) n = None"
    proof (rule ccontr)
      assume "map_of (filter P reg) n \<noteq> None"
      then obtain t' where "map_of (filter P reg) n = Some t'" by auto
      then have "(n, t') \<in> set (filter P reg)" by (rule map_of_SomeD)
      then have in': "(n, t') \<in> set reg" and p': "P (n, t')" by auto
      from d mem in' have "t' = t" by (meson eq_key_imp_eq_value)
      with p' False show False by simp
    qed
    with False show ?thesis unfolding getTool_def by simp
  qed
qed

text \<open>
  C6.  Whatever the registry holds (one entry per name, as a \<^verbatim>\<open>Map\<close> has),
  \<^verbatim>\<open>clearDynamicTools\<close> leaves exactly the entries whose \<^verbatim>\<open>isDynamic\<close> is false, in
  their order: a name bound to a synthesized capability is no longer found, a name bound
  to a seed capability is found with the same definition, and no entry of the result is
  synthesized.
\<close>

theorem clearDynamicTools_keeps_exactly_seeds:
  assumes "wfRegistry reg"
  shows "clearDynamicTools reg = filter (\<lambda>e. \<not> isDynamic (snd e)) reg \<and>
         (\<forall>n t. getTool reg n = Some t \<longrightarrow>
                getTool (clearDynamicTools reg) n = (if isDynamic t then None else Some t)) \<and>
         (\<forall>e \<in> set (clearDynamicTools reg). \<not> isDynamic (snd e))"
proof -
  have eq: "clearDynamicTools reg = filter (\<lambda>e. \<not> isDynamic (snd e)) reg"
    using assms by (rule clearDynamicTools_filter)
  have "getTool (clearDynamicTools reg) n = (if isDynamic t then None else Some t)"
    if "getTool reg n = Some t" for n t
    unfolding eq using getTool_filter [OF assms that, of "\<lambda>e. \<not> isDynamic (snd e)"] by simp
  moreover have "\<forall>e \<in> set (clearDynamicTools reg). \<not> isDynamic (snd e)"
    unfolding eq by simp
  ultimately show ?thesis using eq by blast
qed

theorem clearDynamicTools_keeps_exactly_seeds_witness:
  "wfRegistry [(''a'', sampleTool ''a'' ''x'' False), (''b'', sampleTool ''b'' ''y'' True),
               (''c'', sampleTool ''c'' ''z'' True), (''d'', sampleTool ''d'' ''w'' False)] \<and>
   clearDynamicTools [(''a'', sampleTool ''a'' ''x'' False), (''b'', sampleTool ''b'' ''y'' True),
                      (''c'', sampleTool ''c'' ''z'' True), (''d'', sampleTool ''d'' ''w'' False)]
     = [(''a'', sampleTool ''a'' ''x'' False), (''d'', sampleTool ''d'' ''w'' False)]"
  using clearDynamicTools_keeps_exactly_seeds
    [of "[(''a'', sampleTool ''a'' ''x'' False), (''b'', sampleTool ''b'' ''y'' True),
          (''c'', sampleTool ''c'' ''z'' True), (''d'', sampleTool ''d'' ''w'' False)]"]
  by (simp add: wfRegistry_def sampleTool_def)

section \<open>Properties of the configuration adapter\<close>

lemma spread_single: "spread a [(k, v)] = AList.update k v a"
  by (simp add: spread_def)

text \<open>
  What \<^verbatim>\<open>updateAssistant\<close> writes for a change of \<^verbatim>\<open>maxTokens\<close> alone when both
  requests go through: the field found by \<^verbatim>\<open>getCurrentLlmConfig\<close> is replaced by an
  object of at most three properties, and \<^verbatim>\<open>existing\<close> is not used.
\<close>

lemma updateAssistant_maxTokens_written:
  assumes "vapiFaults s = []" and "assistants s assistantId = Some profile"
  shows "updateAssistant assistantId [(''maxTokens'', v)] s =
           (Inr (),
            s\<lparr>assistants := (assistants s)(assistantId \<mapsto>
                 AList.update (cfgField (llmConfigOf profile))
                   (JObj (literal [(''provider'', cfgProvider (llmConfigOf profile)),
                                   (''model'', cfgModelName (llmConfigOf profile)),
                                   (''maxTokens'', Some v)]))
                   profile)\<rparr>)"
  using assms
  by (simp add: updateAssistant_def patchMaxTokens_def patchVoice_def copyField_def bind_def
      getCurrentLlmConfig_def getAssistantRaw_def patchAssistantRaw_def nextFault_def
      spread_single)

text \<open>
  The earlier iteration, on the same change: the \<^verbatim>\<open>model\<close> object is written back with
  every property it had, \<^verbatim>\<open>maxTokens\<close> alone replaced.
\<close>

lemma updateAssistantEarlier_maxTokens_written:
  assumes "vapiFaults s = []" and "assistants s assistantId = Some profile"
    and "map_of profile ''model'' = Some (JObj m)"
  shows "updateAssistantEarlier assistantId [(''maxTokens'', v)] s =
           (Inr (),
            s\<lparr>assistants := (assistants s)(assistantId \<mapsto>
                 AList.update ''model'' (JObj (AList.update ''maxTokens'' v m)) profile)\<rparr>)"
  using assms
  by (simp add: updateAssistantEarlier_def patchVoice_def copyField_def bind_def
      getAssistantRaw_def patchAssistantRaw_def nextFault_def spread_single)

lemma updateAssistantEarlier_keeps_siblings:
  assumes "vapiFaults s = []" and "assistants s assistantId = Some profile"
    and "map_of profile ''model'' = Some (JObj m)"
    and "updateAssistantEarlier assistantId [(''maxTokens'', v)] s = (r, s')"
    and "k \<noteq> ''maxTokens''"
  shows "\<exists>profile' m'. assistants s' assistantId = Some profile' \<and>
           map_of profile' ''model'' = Some (JObj m') \<and> map_of m' k = map_of m k"
  using assms(4,5) unfolding updateAssistantEarlier_maxTokens_written [OF assms(1-3)]
  by (auto simp: update_conv')

text \<open>
  C1.  The live profile \<open>liveProfile\<close> holds a \<^verbatim>\<open>temperature\<close> beside \<^verbatim>\<open>maxTokens\<close> in
  its \<^verbatim>\<open>model\<close> object.  Applying \<^verbatim>\<open>{ maxTokens: 500 }\<close> with every request going
  through leaves the top-level fields in place and stores a \<^verbatim>\<open>model\<close> object that is
  just provider, model and maxTokens: the sibling \<^verbatim>\<open>temperature\<close> is dropped by the
  write.
\<close>

theorem updateAssistant_drops_model_siblings:
  "map_of liveProfile ''model'' =
     Some (JObj [(''provider'', JStr ''openai''), (''model'', JStr ''gpt-4o''),
                 (''temperature'', JNum (7 / 10)), (''maxTokens'', JNum 250)]) \<and>
   (case updateAssistant ''asst'' [(''maxTokens'', JNum 500)]
           (withAssistant ''asst'' liveProfile idleState) of
      (r, s') \<Rightarrow> (r, map_option (\<lambda>p. (map fst p, map_of p ''model'')) (assistants s' ''asst'')))
     = (Inr (),
        Some (map fst liveProfile,
              Some (JObj [(''provider'', JStr ''openai''), (''model'', JStr ''gpt-4o''),
                          (''maxTokens'', JNum 500)])))"
  by (simp add: updateAssistant_def patchMaxTokens_def patchVoice_def copyField_def bind_def
      getCurrentLlmConfig_def getAssistantRaw_def patchAssistantRaw_def nextFault_def idleState_def
      withAssistant_def liveProfile_def llmConfigOf_def spread_def)


section \<open>What the steps of the pipeline leave alone\<close>


lemma frame_refl [simp]: "frame s s"
  by (simp add: frame_def)

lemma frame_trans: "frame s s1 \<Longrightarrow> frame s1 s2 \<Longrightarrow> frame s s2"
  by (simp add: frame_def)

lemma bind_frame:
  assumes "frame s (snd m)" and "\<And>a. fst m = Inr a \<Longrightarrow> frame (snd m) (snd (f a (snd m)))"
  shows "frame s (snd (bind m f))"
proof (cases m)
  case (Pair r s1)
  show ?thesis
  proof (cases r)
    case (Inl e)
    with Pair assms(1) show ?thesis by (simp add: bind_def)
  next
    case (Inr a)
    with Pair assms show ?thesis by (auto simp: bind_def intro: frame_trans)
  qed
qed

lemma quiet_tl:
  "quiet s \<Longrightarrow> nextReply (whapiReplies s) = (r, rs) \<Longrightarrow> \<not> throws r \<and> (\<forall>x\<in>set rs. \<not> throws x)"
  by (auto simp: quiet_def nextReply_def split: list.splits)

lemma getAssistantRaw_frame [simp]: "frame s (snd (getAssistantRaw a s))"
  by (simp add: getAssistantRaw_def frame_def quiet_def split: prod.splits option.splits)

lemma patchAssistantRaw_frame [simp]: "frame s (snd (patchAssistantRaw a p s))"
  by (simp add: patchAssistantRaw_def frame_def quiet_def split: prod.splits option.splits)

lemma getCall_frame [simp]: "frame s (snd (getCall c s))"
  by (simp add: getCall_def frame_def quiet_def split: prod.splits option.splits)

lemma createOutboundCall_frame [simp]: "frame s (snd (createOutboundCall rt a n ph s))"
  by (simp add: createOutboundCall_def frame_def quiet_def split: prod.splits option.splits)

lemma createVapiTool_frame [simp]: "frame s (snd (createVapiTool rt a n s))"
  by (simp add: createVapiTool_def frame_def quiet_def split: prod.splits option.splits)

lemma sendWhatsApp_frame [simp]: "frame s (snd (sendWhatsApp to b s))"
  by (auto simp: sendWhatsApp_def frame_def quiet_def nextReply_def Let_def
      split: prod.splits whapi.splits list.splits)

lemma snd_bind_const: "snd (bind m (\<lambda>u s3. (Inr x, s3))) = snd m"
  by (cases m; cases "fst m") (auto simp: bind_def)

lemma fst_bind_const: "fst m = Inr a \<Longrightarrow> fst (bind m (\<lambda>u s3. (Inr x, s3))) = Inr x"
  by (cases m) (auto simp: bind_def)

lemma notifyOperator_frame [simp]: "frame s (snd (notifyOperator rt msg s))"
  by (simp add: notifyOperator_def snd_bind_const split: option.splits)

lemma sendWhatsApp_quiet: "quiet s \<Longrightarrow> \<exists>r. fst (sendWhatsApp to b s) = Inr r"
  by (auto simp: sendWhatsApp_def quiet_def nextReply_def Let_def
      split: prod.splits whapi.splits list.splits)

lemma notifyOperator_quiet: "quiet s \<Longrightarrow> fst (notifyOperator rt msg s) = Inr ()"
proof (cases "env rt ''OPERATOR_PHONE''")
  case None
  then show ?thesis by (simp add: notifyOperator_def)
next
  case (Some phone)
  assume "quiet s"
  then obtain r where "fst (sendWhatsApp phone (agentPrefix @ msg) s) = Inr r"
    using sendWhatsApp_quiet by blast
  then show ?thesis using Some by (simp add: notifyOperator_def fst_bind_const)
qed

lemma createCustomWorkflow_frame [simp]: "frame s (snd (createCustomWorkflow rt n p s))"
  by (simp add: createCustomWorkflow_def frame_def quiet_def Let_def split: prod.splits option.splits)

lemma listExistingWorkflows_frame [simp]: "frame s (listExistingWorkflows rt s)"
  by (simp add: listExistingWorkflows_def frame_def quiet_def split: prod.splits option.splits)

lemma getAssistant_frame [simp]: "frame s (snd (getAssistant a s))"
  unfolding getAssistant_def by (rule bind_frame) (simp_all split: sum.splits)

lemma getCurrentLlmConfig_frame [simp]: "frame s (snd (getCurrentLlmConfig a s))"
  unfolding getCurrentLlmConfig_def by (rule bind_frame) simp_all

lemma patchMaxTokens_frame [simp]: "frame s (snd (patchMaxTokens a c p s))"
  unfolding patchMaxTokens_def by (auto split: option.splits intro!: bind_frame)

lemma patchVoice_frame [simp]: "frame s (snd (patchVoice a c p s))"
  unfolding patchVoice_def by (auto split: option.splits intro!: bind_frame)

lemma updateAssistant_frame [simp]: "frame s (snd (updateAssistant a c s))"
  unfolding updateAssistant_def by (auto simp: Let_def intro!: bind_frame)

lemma addToolToAssistant_frame [simp]: "frame s (snd (addToolToAssistant a t s))"
  unfolding addToolToAssistant_def by (auto split: sum.splits intro!: bind_frame)

lemma syncRequests_frame [simp]: "frame s (snd (syncRequests rt spec a u s))"
  unfolding syncRequests_def by (rule bind_frame) simp_all

lemma syncToVapi_frame [simp]: "frame s (syncToVapi rt spec a u s)"
  using syncRequests_frame [of s rt spec a u]
  by (auto simp: syncToVapi_def frame_def quiet_def split: prod.splits sum.splits)

lemma frame_kept: "frame s s' \<Longrightarrow> kept s s'"
  by (simp add: frame_def kept_def)

lemma kept_refl [simp]: "kept s s"
  by (simp add: kept_def)

lemma kept_trans: "kept s s1 \<Longrightarrow> kept s1 s2 \<Longrightarrow> kept s s2"
  by (simp add: kept_def)

lemma createAndRegisterTool_fails:
  "buildHandler rt (handlerCode spec) = Inl e \<Longrightarrow> createAndRegisterTool rt spec s = (Inl e, s)"
  by (simp add: createAndRegisterTool_def)

lemma syncIfConfigured_frame [simp]: "frame s (syncIfConfigured rt spec s)"
  by (simp add: syncIfConfigured_def split: option.splits)

lemma createAndRegisterTool_registers:
  assumes "buildHandler rt (handlerCode spec) = Inr h"
  shows "registry (snd (createAndRegisterTool rt spec s)) = registerTool (newTool spec h (now s)) (registry s)"
    and "handlerCalls (snd (createAndRegisterTool rt spec s)) = handlerCalls s"
    and "kept s (snd (createAndRegisterTool rt spec s))"
    and "fst (createAndRegisterTool rt spec s) = Inr t \<Longrightarrow> t = newTool spec h (now s)"
    and "quiet s \<Longrightarrow> fst (createAndRegisterTool rt spec s) = Inr (newTool spec h (now s))"
proof -
  define s1 where "s1 = s\<lparr>registry := registerTool (newTool spec h (now s)) (registry s)\<rparr>"
  define s2 where "s2 = syncIfConfigured rt spec s1"
  define msg where "msg = createdNotice spec"
  have eq: "createAndRegisterTool rt spec s =
        bind (notifyOperator rt msg s2) (\<lambda>u s3. (Inr (newTool spec h (now s)), s3))"
    using assms by (simp add: createAndRegisterTool_def Let_def s1_def s2_def syncIfConfigured_def msg_def)
  have f12: "frame s1 s2" unfolding s2_def by simp
  have f23: "frame s2 (snd (notifyOperator rt msg s2))" by simp
  have f13: "frame s1 (snd (notifyOperator rt msg s2))" using f12 f23 by (rule frame_trans)
  have snd_eq: "snd (createAndRegisterTool rt spec s) = snd (notifyOperator rt msg s2)"
    unfolding eq by (cases "notifyOperator rt msg s2") (auto simp: bind_def split: sum.splits)
  show "registry (snd (createAndRegisterTool rt spec s)) = registerTool (newTool spec h (now s)) (registry s)"
    using f13 unfolding snd_eq by (simp add: frame_def s1_def)
  show "handlerCalls (snd (createAndRegisterTool rt spec s)) = handlerCalls s"
    using f13 unfolding snd_eq by (simp add: frame_def s1_def)
  show "kept s (snd (createAndRegisterTool rt spec s))"
    using f13 unfolding snd_eq by (simp add: frame_def kept_def s1_def quiet_def)
  show "t = newTool spec h (now s)" if "fst (createAndRegisterTool rt spec s) = Inr t"
    using that unfolding eq by (cases "notifyOperator rt msg s2") (auto simp: bind_def split: sum.splits)
  show "fst (createAndRegisterTool rt spec s) = Inr (newTool spec h (now s))" if "quiet s"
  proof -
    from that have "quiet s1" by (simp add: quiet_def s1_def)
    with f12 have "quiet s2" by (simp add: frame_def)
    then have "fst (notifyOperator rt msg s2) = Inr ()" by (rule notifyOperator_quiet)
    then show ?thesis unfolding eq by (cases "notifyOperator rt msg s2") (auto simp: bind_def)
  qed
qed

lemma createAndRegisterTool_kept [simp]: "kept s (snd (createAndRegisterTool rt spec s))"
proof (cases "buildHandler rt (handlerCode spec)")
  case (Inl e)
  then show ?thesis by (simp add: createAndRegisterTool_fails)
next
  case (Inr h)
  then show ?thesis by (rule createAndRegisterTool_registers(3))
qed

lemma kept_handlerCalls [simp]: "kept s (s'\<lparr>handlerCalls := c\<rparr>) = kept s s'"
  by (simp add: kept_def quiet_def)

lemma smokeTest_mono:
  "smokeTest rt spec tool lg s = (lg', s') \<Longrightarrow> set lg \<subseteq> set lg' \<and> kept s s'"
  by (auto simp: smokeTest_def Let_def logStep_def split: sum.splits)

lemma createToolStep_mono:
  assumes "createToolStep rt spec (lg, created) s = ((lg', created'), s')"
  shows "set lg \<subseteq> set lg' \<and> set created \<subseteq> set created' \<and> kept s s'"
proof (cases "createAndRegisterTool rt spec s")
  case (Pair r s1)
  have k1: "kept s s1" using createAndRegisterTool_kept [of s rt spec] Pair by simp
  show ?thesis
  proof (cases r)
    case (Inl e)
    with Pair assms k1 show ?thesis
      by (auto simp: createToolStep_def Let_def logStep_def)
  next
    case (Inr tool)
    obtain lg2 s2 where st: "smokeTest rt spec tool (logStep lg ''create_tool'' ok
                     (''Creating tool: '' @ quoted (specName spec) @ '' '' @ emDash @ '' '' @
                      specDescription spec) s) s1 = (lg2, s2)"
      by (cases "smokeTest rt spec tool (logStep lg ''create_tool'' ok
                     (''Creating tool: '' @ quoted (specName spec) @ '' '' @ emDash @ '' '' @
                      specDescription spec) s) s1") auto
    from smokeTest_mono [OF st] have m: "set lg \<subseteq> set lg2" and k2: "kept s1 s2"
      by (auto simp: logStep_def)
    from assms Pair Inr st have "lg' = lg2" "created' = created @ [specName spec]" "s' = s2"
      by (auto simp: createToolStep_def Let_def)
    with m k1 k2 show ?thesis by (auto intro: kept_trans)
  qed
qed

lemma createTools_mono:
  "createTools rt specs (lg, created) s = ((lg', created'), s') \<Longrightarrow>
     set lg \<subseteq> set lg' \<and> set created \<subseteq> set created' \<and> kept s s'"
proof (induction specs arbitrary: lg created s)
  case Nil
  then show ?case by simp
next
  case (Cons spec rest)
  obtain lg1 created1 s1 where st: "createToolStep rt spec (lg, created) s = ((lg1, created1), s1)"
    by (metis prod.exhaust)
  with Cons.prems have "createTools rt rest (lg1, created1) s1 = ((lg', created'), s')" by simp
  from Cons.IH [OF this] createToolStep_mono [OF st] show ?case
    by (auto intro: kept_trans)
qed

lemma deployWorkflowStep_mono:
  assumes "deployWorkflowStep rt flow (lg, created, flows) s = ((lg', created', flows'), s')"
  shows "set lg \<subseteq> set lg' \<and> set created \<subseteq> set created' \<and> kept s s'"
proof (cases "steps flow")
  case None
  with assms show ?thesis by (auto simp: deployWorkflowStep_def logStep_def)
next
  case (Some sts)
  show ?thesis
  proof (cases sts)
    case Nil
    with Some assms show ?thesis by (auto simp: deployWorkflowStep_def logStep_def)
  next
    case (Cons st more)
    obtain r s1 where cw: "createCustomWorkflow rt (wfName flow) (webhookPath flow) s = (r, s1)"
      by (metis prod.exhaust)
    have k1: "kept s s1"
      using createCustomWorkflow_frame [of s rt "wfName flow" "webhookPath flow"] cw
      by (simp add: frame_kept)
    show ?thesis
    proof (cases r)
      case (Inl e)
      with Some Cons cw assms k1 show ?thesis
        by (auto simp: deployWorkflowStep_def Let_def logStep_def)
    next
      case (Inr url)
      obtain r2 s2 where ct: "createAndRegisterTool rt
           (wireSpec (snakeCase (webhookPath flow)) (wfName flow) url) s1 = (r2, s2)"
        by (metis prod.exhaust)
      have k2: "kept s1 s2"
        using createAndRegisterTool_kept [of s1 rt "wireSpec (snakeCase (webhookPath flow)) (wfName flow) url"] ct
        by simp
      from k1 k2 have k: "kept s s2" by (rule kept_trans)
      from Some Cons cw Inr ct assms k show ?thesis
        by (cases r2) (auto simp: deployWorkflowStep_def Let_def logStep_def)
    qed
  qed
qed

lemma deployWorkflows_mono:
  "deployWorkflows rt flowspecs (lg, created, flows) s = ((lg', created', flows'), s') \<Longrightarrow>
     set lg \<subseteq> set lg' \<and> set created \<subseteq> set created' \<and> kept s s'"
proof (induction flowspecs arbitrary: lg created flows s)
  case Nil
  then show ?case by simp
next
  case (Cons flow rest)
  obtain lg1 created1 flows1 s1 where
    st: "deployWorkflowStep rt flow (lg, created, flows) s = ((lg1, created1, flows1), s1)"
    by (metis prod.exhaust)
  with Cons.prems have "deployWorkflows rt rest (lg1, created1, flows1) s1 = ((lg', created', flows'), s')"
    by simp
  from Cons.IH [OF this] deployWorkflowStep_mono [OF st] show ?case
    by (auto intro: kept_trans)
qed

lemma deployWorkflowsPhase_mono:
  assumes "deployWorkflowsPhase rt analysis (lg, created) s = (((lg', created', flows'), reqs), s')"
  shows "set lg \<subseteq> set lg' \<and> set created \<subseteq> set created' \<and> kept s s'"
proof (cases "newWorkflows analysis")
  case None
  with assms show ?thesis by (auto simp: deployWorkflowsPhase_def logStep_def)
next
  case (Some fl)
  show ?thesis
  proof (cases fl)
    case Nil
    with Some assms show ?thesis by (auto simp: deployWorkflowsPhase_def logStep_def)
  next
    case (Cons flow rest)
    show ?thesis
    proof (cases "isN8nConfigured rt")
      case True
      with Some Cons assms
      have "deployWorkflows rt (flow # rest) (lg, created, []) s = ((lg', created', flows'), s')"
        by (auto simp: deployWorkflowsPhase_def split: prod.splits)
      then show ?thesis by (rule deployWorkflows_mono)
    next
      case False
      with Some Cons assms show ?thesis by (auto simp: deployWorkflowsPhase_def logStep_def)
    qed
  qed
qed

lemma requestResources_quiet:
  "quiet s \<Longrightarrow> \<exists>lg' s'. requestResources rt reqs lg s = (Inr lg', s') \<and> set lg \<subseteq> set lg' \<and> kept s s' \<and> quiet s'"
proof (induction reqs arbitrary: lg s)
  case Nil
  then show ?case by simp
next
  case (Cons req rest)
  obtain r s1 where n: "notifyOperator rt (keyIcon @ '' RESOURCE REQUEST: '' @ req) s = (r, s1)"
    by (metis prod.exhaust)
  have r: "r = Inr ()" using notifyOperator_quiet [OF Cons.prems, of rt] n by (metis fst_conv)
  have f: "frame s s1" using notifyOperator_frame [of s rt] n by (metis snd_conv)
  then have q1: "quiet s1" and k1: "kept s s1" using Cons.prems by (auto simp: frame_def kept_def)
  from Cons.IH [OF q1, of "logStep lg ''resource_request'' ok req s1"]
  obtain lg' s' where "requestResources rt rest (logStep lg ''resource_request'' ok req s1) s1 = (Inr lg', s')"
    and "set (logStep lg ''resource_request'' ok req s1) \<subseteq> set lg'" and "kept s1 s'" and "quiet s'"
    by blast
  with n r k1 show ?case by (auto simp: bind_def logStep_def intro: kept_trans)
qed

lemma verifyAssistant_mono:
  assumes "verifyAssistant rt a lg s = (lg', s')"
  shows "set lg \<subseteq> set lg' \<and> kept s s'"
proof -
  obtain r s1 where g: "getAssistant a s = (r, s1)" by (metis prod.exhaust)
  have "kept s s1" using getAssistant_frame [of s a] g by (simp add: frame_kept)
  with assms g show ?thesis
    by (cases r)
       (auto simp: verifyAssistant_def logStep_def bind_def Let_def split: sum.splits prod.splits)
qed

lemma applyConfig_mono:
  assumes "applyConfig a analysis lg s = (lg', s')"
  shows "set lg \<subseteq> set lg' \<and> kept s s'"
proof -
  obtain r s1 where g: "updateWith a (configChanges analysis) s = (r, s1)" by (metis prod.exhaust)
  have "frame s (snd (updateWith a (configChanges analysis) s))"
    by (simp add: updateWith_def split: sum.splits)
  then have "kept s s1" using g by (simp add: frame_kept)
  with assms g show ?thesis
    by (cases r) (auto simp: applyConfig_def Let_def logStep_def)
qed

lemma createToolStep_fails:
  assumes "buildHandler rt (handlerCode spec) = Inl e"
  shows "createToolStep rt spec (lg, created) s =
           ((lg @ [\<lparr>step = ''create_tool'', status = ok,
                      detail = ''Creating tool: '' @ quoted (specName spec) @ '' '' @ emDash @ '' '' @
                               specDescription spec,
                      timestamp = now s\<rparr>,
                    \<lparr>step = ''create_tool'', status = error,
                      detail = ''Failed to create tool '' @ quoted (specName spec) @ '': '' @ message e,
                      timestamp = now s\<rparr>], created), s)"
  by (simp add: createToolStep_def createAndRegisterTool_fails [OF assms] logStep_def)

lemma createToolStep_succeeds:
  assumes "buildHandler rt (handlerCode spec) = Inr h" and "quiet s"
  shows "\<exists>lg' s'. createToolStep rt spec (lg, created) s = ((lg', created @ [specName spec]), s') \<and>
           set lg \<subseteq> set lg' \<and> kept s s'"
proof -
  obtain r s1 where c: "createAndRegisterTool rt spec s = (r, s1)" by (metis prod.exhaust)
  have r: "r = Inr (newTool spec h (now s))"
    using createAndRegisterTool_registers(5) [OF assms, of ] c by simp
  obtain lg2 s2 where st: "smokeTest rt spec (newTool spec h (now s)) (logStep lg ''create_tool'' ok
                     (''Creating tool: '' @ quoted (specName spec) @ '' '' @ emDash @ '' '' @
                      specDescription spec) s) s1 = (lg2, s2)"
    by (metis prod.exhaust)
  have step: "createToolStep rt spec (lg, created) s = ((lg2, created @ [specName spec]), s2)"
    using c r st by (simp add: createToolStep_def Let_def)
  from createToolStep_mono [OF step] step show ?thesis by blast
qed

lemma kept_quiet: "kept s s' \<Longrightarrow> quiet s \<Longrightarrow> quiet s'"
  by (simp add: kept_def)

lemma createTools_one_fails:
  assumes q: "quiet s" and which: "{bad, good} = {a, b}"
    and bad: "buildHandler rt (handlerCode bad) = Inl e"
    and good: "buildHandler rt (handlerCode good) = Inr h"
  shows "\<exists>lg' created' s'. createTools rt [a, b] (lg, []) s = ((lg', created'), s') \<and>
           set lg \<subseteq> set lg' \<and> kept s s' \<and> specName good \<in> set created' \<and>
           (\<exists>p \<in> set lg'. step p = ''create_tool'' \<and> status p = error \<and>
              detail p = ''Failed to create tool '' @ quoted (specName bad) @ '': '' @ message e)"
proof -
  from bad good have "bad \<noteq> good" by auto
  with which have "(bad = a \<and> good = b) \<or> (bad = b \<and> good = a)"
    by (auto simp: doubleton_eq_iff)
  then show ?thesis
  proof
    assume ab: "bad = a \<and> good = b"
    obtain lg2 s2 where
      s2: "createToolStep rt b (lg @ [\<lparr>step = ''create_tool'', status = ok,
                      detail = ''Creating tool: '' @ quoted (specName a) @ '' '' @ emDash @ '' '' @
                               specDescription a,
                      timestamp = now s\<rparr>,
                    \<lparr>step = ''create_tool'', status = error,
                      detail = ''Failed to create tool '' @ quoted (specName a) @ '': '' @ message e,
                      timestamp = now s\<rparr>], []) s = ((lg2, [] @ [specName b]), s2)"
      and m2: "set (lg @ [\<lparr>step = ''create_tool'', status = ok,
                      detail = ''Creating tool: '' @ quoted (specName a) @ '' '' @ emDash @ '' '' @
                               specDescription a,
                      timestamp = now s\<rparr>,
                    \<lparr>step = ''create_tool'', status = error,
                      detail = ''Failed to create tool '' @ quoted (specName a) @ '': '' @ message e,
                      timestamp = now s\<rparr>]) \<subseteq> set lg2" and k2: "kept s s2"
      using createToolStep_succeeds [OF good [unfolded ab [THEN conjunct2]] q] by blast
    have run: "createTools rt [a, b] (lg, []) s = ((lg2, [specName b]), s2)"
      using createToolStep_fails [OF bad [unfolded ab [THEN conjunct1]]] s2 by simp
    from m2 have "\<lparr>step = ''create_tool'', status = error,
                      detail = ''Failed to create tool '' @ quoted (specName a) @ '': '' @ message e,
                      timestamp = now s\<rparr> \<in> set lg2" and "set lg \<subseteq> set lg2" by auto
    with run k2 ab show ?thesis by force
  next
    assume ba: "bad = b \<and> good = a"
    obtain lg1 s1 where s1: "createToolStep rt a (lg, []) s = ((lg1, [] @ [specName a]), s1)"
      and m1: "set lg \<subseteq> set lg1" and k1: "kept s s1"
      using createToolStep_succeeds [OF good [unfolded ba [THEN conjunct2]] q] by blast
    have run: "createTools rt [a, b] (lg, []) s =
        ((lg1 @ [\<lparr>step = ''create_tool'', status = ok,
                      detail = ''Creating tool: '' @ quoted (specName b) @ '' '' @ emDash @ '' '' @
                               specDescription b,
                      timestamp = now s1\<rparr>,
                    \<lparr>step = ''create_tool'', status = error,
                      detail = ''Failed to create tool '' @ quoted (specName b) @ '': '' @ message e,
                      timestamp = now s1\<rparr>], [specName a]), s1)"
      using s1 createToolStep_fails [OF bad [unfolded ba [THEN conjunct1]]] by simp
    with m1 k1 ba show ?thesis by force
  qed
qed

lemma quiet_history [simp]: "quiet (s\<lparr>history := hs\<rparr>) = quiet s"
  by (simp add: quiet_def)

lemma callbackPhase_quiet:
  assumes "quiet s"
  shows "\<exists>r1 s'. callbackPhase rt a number r i s = (Inr r1, s') \<and>
           toolsCreated r1 = toolsCreated r \<and> set (pipelineLog r) \<subseteq> set (pipelineLog r1) \<and>
           history s' = (history s)[i := r1]"
proof (cases "if truthyStr number then number else None")
  case None
  then show ?thesis by (auto simp: callbackPhase_def Let_def logStep_def)
next
  case (Some n)
  obtain c s1 where oc: "createOutboundCall rt a n (env rt ''VAPI_PHONE_NUMBER_ID'') s = (c, s1)"
    by (metis prod.exhaust)
  have f1: "frame s s1"
    using createOutboundCall_frame [of s rt a n "env rt ''VAPI_PHONE_NUMBER_ID''"] oc by simp
  show ?thesis
  proof (cases c)
    case (Inr callbackId)
    with Some oc f1 show ?thesis
      by (auto simp: callbackPhase_def Let_def logStep_def frame_def)
  next
    case (Inl e)
    define r1 where "r1 = r\<lparr>pipelineLog := logStep (logStep (pipelineLog r) ''callback'' ok
                               (''Triggering callback to '' @ n @ ''...'') s) ''callback'' error
                                                (''Callback failed: '' @ message e) s1\<rparr>"
    define t where "t = s1\<lparr>history := (history s1)[i := r1]\<rparr>"
    obtain u s2 where no: "notifyOperator rt
                              (warnIcon @ '' Failed to call customer back at '' @ n @ '': '' @ message e) t
                            = (u, s2)" by (metis prod.exhaust)
    have "quiet t" using f1 assms by (simp add: t_def frame_def)
    then have u: "u = Inr ()" using notifyOperator_quiet [of t rt] no by (metis fst_conv)
    have f2: "frame t s2" using notifyOperator_frame [of t rt] no by (metis snd_conv)
    have "callbackPhase rt a number r i s = (Inr r1, s2)"
      using Some oc Inl no u by (simp add: callbackPhase_def Let_def r1_def t_def bind_def)
    moreover have "history s2 = (history s)[i := r1]"
      using f2 f1 by (simp add: frame_def t_def)
    moreover have "toolsCreated r1 = toolsCreated r" "set (pipelineLog r) \<subseteq> set (pipelineLog r1)"
      by (auto simp: r1_def logStep_def)
    ultimately show ?thesis by blast
  qed
qed

lemma kept_errlog [simp]: "kept s (s'\<lparr>errlog := c\<rparr>) = kept s s'"
  by (simp add: kept_def quiet_def)

lemma analyzeTranscriptWithRaw_kept:
  "kept s (snd (analyzeTranscriptWithRaw rt tr cp cc et s))"
  using listExistingWorkflows_frame [of s rt]
  by (auto simp: analyzeTranscriptWithRaw_def Let_def frame_kept split: sum.splits list.splits option.splits)

lemma improve_one_fails:
  assumes q: "quiet s" and two: "newTools analysis = Some [a, b]" and which: "{bad, good} = {a, b}"
    and bad: "buildHandler rt (handlerCode bad) = Inl e"
    and good: "buildHandler rt (handlerCode good) = Inr h"
  shows "\<exists>r s'. improve rt cId assistantId number call assistant analysis raw lg s = (Inr r, s') \<and>
           history s' = history s @ [r] \<and> specName good \<in> set (toolsCreated r) \<and>
           (\<exists>p \<in> set (pipelineLog r). step p = ''create_tool'' \<and> status p = error \<and>
              detail p = ''Failed to create tool '' @ quoted (specName bad) @ '': '' @ message e)"
proof -
  obtain lg1 s1 where ac: "applyConfig assistantId analysis lg s = (lg1, s1)" by (metis prod.exhaust)
  from applyConfig_mono [OF ac] have k1: "kept s s1" by simp
  then have q1: "quiet s1" using q by (rule kept_quiet)
  obtain lg2 created2 s2 where
    ct: "createTools rt [a, b] (lg1, []) s1 = ((lg2, created2), s2)" and k2: "kept s1 s2"
    and in2: "specName good \<in> set created2"
    and err2: "\<exists>p \<in> set lg2. step p = ''create_tool'' \<and> status p = error \<and>
              detail p = ''Failed to create tool '' @ quoted (specName bad) @ '': '' @ message e"
    using createTools_one_fails [OF q1 which bad good, of lg1] by blast
  have cp: "createToolsPhase rt analysis lg1 s1 = ((lg2, created2), s2)"
    using ct two by (simp add: createToolsPhase_def)
  obtain lg3 created3 flows reqs s3 where
    dw: "deployWorkflowsPhase rt analysis (lg2, created2) s2 = (((lg3, created3, flows), reqs), s3)"
    by (metis prod.exhaust)
  from deployWorkflowsPhase_mono [OF dw]
  have m3: "set lg2 \<subseteq> set lg3" and c3: "set created2 \<subseteq> set created3" and k3: "kept s2 s3" by auto
  have k03: "kept s s3" using k1 k2 k3 by (blast intro: kept_trans)
  then have q3: "quiet s3" using q by (rule kept_quiet)
  obtain lg4 s4 where rr: "requestResources rt reqs lg3 s3 = (Inr lg4, s4)"
    and m4: "set lg3 \<subseteq> set lg4" and k4: "kept s3 s4"
    using requestResources_quiet [OF q3, of rt reqs lg3] by blast
  obtain lg5 s5 where va: "verifyAssistant rt assistantId lg4 s4 = (lg5, s5)" by (metis prod.exhaust)
  from verifyAssistant_mono [OF va] have m5: "set lg4 \<subseteq> set lg5" and k5: "kept s4 s5" by auto
  have k05: "kept s s5" using k03 k4 k5 by (blast intro: kept_trans)
  then have q5: "quiet s5" and h5: "history s5 = history s" using q by (auto simp: kept_def)
  define r where "r = \<lparr>callId = cId, customerNumber = number, recTimestamp = now s5,
                         recTranscript = ctranscript call,
                         failures = aFailures analysis, changes = aChanges analysis,
                         toolsCreated = created3, workflowsCreated = flows,
                         configBefore = config assistant, configAfter = configChanges analysis,
                         callbackTriggered = False, rawAnalysis = raw, pipelineLog = lg5\<rparr>"
  define t where "t = s5\<lparr>history := history s5 @ [r]\<rparr>"
  obtain u s6 where no: "notifyOperator rt (summaryText cId analysis created3 flows number) t = (u, s6)"
    by (metis prod.exhaust)
  have qt: "quiet t" using q5 by (simp add: t_def)
  have u: "u = Inr ()" using notifyOperator_quiet [OF qt, of rt] no by (metis fst_conv)
  have f6: "frame t s6" using notifyOperator_frame [of t rt] no by (metis snd_conv)
  then have q6: "quiet s6" and h6: "history s6 = history s @ [r]"
    using qt h5 by (auto simp: frame_def t_def)
  obtain r1 s' where cb: "callbackPhase rt assistantId number r (length (history s5)) s6 = (Inr r1, s')"
    and tc: "toolsCreated r1 = toolsCreated r" and pl: "set (pipelineLog r) \<subseteq> set (pipelineLog r1)"
    and hs: "history s' = (history s6)[length (history s5) := r1]"
    using callbackPhase_quiet [OF q6, of rt assistantId number r "length (history s5)"] by blast
  have run: "improve rt cId assistantId number call assistant analysis raw lg s = (Inr r1, s')"
    using ac cp dw rr va no u cb
    by (simp add: improve_def bind_def Let_def r_def [symmetric] t_def [symmetric])
  have "history s' = history s @ [r1]" using hs h6 h5 by simp
  moreover have "specName good \<in> set (toolsCreated r1)" using tc in2 c3 by (auto simp: r_def)
  moreover have "\<exists>p \<in> set (pipelineLog r1). step p = ''create_tool'' \<and> status p = error \<and>
              detail p = ''Failed to create tool '' @ quoted (specName bad) @ '': '' @ message e"
  proof -
    from err2 obtain p where "p \<in> set lg2" and pp: "step p = ''create_tool'' \<and> status p = error \<and>
              detail p = ''Failed to create tool '' @ quoted (specName bad) @ '': '' @ message e" by blast
    with m3 m4 m5 pl have "p \<in> set (pipelineLog r1)" by (auto simp: r_def)
    with pp show ?thesis by blast
  qed
  ultimately show ?thesis using run by blast
qed

lemma strArr_length: "needed strArr v = Some fs \<Longrightarrow> \<exists>n. lengthOf v = Inr n"
  by (auto simp: needed_def strArr_def arrOf_def lengthOf_def split: option.splits json.splits)

lemma asAnalysis_fields:
  assumes "asAnalysis parsed = Some analysis"
  shows "needed strArr (getProp ''failures'' (Some parsed)) = Some (aFailures analysis)"
    and "needed strArr (getProp ''changes'' (Some parsed)) = Some (aChanges analysis)"
    and "configChanges analysis = getProp ''configChanges'' (Some parsed)"
  using assms by (auto simp: asAnalysis_def split: option.splits)

lemma asAnalysis_line:
  assumes "asAnalysis parsed = Some analysis"
  shows "\<exists>line. analysisLine rt parsed = Inr line"
proof -
  from asAnalysis_fields(1) [OF assms] have n: "parsed \<noteq> JNull"
    by (auto simp: needed_def)
  from strArr_length [OF asAnalysis_fields(1) [OF assms]]
  obtain nf where f: "lengthOf (getProp ''failures'' (Some parsed)) = Inr nf" by blast
  from strArr_length [OF asAnalysis_fields(2) [OF assms]]
  obtain nc where c: "lengthOf (getProp ''changes'' (Some parsed)) = Inr nc" by blast
  show ?thesis by (simp add: analysisLine_def n f c)
qed

text \<open>
  C4.  A run that reaches the analysis (both fetches succeed and the prompt can be
  shown) and whose reasoning output is an \<^verbatim>\<open>AnalysisResult\<close> requesting the two
  capabilities \<open>a\<close> and \<open>b\<close>, where the source of one of them (\<open>bad\<close>) does not
  compile and the source of the other (\<open>good\<close>) does, and in which no send to the
  messaging gateway throws: whatever the configuration update, the provider sync, the
  workflow deployments, the verification and the callback do, the run returns a record,
  the history is the old history followed by that record, the record lists the good
  capability among \<^verbatim>\<open>toolsCreated\<close>, and its log holds a \<^verbatim>\<open>create_tool\<close> entry of
  status \<^verbatim>\<open>error\<close> naming the bad one.
\<close>

theorem one_failed_synthesis_does_not_abort:
  assumes fetch: "getCall cId s = (Inr call, s1)"
    and prof: "getAssistant assistantId s1 = (Inr assistant, s2)"
    and prompt: "systemMessage assistant = Some p"
    and head: "sliceText rt ''assistant.systemMessage'' 80 p = Inr shown"
    and reason: "analyzeTranscriptWithRaw rt (ctranscript call) p (config assistant)
                   (map (\<lambda>t. (name t, description t)) (getAllTools (registry s2))) s2
                 = (Inr (parsed, raw), s3)"
    and shape: "asAnalysis parsed = Some analysis"
    and two: "newTools analysis = Some [a, b]" and which: "{bad, good} = {a, b}"
    and bad: "buildHandler rt (handlerCode bad) = Inl e"
    and good: "buildHandler rt (handlerCode good) = Inr h"
    and q: "quiet s"
  shows "\<exists>r s'. analyzeAndImprove rt cId assistantId number s = (Inr r, s') \<and>
           history s' = history s @ [r] \<and> specName good \<in> set (toolsCreated r) \<and>
           (\<exists>p \<in> set (pipelineLog r). step p = ''create_tool'' \<and> status p = error \<and>
              detail p = ''Failed to create tool '' @ quoted (specName bad) @ '': '' @ message e)"
proof -
  have k1: "kept s s1" using getCall_frame [of s cId] fetch by (simp add: frame_kept)
  have k2: "kept s1 s2" using getAssistant_frame [of s1 assistantId] prof by (simp add: frame_kept)
  have k3: "kept s2 s3" using analyzeTranscriptWithRaw_kept [of s2 rt "ctranscript call"
        p "config assistant"
        "map (\<lambda>t. (name t, description t)) (getAllTools (registry s2))"] reason by simp
  have k: "kept s s3" using k1 k2 k3 by (blast intro: kept_trans)
  then have q3: "quiet s3" and h3: "history s3 = history s" using q by (auto simp: kept_def)
  obtain line where line: "analysisLine rt parsed = Inr line"
    using asAnalysis_line [OF shape] by blast
  have run: "analyzeAndImprove rt cId assistantId number s =
      improve rt cId assistantId number call assistant analysis raw
        (logStep (openingLog cId call shown (getAllTools (registry s2)) s s1 s2)
           ''ai_analysis'' ok line s3) s3"
    unfolding analyzeAndImprove_def
    by (simp add: fetch prof prompt head reason bind_def afterAnalysis_def line shape)
  show ?thesis
    using improve_one_fails [OF q3 two which bad good, of cId assistantId number call assistant raw]
    unfolding run by (simp add: h3)
qed

section \<open>The sample run with two requested capabilities\<close>

lemma chars_plain: "list_all (\<lambda>c. \<not> cont c) t \<Longrightarrow> chars t = map (\<lambda>c. [c]) t"
  by (induction t) (auto simp: takeWhile_eq_Nil_iff dropWhile_eq_self_iff list_all_iff
      intro: hd_in_set)

lemma sliceChars_plain: "sliceChars n (map (\<lambda>c. [c]) t) = take n t"
  by (induction t arbitrary: n) (auto simp: width_def take_Cons')

lemma sliceTo_plain: "list_all (\<lambda>c. \<not> cont c) t \<Longrightarrow> sliceTo n t = take n t"
  by (simp add: sliceTo_def chars_plain sliceChars_plain)

lemma units_plain: "list_all (\<lambda>c. \<not> cont c) t \<Longrightarrow> units t = length t"
  by (simp add: units_def chars_plain width_def comp_def sum_list_triv)

lemma concat_singletons: "concat (map (\<lambda>c. [c]) t) = t"
  by (induction t) auto

lemma stripJsonFences_plain: "CHR 0x60 \<notin> set cs \<Longrightarrow> stripJsonFences cs = cs"
  by (induction cs) (auto simp: fence_def)

lemma stripFences_plain: "CHR 0x60 \<notin> set cs \<Longrightarrow> stripFences cs = cs"
  by (induction cs) (auto simp: fence_def)

lemma trim_plain:
  assumes "list_all (\<lambda>c. \<not> cont c) t" and "t \<noteq> []"
    and "\<not> isSpace [hd t]" and "\<not> isSpace [last t]"
  shows "trim t = t"
proof -
  from assms(2,3) have 1: "dropWhile isSpace (map (\<lambda>c. [c]) t) = map (\<lambda>c. [c]) t"
    by (cases t) auto
  from assms(2,4) have 2: "dropWhile isSpace (rev (map (\<lambda>c. [c]) t)) = rev (map (\<lambda>c. [c]) t)"
    by (cases t rule: rev_cases) auto
  show ?thesis by (simp add: trim_def chars_plain [OF assms(1)] 1 2 concat_singletons)
qed

lemma cleaned_plain:
  assumes "CHR 0x60 \<notin> set t" and "list_all (\<lambda>c. \<not> cont c) t" and "t \<noteq> []"
    and "\<not> isSpace [hd t]" and "\<not> isSpace [last t]"
  shows "cleaned t = t"
  using assms by (simp add: cleaned_def stripJsonFences_plain stripFences_plain trim_plain)

lemma cleaned_tools: "cleaned toolsReplyText = toolsReplyText"
  by (rule cleaned_plain) (simp_all add: toolsReplyText_def dq_def isSpace_def whitespace_def cont_def)

lemma cleaned_flow: "cleaned flowReplyText = flowReplyText"
  by (rule cleaned_plain) (simp_all add: flowReplyText_def dq_def isSpace_def whitespace_def cont_def)

lemma cleaned_partial: "cleaned partialReplyText = partialReplyText"
  by (rule cleaned_plain) (simp_all add: partialReplyText_def dq_def isSpace_def whitespace_def cont_def)

lemma sample_getCall: "getCall ''call-1'' (sampleState reply) = (Inr sampleCall, sampleState reply)"
  by (simp add: getCall_def sampleState_def idleState_def nextFault_def)

lemma sample_extract: "extractSystemMessage liveProfile = Inr (Some samplePrompt)"
  by (simp add: extractSystemMessage_def liveProfile_def samplePrompt_def)

lemma sample_getAssistant:
  "getAssistant ''asst'' (sampleState reply) = (Inr sampleAssistant, sampleState reply)"
  by (simp add: getAssistant_def getAssistantRaw_def bind_def sampleState_def idleState_def
      nextFault_def sampleAssistant_def sample_extract)

lemma sample_shown:
  "sliceText rt ''assistant.systemMessage'' 80 samplePrompt = Inr ''You are a logistics assistant.''"
proof -
  have "sliceTo 80 ''You are a logistics assistant.'' = take 80 ''You are a logistics assistant.''"
    by (rule sliceTo_plain) (simp add: cont_def)
  then show ?thesis by (simp add: sliceText_def samplePrompt_def)
qed

lemma sample_listing: "listExistingWorkflows sampleRuntime (sampleState reply) = sampleState reply"
  by (simp add: listExistingWorkflows_def isN8nConfigured_def envOr_def sampleRuntime_def
      sampleState_def idleState_def nextFault_def)

lemma sample_reply: "llmReply (sampleState reply) = Inr (TextBlock reply # [])"
  by (simp add: sampleState_def idleState_def)

lemma texts_differ:
  "flowReplyText \<noteq> toolsReplyText" "partialReplyText \<noteq> toolsReplyText"
  "partialReplyText \<noteq> flowReplyText"
  by (simp_all add: flowReplyText_def toolsReplyText_def partialReplyText_def dq_def)

lemma sample_parse:
  "jsonParse sampleRuntime (cleaned toolsReplyText) = Some toolsValue"
  "jsonParse sampleRuntime (cleaned flowReplyText) = Some flowValue"
  "jsonParse sampleRuntime (cleaned partialReplyText) = Some partialValue"
  by (simp_all add: cleaned_tools cleaned_flow cleaned_partial sampleRuntime_def sampleParse_def
      texts_differ)

lemma sample_analysis_tools:
  "analyzeTranscriptWithRaw sampleRuntime tr cp cc et (sampleState toolsReplyText)
   = (Inr (toolsValue, toolsReplyText), sampleState toolsReplyText)"
  by (simp add: analyzeTranscriptWithRaw_def sample_listing sample_reply sample_parse)

lemma tools_shape: "asAnalysis toolsValue = Some toolsAnalysis"
  by (simp add: asAnalysis_def toolsValue_def toolsAnalysis_def needed_def optional_def
      strArr_def arrOf_def objOf_def toolSpecOf_def toolParametersOf_def propSpecOf_def
      brokenSpec_def trackSpec_def)

lemma sample_quiet: "quiet (sampleState reply)"
  by (simp add: quiet_def sampleState_def idleState_def)

theorem one_failed_synthesis_does_not_abort_witness:
  "getCall ''call-1'' (sampleState toolsReplyText) = (Inr sampleCall, sampleState toolsReplyText) \<and>
   getAssistant ''asst'' (sampleState toolsReplyText) = (Inr sampleAssistant, sampleState toolsReplyText) \<and>
   systemMessage sampleAssistant = Some samplePrompt \<and>
   asAnalysis toolsValue = Some toolsAnalysis \<and>
   newTools toolsAnalysis = Some [brokenSpec, trackSpec] \<and>
   buildHandler sampleRuntime (handlerCode brokenSpec) = Inl (Error ''SyntaxError: Unexpected token'') \<and>
   buildHandler sampleRuntime (handlerCode trackSpec) = Inr (\<lambda>args. Inr (Some (JStr ''1''))) \<and>
   quiet (sampleState toolsReplyText) \<and>
   (\<exists>r s'. analyzeAndImprove sampleRuntime ''call-1'' ''asst'' None (sampleState toolsReplyText) = (Inr r, s') \<and>
      history s' = history (sampleState toolsReplyText) @ [r] \<and>
      specName trackSpec \<in> set (toolsCreated r) \<and>
      (\<exists>p \<in> set (pipelineLog r). step p = ''create_tool'' \<and> status p = error \<and>
         detail p = ''Failed to create tool '' @ quoted (specName brokenSpec) @ '': '' @
                    message (Error ''SyntaxError: Unexpected token'')))"
proof -
  have pr: "systemMessage sampleAssistant = Some samplePrompt"
    by (simp add: sampleAssistant_def)
  have two: "newTools toolsAnalysis = Some [brokenSpec, trackSpec]"
    by (simp add: toolsAnalysis_def)
  have bad: "buildHandler sampleRuntime (handlerCode brokenSpec) = Inl (Error ''SyntaxError: Unexpected token'')"
    by (simp add: buildHandler_def sampleRuntime_def sampleCompile_def brokenSpec_def)
  have good: "buildHandler sampleRuntime (handlerCode trackSpec) = Inr (\<lambda>args. Inr (Some (JStr ''1'')))"
    by (simp add: buildHandler_def sampleRuntime_def sampleCompile_def trackSpec_def)
  have which: "{brokenSpec, trackSpec} = {brokenSpec, trackSpec}" by simp
  from one_failed_synthesis_does_not_abort
    [OF sample_getCall sample_getAssistant pr sample_shown sample_analysis_tools tools_shape
        two which bad good sample_quiet, of None]
  show ?thesis
    using sample_getCall sample_getAssistant pr tools_shape two bad good sample_quiet by blast
qed


section \<open>A run that deploys an automation\<close>

lemma flow_getCall: "getCall ''call-1'' (flowStart reg) = (Inr sampleCall, flowStart reg)"
  by (simp add: getCall_def flowStart_def sampleState_def idleState_def nextFault_def)

lemma flow_getAssistant:
  "getAssistant ''asst'' (flowStart reg) = (Inr sampleAssistant, flowStart reg)"
  by (simp add: getAssistant_def getAssistantRaw_def bind_def flowStart_def sampleState_def
      idleState_def nextFault_def sampleAssistant_def sample_extract)

lemma flow_gateway:
  "analyzeTranscriptWithRaw sampleRuntime tr cp cc et (flowStart reg)
   = (Inr (flowValue, flowReplyText), flowStart reg)"
proof -
  have l: "listExistingWorkflows sampleRuntime (flowStart reg) = flowStart reg"
    by (simp add: listExistingWorkflows_def isN8nConfigured_def envOr_def sampleRuntime_def
        flowStart_def sampleState_def idleState_def nextFault_def)
  have r: "llmReply (flowStart reg) = Inr (TextBlock flowReplyText # [])"
    by (simp add: flowStart_def sampleState_def idleState_def)
  show ?thesis
    by (simp add: analyzeTranscriptWithRaw_def l r sample_parse)
qed

lemma flow_shape: "asAnalysis flowValue = Some flowAnalysis"
  by (simp add: asAnalysis_def flowValue_def flowAnalysis_def needed_def optional_def
      strArr_def arrOf_def objOf_def workflowSpecOf_def workflowStepOf_def)

lemma flow_applyConfig:
  "\<exists>more. applyConfig ''asst'' flowAnalysis lg (flowStart reg)
            = (lg @ more, flowStart reg) \<and> filter (\<lambda>p. step p = ''test_tool'') more = []"
  by (simp add: applyConfig_def updateWith_def changesOf_def updateAssistant_def patchMaxTokens_def
      patchVoice_def copyField_def bind_def flowAnalysis_def logStep_def)

lemma flow_createTools:
  "\<exists>more. createToolsPhase sampleRuntime flowAnalysis lg (flowStart reg)
            = ((lg @ more, []), flowStart reg) \<and>
            filter (\<lambda>p. step p = ''test_tool'') more = []"
  by (simp add: createToolsPhase_def flowAnalysis_def logStep_def)

lemma flow_webhook:
  "createCustomWorkflow sampleRuntime ''Send Customer WhatsApp'' ''send-customer-whatsapp''
     (flowStart reg)
   = (Inr ''https://n8n.example/webhook/send-customer-whatsapp'',
      (flowStart reg)\<lparr>n8nDeployed := [(''Send Customer WhatsApp'', ''send-customer-whatsapp'')]\<rparr>)"
  by (simp add: createCustomWorkflow_def nextFault_def flowStart_def sampleState_def idleState_def
      sampleRuntime_def envOr_def)

lemma wire_compiles:
  "buildHandler sampleRuntime (handlerCode (wireSpec n w u)) = Inr (\<lambda>args. Inr (Some (JStr ''{}'')))"
  by (simp add: buildHandler_def sampleRuntime_def sampleCompile_def wireSpec_def wireCode_def)

lemma flow_wire:
  "createAndRegisterTool sampleRuntime
     (wireSpec ''send_customer_whatsapp'' ''Send Customer WhatsApp''
        ''https://n8n.example/webhook/send-customer-whatsapp'')
     ((flowStart reg)\<lparr>n8nDeployed := [(''Send Customer WhatsApp'', ''send-customer-whatsapp'')]\<rparr>)
   = (Inr wiringTool, wiredState reg)"
proof -
  have e: "env sampleRuntime ''VAPI_ASSISTANT_ID'' = None" "env sampleRuntime ''OPERATOR_PHONE'' = None"
    by (simp_all add: sampleRuntime_def)
  have n: "now (flowStart reg) = 0" by (simp add: flowStart_def sampleState_def idleState_def)
  show ?thesis
    unfolding createAndRegisterTool_def wire_compiles
    by (simp add: Let_def e syncIfConfigured_def notifyOperator_def bind_def
        wiredState_def flowStart_def wiringTool_def sampleState_def idleState_def)
qed

lemma flow_deploy:
  "\<exists>more. deployWorkflowsPhase sampleRuntime flowAnalysis (lg, []) (flowStart reg)
            = (((lg @ more, [''send_customer_whatsapp''],
                 [''Send Customer WhatsApp'' @ '' '' @ rightArrow @ '' '' @
                  ''https://n8n.example/webhook/send-customer-whatsapp'']), []), wiredState reg) \<and>
            filter (\<lambda>p. step p = ''test_tool'') more = []"
proof -
  have cfg: "isN8nConfigured sampleRuntime"
    by (simp add: isN8nConfigured_def envOr_def sampleRuntime_def)
  have sc: "snakeCase ''send-customer-whatsapp'' = ''send_customer_whatsapp''"
    by (simp add: snakeCase_def)
  show ?thesis
    by (simp add: deployWorkflowsPhase_def flowAnalysis_def cfg deployWorkflowStep_def Let_def
        flow_webhook sc flow_wire logStep_def the_default_def)
qed

lemma wired_getAssistant:
  "getAssistant ''asst'' (wiredState reg) = (Inr sampleAssistant, wiredState reg)"
  by (simp add: getAssistant_def getAssistantRaw_def bind_def wiredState_def sampleState_def
      idleState_def nextFault_def sampleAssistant_def sample_extract)

lemma flow_verify:
  "\<exists>more. verifyAssistant sampleRuntime ''asst'' lg (wiredState reg) = (lg @ more, wiredState reg) \<and>
          filter (\<lambda>p. step p = ''test_tool'') more = []"
  by (simp add: verifyAssistant_def wired_getAssistant bind_def Let_def sampleAssistant_def
      samplePrompt_def lengthOf_def logStep_def)

lemma flow_start:
  "\<exists>lg. analyzeAndImprove sampleRuntime ''call-1'' ''asst'' None (flowStart reg) =
          improve sampleRuntime ''call-1'' ''asst'' None sampleCall sampleAssistant flowAnalysis
            flowReplyText lg (flowStart reg) \<and>
        filter (\<lambda>p. step p = ''test_tool'') lg = []"
proof -
  obtain line where line: "analysisLine sampleRuntime flowValue = Inr line"
    using asAnalysis_line [OF flow_shape] by blast
  have pr: "systemMessage sampleAssistant = Some samplePrompt"
    by (simp add: sampleAssistant_def)
  show ?thesis
    unfolding analyzeAndImprove_def
    apply (simp add: flow_getCall flow_getAssistant pr sample_shown flow_gateway bind_def
        afterAnalysis_def line flow_shape)
    apply (rule exI)
    apply (rule conjI)
     apply (rule refl)
    apply (simp add: logStep_def openingLog_def Let_def)
    done
qed

lemma flow_run:
  "\<exists>r. analyzeAndImprove sampleRuntime ''call-1'' ''asst'' None (flowStart reg)
          = (Inr r, (wiredState reg)\<lparr>history := [r]\<rparr>) \<and>
        toolsCreated r = [''send_customer_whatsapp''] \<and>
        filter (\<lambda>p. step p = ''test_tool'') (pipelineLog r) = []"
proof -
  obtain lg where start: "analyzeAndImprove sampleRuntime ''call-1'' ''asst'' None (flowStart reg) =
          improve sampleRuntime ''call-1'' ''asst'' None sampleCall sampleAssistant flowAnalysis
            flowReplyText lg (flowStart reg)"
    and t0: "filter (\<lambda>p. step p = ''test_tool'') lg = []"
    using flow_start by blast
  obtain m1 where p1: "applyConfig ''asst'' flowAnalysis lg (flowStart reg)
            = (lg @ m1, flowStart reg)" and t1: "filter (\<lambda>p. step p = ''test_tool'') m1 = []"
    using flow_applyConfig by blast
  obtain m2 where p2: "createToolsPhase sampleRuntime flowAnalysis (lg @ m1) (flowStart reg)
            = ((lg @ m1 @ m2, []), flowStart reg)"
    and t2: "filter (\<lambda>p. step p = ''test_tool'') m2 = []"
    using flow_createTools [of "lg @ m1"] by auto
  obtain m3 where p3: "deployWorkflowsPhase sampleRuntime flowAnalysis (lg @ m1 @ m2, [])
              (flowStart reg)
            = (((lg @ m1 @ m2 @ m3, [''send_customer_whatsapp''],
                 [''Send Customer WhatsApp'' @ '' '' @ rightArrow @ '' '' @
                  ''https://n8n.example/webhook/send-customer-whatsapp'']), []), wiredState reg)"
    and t3: "filter (\<lambda>p. step p = ''test_tool'') m3 = []"
    using flow_deploy [of "lg @ m1 @ m2"] by auto
  obtain m4 where p4: "verifyAssistant sampleRuntime ''asst'' (lg @ m1 @ m2 @ m3) (wiredState reg)
            = (lg @ m1 @ m2 @ m3 @ m4, wiredState reg)"
    and t4: "filter (\<lambda>p. step p = ''test_tool'') m4 = []"
    using flow_verify [of "lg @ m1 @ m2 @ m3"] by auto
  have e: "env sampleRuntime ''OPERATOR_PHONE'' = None" by (simp add: sampleRuntime_def)
  have w: "history (wiredState reg) = []"
    by (simp_all add: wiredState_def sampleState_def idleState_def)
  show ?thesis
    unfolding start improve_def
    by (simp add: p1 p2 p3 p4 bind_def Let_def notifyOperator_def e callbackPhase_def w
        logStep_def t0 t1 t2 t3 t4)
qed


section \<open>The smoke test\<close>

lemma update_fresh: "k \<notin> fst ` set al \<Longrightarrow> AList.update k v al = al @ [(k, v)]"
  by (induction al) auto

lemma fold_update_distinct:
  "distinct (map fst ps) \<Longrightarrow> fst ` set ps \<inter> fst ` set acc = {} \<Longrightarrow>
     fold (\<lambda>(k, p). AList.update k (f p)) ps acc = acc @ map (\<lambda>(k, p). (k, f p)) ps"
proof (induction ps arbitrary: acc)
  case Nil
  then show ?case by simp
next
  case (Cons a ps)
  obtain k p where a: "a = (k, p)" by (cases a)
  from Cons.prems a have fresh: "k \<notin> fst ` set acc" by auto
  have d: "distinct (map fst ps)" using Cons.prems by simp
  have dis: "fst ` set ps \<inter> fst ` set (acc @ [(k, f p)]) = {}"
    using Cons.prems a by auto
  show ?case
    using Cons.IH [OF d dis] by (simp add: a update_fresh [OF fresh])
qed

lemma ownKeys_plain: "list_all (\<lambda>e. \<not> isIndex (fst e)) kvs \<Longrightarrow> ownKeys kvs = kvs"
  by (simp add: ownKeys_def list_all_iff)

lemma fold_update_plain:
  "list_all (\<lambda>e. fst e \<noteq> ''__proto__'') ps \<Longrightarrow>
     fold (\<lambda>(key, p). if key = ''__proto__'' then id else AList.update key (f p)) ps acc
       = fold (\<lambda>(k, p). AList.update k (f p)) ps acc"
  by (induction ps arbitrary: acc) auto

text \<open>
  The arguments of the smoke test when the property names are distinct, none of them an
  array index or \<^verbatim>\<open>__proto__\<close>: one argument per property, in the order of the schema.
\<close>

lemma testArgsOf_distinct:
  assumes "distinct (map fst (properties (specParameters spec)))"
    and "list_all (\<lambda>e. \<not> isIndex (fst e)) (properties (specParameters spec))"
    and "list_all (\<lambda>e. fst e \<noteq> ''__proto__'') (properties (specParameters spec))"
  shows "testArgsOf spec = map (\<lambda>(k, p). (k, if ptype p = ''string'' then JStr ''test'' else JNum 0))
                         (properties (specParameters spec))"
  unfolding testArgsOf_def ownKeys_plain [OF assms(2)] fold_update_plain [OF assms(3)]
  using fold_update_distinct [OF assms(1), of "[]"
          "\<lambda>p. if ptype p = ''string'' then JStr ''test'' else JNum 0"]
  by simp

lemma getTool_registerTool: "getTool (registerTool tool reg) (name tool) = Some tool"
  by (simp add: getTool_def registerTool_def update_conv')

lemma created_tool:
  assumes "createAndRegisterTool rt spec s = (Inr tool, s1)"
  shows "\<exists>h. buildHandler rt (handlerCode spec) = Inr h \<and> tool = newTool spec h (now s) \<and>
           registry s1 = registerTool tool (registry s) \<and> handlerCalls s1 = handlerCalls s \<and>
           kept s s1"
proof (cases "buildHandler rt (handlerCode spec)")
  case (Inl e)
  with assms show ?thesis by (simp add: createAndRegisterTool_fails)
next
  case (Inr h)
  from createAndRegisterTool_registers [OF Inr, of s] assms
  show ?thesis using Inr by auto
qed

text \<open>
  The loop over \<^verbatim>\<open>newTools\<close>.  For a requested capability whose creation returns,
  the loop body calls the handler exactly once, with the arguments of \<open>testArgsOf\<close>;
  when the handler throws, or resolves to a value that has no \<^verbatim>\<open>slice\<close>, the log gains
  a \<^verbatim>\<open>test_tool\<close> entry of status \<^verbatim>\<open>error\<close>, and in every case the capability is in
  the registry, marked dynamic, and its name is appended to the created list.
\<close>

lemma requested_capability_is_smoke_tested:
  assumes "createAndRegisterTool rt spec s = (Inr tool, s1)"
  shows "\<exists>lg' s2.
           createToolStep rt spec (lg, created) s = ((lg', created @ [specName spec]), s2) \<and>
           handlerCalls s2 = handlerCalls s @ [(specName spec, testArgsOf spec)] \<and>
           getTool (registry s2) (specName spec) = Some tool \<and> isDynamic tool \<and>
           (\<forall>e. handler tool (testArgsOf spec) = Inl e \<or>
                (\<exists>output. handler tool (testArgsOf spec) = Inr output \<and>
                   sliceOf rt ''output'' 100 output = Inl e) \<longrightarrow>
              lg' = lg @ [\<lparr>step = ''create_tool'', status = ok,
                             detail = ''Creating tool: '' @ quoted (specName spec) @ '' '' @ emDash @
                                      '' '' @ specDescription spec,
                             timestamp = now s\<rparr>,
                          \<lparr>step = ''test_tool'', status = error,
                             detail = ''Tool '' @ quoted (specName spec) @ '' smoke test failed: '' @
                                      message e,
                             timestamp = now s\<rparr>]) \<and>
           (\<forall>output shown. handler tool (testArgsOf spec) = Inr output \<and>
                sliceOf rt ''output'' 100 output = Inr shown \<longrightarrow>
              lg' = lg @ [\<lparr>step = ''create_tool'', status = ok,
                             detail = ''Creating tool: '' @ quoted (specName spec) @ '' '' @ emDash @
                                      '' '' @ specDescription spec,
                             timestamp = now s\<rparr>,
                          \<lparr>step = ''test_tool'', status = ok,
                             detail = ''Tool '' @ quoted (specName spec) @ '' smoke test passed: '' @
                                      shown,
                             timestamp = now s\<rparr>])"
proof -
  from created_tool [OF assms] obtain h where
    t: "tool = newTool spec h (now s)" and r: "registry s1 = registerTool tool (registry s)"
    and c: "handlerCalls s1 = handlerCalls s" and k: "kept s s1" by blast
  have n: "name tool = specName spec" "isDynamic tool" by (simp_all add: t newTool_def)
  have g: "getTool (registry s1) (specName spec) = Some tool"
    using getTool_registerTool [of tool "registry s"] by (simp add: r n)
  have nw: "now s1 = now s" using k by (simp add: kept_def)
  show ?thesis
  proof (cases "handler tool (testArgsOf spec)")
    case (Inl e)
    then show ?thesis
      using assms g c n nw by (auto simp: createToolStep_def smokeTest_def Let_def logStep_def)
  next
    case (Inr out)
    then show ?thesis
      using assms g c n nw
      by (cases "sliceOf rt ''output'' 100 out")
         (auto simp: createToolStep_def smokeTest_def Let_def logStep_def)
  qed
qed

lemma flaky_created:
  "createAndRegisterTool sampleRuntime flakySpec (sampleState reply)
     = (Inr (newTool flakySpec (\<lambda>args. Inl (Error ''2'')) 0),
        (sampleState reply)\<lparr>registry := [(''check_eta'', newTool flakySpec (\<lambda>args. Inl (Error ''2'')) 0)]\<rparr>)"
proof -
  have b: "buildHandler sampleRuntime (handlerCode flakySpec) = Inr (\<lambda>args. Inl (Error ''2''))"
    by (simp add: buildHandler_def sampleRuntime_def sampleCompile_def flakySpec_def)
  have e: "env sampleRuntime ''VAPI_ASSISTANT_ID'' = None" "env sampleRuntime ''OPERATOR_PHONE'' = None"
    by (simp_all add: sampleRuntime_def)
  have n: "specName flakySpec = ''check_eta''" by (simp add: flakySpec_def)
  show ?thesis
    unfolding createAndRegisterTool_def b
    by (simp add: Let_def e syncIfConfigured_def notifyOperator_def bind_def registerTool_def
        sampleState_def idleState_def n newTool_def)
qed


text \<open>
  The sibling path at work: the requested capability \<open>flakySpec\<close>, whose handler throws,
  is called once with \<^verbatim>\<open>{ id: "test", count: 0 }\<close>, the failure is logged, and the
  capability stays registered and listed.
\<close>

lemma flaky_capability_is_tested_and_kept:
  "\<exists>lg' s2.
      createToolStep sampleRuntime flakySpec ([], []) (sampleState toolsReplyText)
        = ((lg', [''check_eta'']), s2) \<and>
      handlerCalls s2 = [(''check_eta'', [(''id'', JStr ''test''), (''count'', JNum 0)])] \<and>
      getTool (registry s2) ''check_eta'' = Some (newTool flakySpec (\<lambda>args. Inl (Error ''2'')) 0) \<and>
      map step lg' = [''create_tool'', ''test_tool''] \<and> map status lg' = [ok, error]"
proof -
  note A = requested_capability_is_smoke_tested
             [OF flaky_created [of toolsReplyText], where lg = "[]" and created = "[]"]
  have n: "specName flakySpec = ''check_eta''" by (simp add: flakySpec_def)
  have ix: "\<not> isIndex ''id''" "\<not> isIndex ''count''" by (simp_all add: isIndex_def)
  have args: "testArgsOf flakySpec = [(''id'', JStr ''test''), (''count'', JNum 0)]"
    by (simp add: testArgsOf_def flakySpec_def ownKeys_def ix)
  have h: "handler (newTool flakySpec (\<lambda>args. Inl (Error ''2'')) 0) (testArgsOf flakySpec) = Inl (Error ''2'')"
    by (simp add: newTool_def)
  have c0: "handlerCalls (sampleState toolsReplyText) = []"
    by (simp add: sampleState_def idleState_def)
  from A obtain lg' s2 where
    1: "createToolStep sampleRuntime flakySpec ([], []) (sampleState toolsReplyText)
         = ((lg', [] @ [specName flakySpec]), s2)"
    and 2: "handlerCalls s2 = handlerCalls (sampleState toolsReplyText) @
                               [(specName flakySpec, testArgsOf flakySpec)]"
    and 3: "getTool (registry s2) (specName flakySpec)
              = Some (newTool flakySpec (\<lambda>args. Inl (Error ''2'')) 0)"
    and 4: "\<forall>e. handler (newTool flakySpec (\<lambda>args. Inl (Error ''2'')) 0) (testArgsOf flakySpec) = Inl e \<or>
                (\<exists>output. handler (newTool flakySpec (\<lambda>args. Inl (Error ''2'')) 0) (testArgsOf flakySpec) = Inr output \<and>
                   sliceOf sampleRuntime ''output'' 100 output = Inl e) \<longrightarrow>
              lg' = [] @ [\<lparr>step = ''create_tool'', status = ok,
                             detail = ''Creating tool: '' @ quoted (specName flakySpec) @ '' '' @ emDash @
                                      '' '' @ specDescription flakySpec,
                             timestamp = now (sampleState toolsReplyText)\<rparr>,
                          \<lparr>step = ''test_tool'', status = error,
                             detail = ''Tool '' @ quoted (specName flakySpec) @ '' smoke test failed: '' @
                                      message e,
                             timestamp = now (sampleState toolsReplyText)\<rparr>]"
    by blast
  from 4 h have 5: "map step lg' = [''create_tool'', ''test_tool''] \<and> map status lg' = [ok, error]"
    by simp
  from 1 2 3 5 show ?thesis
    using flaky_created [of toolsReplyText] by (auto simp: n args c0)
qed

text \<open>
  A handler that resolves to a number: \<^verbatim>\<open>output.slice\<close> is not a function, and the test
  is logged as failed.
\<close>

lemma number_output_fails_the_test:
  "map (\<lambda>p. (step p, status p, detail p))
     (fst (smokeTest sampleRuntime countSpec (newTool countSpec (\<lambda>args. Inr (Some (JNum 1))) 0) []
             (sampleState toolsReplyText)))
   = [(''test_tool'', error,
       ''Tool '' @ quoted ''count_containers'' @ '' smoke test failed: output.slice is not a function'')]"
  by (simp add: smokeTest_def Let_def newTool_def sliceOf_def sliceText_def notFunction_def
      logStep_def countSpec_def)

text \<open>
  C7.  The end-of-call run on a reasoning output that asks for one automation, every
  service answering: the automation is deployed, the capability \<^verbatim>\<open>send_customer_whatsapp\<close>
  that posts to its webhook is registered, marked dynamic, and listed in
  \<^verbatim>\<open>toolsCreated\<close> of the record appended to the history; and no handler was called
  and the log of the run holds no \<^verbatim>\<open>test_tool\<close> entry.  The synthesized capability of
  the wiring step is not smoke-tested.
\<close>

theorem wiring_capability_is_not_smoke_tested:
  "\<exists>r s'. analyzeAndImprove sampleRuntime ''call-1'' ''asst'' None (sampleState flowReplyText) = (Inr r, s') \<and>
      toolsCreated r = [''send_customer_whatsapp''] \<and>
      map (\<lambda>e. (fst e, isDynamic (snd e))) (registry s') = [(''send_customer_whatsapp'', True)] \<and>
      history s' = [r] \<and>
      handlerCalls s' = [] \<and>
      filter (\<lambda>p. step p = ''test_tool'') (pipelineLog r) = []"
proof -
  have s: "flowStart [] = sampleState flowReplyText"
    by (simp add: flowStart_def sampleState_def idleState_def)
  have w: "handlerCalls (wiredState []) = []"
    "map (\<lambda>e. (fst e, isDynamic (snd e))) (registry (wiredState [])) = [(''send_customer_whatsapp'', True)]"
    by (simp_all add: wiredState_def sampleState_def idleState_def wiringTool_def newTool_def
        registerTool_def wireSpec_def)
  from flow_run [of "[]"] show ?thesis
    unfolding s using w by auto
qed


section \<open>Fatal fetches\<close>

text \<open>
  C3.  If \<^verbatim>\<open>getCall\<close> throws, or \<^verbatim>\<open>getCall\<close> returns and \<^verbatim>\<open>getAssistant\<close> throws,
  \<^verbatim>\<open>analyzeAndImprove\<close> throws that same error, and neither the history nor the
  registry has changed: no record is appended.
\<close>

theorem fatal_fetch_aborts_without_record:
  "(\<forall>e s1. getCall cId s = (Inl e, s1) \<longrightarrow>
      analyzeAndImprove rt cId assistantId number s = (Inl e, s1) \<and>
      history s1 = history s \<and> length (history s1) = length (history s) \<and>
      registry s1 = registry s) \<and>
   (\<forall>call s1 e s2. getCall cId s = (Inr call, s1) \<and> getAssistant assistantId s1 = (Inl e, s2) \<longrightarrow>
      analyzeAndImprove rt cId assistantId number s = (Inl e, s2) \<and>
      history s2 = history s \<and> length (history s2) = length (history s) \<and>
      registry s2 = registry s)"
proof (intro conjI allI impI)
  fix e s1
  assume g: "getCall cId s = (Inl e, s1)"
  have f: "frame s s1" using getCall_frame [of s cId] g by simp
  show "analyzeAndImprove rt cId assistantId number s = (Inl e, s1)"
    by (simp add: analyzeAndImprove_def g bind_def)
  show "history s1 = history s" "length (history s1) = length (history s)" "registry s1 = registry s"
    using f by (simp_all add: frame_def)
next
  fix call s1 e s2
  assume a: "getCall cId s = (Inr call, s1) \<and> getAssistant assistantId s1 = (Inl e, s2)"
  have f1: "frame s s1" using getCall_frame [of s cId] a by simp
  have f2: "frame s1 s2" using getAssistant_frame [of s1 assistantId] a by simp
  have f: "frame s s2" using f1 f2 by (rule frame_trans)
  show "analyzeAndImprove rt cId assistantId number s = (Inl e, s2)"
    using a by (simp add: analyzeAndImprove_def bind_def)
  show "history s2 = history s" "length (history s2) = length (history s)" "registry s2 = registry s"
    using f by (simp_all add: frame_def)
qed

lemma missing_call:
  "getCall ''gone'' (sampleState reply) = (Inl (vapiFail ''GET'' ''/call/gone''), sampleState reply)"
  by (simp add: getCall_def sampleState_def idleState_def nextFault_def)

lemma missing_assistant:
  "getAssistant ''nobody'' (sampleState reply)
     = (Inl (vapiFail ''GET'' ''/assistant/nobody''), sampleState reply)"
  by (simp add: getAssistant_def getAssistantRaw_def bind_def sampleState_def idleState_def nextFault_def)


theorem fatal_fetch_aborts_without_record_witness:
  "getCall ''gone'' (sampleState toolsReplyText)
     = (Inl (vapiFail ''GET'' ''/call/gone''), sampleState toolsReplyText) \<and>
   analyzeAndImprove sampleRuntime ''gone'' ''asst'' None (sampleState toolsReplyText)
     = (Inl (vapiFail ''GET'' ''/call/gone''), sampleState toolsReplyText) \<and>
   getCall ''call-1'' (sampleState toolsReplyText) = (Inr sampleCall, sampleState toolsReplyText) \<and>
   getAssistant ''nobody'' (sampleState toolsReplyText)
     = (Inl (vapiFail ''GET'' ''/assistant/nobody''), sampleState toolsReplyText) \<and>
   analyzeAndImprove sampleRuntime ''call-1'' ''nobody'' None (sampleState toolsReplyText)
     = (Inl (vapiFail ''GET'' ''/assistant/nobody''), sampleState toolsReplyText) \<and>
   history (sampleState toolsReplyText) = []"
proof -
  note A = fatal_fetch_aborts_without_record
          [of "''gone''" "sampleState toolsReplyText" sampleRuntime "''asst''" None]
  note B = fatal_fetch_aborts_without_record
          [of "''call-1''" "sampleState toolsReplyText" sampleRuntime "''nobody''" None]
  from A missing_call [of toolsReplyText]
  have a: "analyzeAndImprove sampleRuntime ''gone'' ''asst'' None (sampleState toolsReplyText)
     = (Inl (vapiFail ''GET'' ''/call/gone''), sampleState toolsReplyText)"
    by blast
  from B sample_getCall [of toolsReplyText] missing_assistant [of toolsReplyText]
  have b: "analyzeAndImprove sampleRuntime ''call-1'' ''nobody'' None (sampleState toolsReplyText)
     = (Inl (vapiFail ''GET'' ''/assistant/nobody''), sampleState toolsReplyText)"
    by blast
  have h: "history (sampleState toolsReplyText) = []"
    by (simp add: sampleState_def idleState_def)
  from a b h missing_call [of toolsReplyText] sample_getCall [of toolsReplyText]
    missing_assistant [of toolsReplyText]
  show ?thesis by blast
qed

section \<open>The end-of-call webhook\<close>

text \<open>
  C8.  For an end-of-call report, \<^verbatim>\<open>analyzeAndImprove\<close> is called exactly when the call
  identifier is truthy, the assistant identifier (the event's, else the environment's)
  is truthy, and the end reason is one of the three bad endings; it is then called with
  these identifiers and the customer number.  The answer is \<^verbatim>\<open>{ ok: true }\<close> in every
  case, and when the pipeline is not called the state is untouched: no run, no record.
\<close>

theorem end_of_call_triggers_only_on_bad_endings:
  assumes "msgType m = Some ''end-of-call-report''"
  shows "(pipelineTrigger rt m \<noteq> None) =
           (truthyStr (msgCallId m) \<and> truthyStr (resolveAssistantId rt m) \<and>
            msgEndedReason m \<in> {Some ''customer-ended-call'', Some ''customer-did-not-answer'',
                                  Some ''customer-busy''}) \<and>
         (pipelineTrigger rt m \<noteq> None \<longrightarrow>
            pipelineTrigger rt m =
              Some (the_default [] (msgCallId m), the_default [] (resolveAssistantId rt m),
                    msgCustomerNumber m)) \<and>
         fst (serverMessage rt m s) = JObj [(''ok'', JBool True)] \<and>
         (pipelineTrigger rt m = None \<longrightarrow> serverMessage rt m s = (JObj [(''ok'', JBool True)], s)) \<and>
         (\<forall>c a n. pipelineTrigger rt m = Some (c, a, n) \<longrightarrow>
            history (snd (serverMessage rt m s)) = history (snd (analyzeAndImprove rt c a n s)))"
proof -
  have 1: "(pipelineTrigger rt m \<noteq> None) =
           (truthyStr (msgCallId m) \<and> truthyStr (resolveAssistantId rt m) \<and>
            msgEndedReason m \<in> {Some ''customer-ended-call'', Some ''customer-did-not-answer'',
                                  Some ''customer-busy''})"
    using assms
    by (cases "msgCallId m"; cases "resolveAssistantId rt m"; cases "msgEndedReason m")
       (auto simp: pipelineTrigger_def shouldImprove_def badEndings_def Let_def)
  have 2: "pipelineTrigger rt m \<noteq> None \<longrightarrow>
            pipelineTrigger rt m =
              Some (the_default [] (msgCallId m), the_default [] (resolveAssistantId rt m),
                    msgCustomerNumber m)"
    by (cases "msgCallId m"; cases "resolveAssistantId rt m")
       (auto simp: pipelineTrigger_def Let_def the_default_def)
  have 3: "fst (serverMessage rt m s) = JObj [(''ok'', JBool True)]"
    by (simp add: serverMessage_def)
  have 4: "pipelineTrigger rt m = None \<longrightarrow> serverMessage rt m s = (JObj [(''ok'', JBool True)], s)"
    by (simp add: serverMessage_def)
  have 5: "\<forall>c a n. pipelineTrigger rt m = Some (c, a, n) \<longrightarrow>
            history (snd (serverMessage rt m s)) = history (snd (analyzeAndImprove rt c a n s))"
    by (auto simp: serverMessage_def split: prod.splits sum.splits)
  from 1 2 3 4 5 show ?thesis by blast
qed

theorem end_of_call_triggers_only_on_bad_endings_witness:
  "msgType (endOfCall ''assistant-ended-call'') = Some ''end-of-call-report'' \<and>
   pipelineTrigger sampleRuntime (endOfCall ''assistant-ended-call'') = None \<and>
   serverMessage sampleRuntime (endOfCall ''assistant-ended-call'') (sampleState toolsReplyText)
     = (JObj [(''ok'', JBool True)], sampleState toolsReplyText) \<and>
   msgType (endOfCall ''customer-did-not-answer'') = Some ''end-of-call-report'' \<and>
   pipelineTrigger sampleRuntime (endOfCall ''customer-did-not-answer'')
     = Some (''call-1'', ''asst'', Some ''+971500000000'')"
proof -
  have t: "msgType (endOfCall r) = Some ''end-of-call-report''" for r
    by (simp add: endOfCall_def)
  note A = end_of_call_triggers_only_on_bad_endings
            [OF t, of sampleRuntime "''assistant-ended-call''" "sampleState toolsReplyText"]
  note B = end_of_call_triggers_only_on_bad_endings
            [OF t, of sampleRuntime "''customer-did-not-answer''" "sampleState toolsReplyText"]
  have "msgEndedReason (endOfCall ''assistant-ended-call'') \<notin>
          {Some ''customer-ended-call'', Some ''customer-did-not-answer'', Some ''customer-busy''}"
    by (simp add: endOfCall_def)
  with A have n: "pipelineTrigger sampleRuntime (endOfCall ''assistant-ended-call'') = None"
    by blast
  with A have ack: "serverMessage sampleRuntime (endOfCall ''assistant-ended-call'')
       (sampleState toolsReplyText) = (JObj [(''ok'', JBool True)], sampleState toolsReplyText)"
    by blast
  have "truthyStr (msgCallId (endOfCall ''customer-did-not-answer'')) \<and>
        truthyStr (resolveAssistantId sampleRuntime (endOfCall ''customer-did-not-answer'')) \<and>
        msgEndedReason (endOfCall ''customer-did-not-answer'') \<in>
          {Some ''customer-ended-call'', Some ''customer-did-not-answer'', Some ''customer-busy''}"
    by (simp add: endOfCall_def resolveAssistantId_def)
  with B have "pipelineTrigger sampleRuntime (endOfCall ''customer-did-not-answer'')
     = Some (the_default [] (msgCallId (endOfCall ''customer-did-not-answer'')),
             the_default [] (resolveAssistantId sampleRuntime (endOfCall ''customer-did-not-answer'')),
             msgCustomerNumber (endOfCall ''customer-did-not-answer''))"
    by blast
  then have y: "pipelineTrigger sampleRuntime (endOfCall ''customer-did-not-answer'')
     = Some (''call-1'', ''asst'', Some ''+971500000000'')"
    by (simp add: endOfCall_def resolveAssistantId_def the_default_def)
  from t n ack y show ?thesis by blast
qed

section \<open>The reasoning gateway on a reply that does not decode\<close>

lemma fallback_shape:
  "asAnalysis (fallbackWith dash currentPrompt) =
     Some \<lparr>aFailures = [''Could not parse analysis output''],
           aChanges = [''No changes made '' @ dash @ '' parse error''],
           configChanges = Some (JObj [(''systemMessage'', currentPrompt)]),
           newTools = None, newWorkflows = None, resourceRequests = None\<rparr>"
  by (simp add: asAnalysis_def fallbackWith_def needed_def optional_def strArr_def arrOf_def)

text \<open>
  C2.  For a reply with a content block: when \<^verbatim>\<open>JSON.parse\<close> throws on the cleaned
  text, both iterations of the gateway return their fallback and nothing of the reply,
  and write the reply to the error log; history and registry are untouched.  Read as an
  \<^verbatim>\<open>AnalysisResult\<close>, the fallback has the single failure "Could not parse analysis
  output", a single change, \<^verbatim>\<open>configChanges\<close> exactly \<^verbatim>\<open>{ systemMessage: currentPrompt }\<close>,
  and no \<^verbatim>\<open>newTools\<close>, \<^verbatim>\<open>newWorkflows\<close> or \<^verbatim>\<open>resourceRequests\<close>, which the pipeline
  reads as nothing to create and nothing to request.  When \<^verbatim>\<open>JSON.parse\<close> returns a
  value, that value is what the gateway returns, whatever its shape.
\<close>

theorem parse_failure_returns_fallback:
  assumes "llmReply s = Inr (block # others)"
  shows "(jsonParse rt (cleaned (case block of TextBlock t \<Rightarrow> t | OtherBlock \<Rightarrow> [])) = None \<longrightarrow>
           analyzeTranscriptWithRaw rt transcript currentPrompt currentConfig existingTools s
             = (Inr (parseFallback currentPrompt, case block of TextBlock t \<Rightarrow> t | OtherBlock \<Rightarrow> []),
                (listExistingWorkflows rt s)
                  \<lparr>errlog := errlog s @
                     [(parseFailed, Text (case block of TextBlock t \<Rightarrow> t | OtherBlock \<Rightarrow> []))]\<rparr>) \<and>
           analyzeTranscript rt transcript currentPrompt currentConfig existingTools s
             = (Inr (parseFallbackEarlier currentPrompt),
                s\<lparr>errlog := errlog s @
                     [(parseFailed, Text (case block of TextBlock t \<Rightarrow> t | OtherBlock \<Rightarrow> []))]\<rparr>) \<and>
           history (listExistingWorkflows rt s) = history s \<and>
           registry (listExistingWorkflows rt s) = registry s) \<and>
         asAnalysis (parseFallback currentPrompt) =
           Some \<lparr>aFailures = [''Could not parse analysis output''],
                 aChanges = [''No changes made '' @ emDash @ '' parse error''],
                 configChanges = Some (JObj [(''systemMessage'', currentPrompt)]),
                 newTools = None, newWorkflows = None, resourceRequests = None\<rparr> \<and>
         asAnalysis (parseFallbackEarlier currentPrompt) =
           Some \<lparr>aFailures = [''Could not parse analysis output''],
                 aChanges = [''No changes made '' @ garbledDash @ '' parse error''],
                 configChanges = Some (JObj [(''systemMessage'', currentPrompt)]),
                 newTools = None, newWorkflows = None, resourceRequests = None\<rparr> \<and>
         (\<forall>v. jsonParse rt (cleaned (case block of TextBlock t \<Rightarrow> t | OtherBlock \<Rightarrow> [])) = Some v \<longrightarrow>
            fst (analyzeTranscriptWithRaw rt transcript currentPrompt currentConfig existingTools s)
              = Inr (v, case block of TextBlock t \<Rightarrow> t | OtherBlock \<Rightarrow> []) \<and>
            fst (analyzeTranscript rt transcript currentPrompt currentConfig existingTools s) = Inr v)"
proof -
  have l: "llmReply (listExistingWorkflows rt s) = llmReply s"
    "history (listExistingWorkflows rt s) = history s"
    "registry (listExistingWorkflows rt s) = registry s"
    using listExistingWorkflows_frame [of s rt] by (simp_all add: frame_def)
  have e: "errlog (listExistingWorkflows rt s) = errlog s"
    by (simp add: listExistingWorkflows_def split: prod.splits option.splits)
  show ?thesis
    using assms l e
    by (simp add: analyzeTranscriptWithRaw_def analyzeTranscript_def Let_def parseFallback_def
        parseFallbackEarlier_def fallback_shape)
qed

lemma sample_unparsable: "jsonParse sampleRuntime (cleaned ''I cannot help with that.'') = None"
proof -
  have c: "cleaned ''I cannot help with that.'' = ''I cannot help with that.''"
    by (rule cleaned_plain) (simp_all add: isSpace_def whitespace_def cont_def)
  have "''I cannot help with that.'' \<noteq> toolsReplyText"
    "''I cannot help with that.'' \<noteq> flowReplyText"
    "''I cannot help with that.'' \<noteq> partialReplyText"
    by (simp_all add: toolsReplyText_def flowReplyText_def partialReplyText_def)
  then show ?thesis by (simp add: c sampleRuntime_def sampleParse_def)
qed

theorem parse_failure_returns_fallback_witness:
  "llmReply (sampleState ''I cannot help with that.'')
     = Inr (TextBlock ''I cannot help with that.'' # []) \<and>
   jsonParse sampleRuntime (cleaned ''I cannot help with that.'') = None \<and>
   analyzeTranscriptWithRaw sampleRuntime None samplePrompt liveProfile []
          (sampleState ''I cannot help with that.'')
     = (Inr (parseFallback samplePrompt, ''I cannot help with that.''),
        (sampleState ''I cannot help with that.'')
          \<lparr>errlog := [(parseFailed, Text ''I cannot help with that.'')]\<rparr>) \<and>
   getProp ''configChanges'' (Some (parseFallback samplePrompt))
     = Some (JObj [(''systemMessage'', JStr ''You are a logistics assistant.'')]) \<and>
   llmReply (sampleState partialReplyText) = Inr (TextBlock partialReplyText # []) \<and>
   jsonParse sampleRuntime (cleaned partialReplyText) = Some partialValue \<and>
   fst (analyzeTranscript sampleRuntime None samplePrompt liveProfile [] (sampleState partialReplyText))
     = Inr partialValue"
proof -
  have p: "jsonParse sampleRuntime
             (cleaned (case TextBlock ''I cannot help with that.'' of
                         TextBlock t \<Rightarrow> t | OtherBlock \<Rightarrow> [])) = None"
    using sample_unparsable by simp
  have q: "jsonParse sampleRuntime
             (cleaned (case TextBlock partialReplyText of
                         TextBlock t \<Rightarrow> t | OtherBlock \<Rightarrow> [])) = Some partialValue"
    using sample_parse(3) by simp
  note A = parse_failure_returns_fallback [OF sample_reply, of sampleRuntime
             "''I cannot help with that.''" None samplePrompt liveProfile "[]"]
  note B = parse_failure_returns_fallback [OF sample_reply, of sampleRuntime
             partialReplyText None samplePrompt liveProfile "[]"]
  have e: "errlog (sampleState ''I cannot help with that.'') = []"
    by (simp add: sampleState_def idleState_def)
  from A p have 1: "analyzeTranscriptWithRaw sampleRuntime None samplePrompt liveProfile []
          (sampleState ''I cannot help with that.'')
     = (Inr (parseFallback samplePrompt, ''I cannot help with that.''),
        (sampleState ''I cannot help with that.'')
          \<lparr>errlog := [(parseFailed, Text ''I cannot help with that.'')]\<rparr>)"
    by (simp add: sample_listing e)
  from B q have 2: "fst (analyzeTranscript sampleRuntime None samplePrompt liveProfile []
          (sampleState partialReplyText)) = Inr partialValue"
    by simp
  have 3: "getProp ''configChanges'' (Some (parseFallback samplePrompt))
     = Some (JObj [(''systemMessage'', JStr ''You are a logistics assistant.'')])"
    by (simp add: parseFallback_def fallbackWith_def samplePrompt_def)
  from 1 2 3 sample_reply sample_unparsable sample_parse(3) show ?thesis by blast
qed

text \<open>
  A reply that is valid JSON and is not a change-set: an object holding a list of
  failures and nothing else does not read as an \<^verbatim>\<open>AnalysisResult\<close>, and the gateway
  returns it as it is, not the fallback: it has no \<^verbatim>\<open>changes\<close> and no
  \<^verbatim>\<open>configChanges\<close>, and its failures are the reply's.
\<close>

theorem partial_change_set_is_returned:
  "asAnalysis partialValue = None \<and>
   analyzeTranscriptWithRaw sampleRuntime None samplePrompt liveProfile []
          (sampleState partialReplyText)
     = (Inr (partialValue, partialReplyText), sampleState partialReplyText) \<and>
   partialValue \<noteq> parseFallback samplePrompt \<and>
   getProp ''failures'' (Some partialValue) = Some (JArr [JStr ''Agent was rude'']) \<and>
   getProp ''changes'' (Some partialValue) = None \<and>
   getProp ''configChanges'' (Some partialValue) = None"
  by (simp add: analyzeTranscriptWithRaw_def sample_listing sample_reply sample_parse
      asAnalysis_def partialValue_def needed_def strArr_def arrOf_def parseFallback_def
      fallbackWith_def)

text \<open>
  What the run makes of that reply: \<^verbatim>\<open>analysis.changes.length\<close> throws inside the
  \<^verbatim>\<open>try\<close> of the analysis, the error is rethrown, and nothing is appended.
\<close>

lemma partial_change_set_aborts_run:
  "analyzeAndImprove sampleRuntime ''call-1'' ''asst'' None (sampleState partialReplyText)
     = (Inl (cannotRead ''undefined'' ''length''), sampleState partialReplyText)"
proof -
  have pr: "systemMessage sampleAssistant = Some samplePrompt"
    by (simp add: sampleAssistant_def)
  have g: "analyzeTranscriptWithRaw sampleRuntime tr cp cc et (sampleState partialReplyText)
     = (Inr (partialValue, partialReplyText), sampleState partialReplyText)" for tr cp cc et
    by (simp add: analyzeTranscriptWithRaw_def sample_listing sample_reply sample_parse)
  have l: "analysisLine sampleRuntime partialValue = Inl (cannotRead ''undefined'' ''length'')"
    by (simp add: analysisLine_def partialValue_def lengthOf_def)
  show ?thesis
    unfolding analyzeAndImprove_def
    by (simp add: sample_getCall sample_getAssistant pr sample_shown g bind_def afterAnalysis_def l)
qed

text \<open>
  A reply without a content block: \<^verbatim>\<open>response.content[0].type\<close> throws before any
  decode, outside the \<^verbatim>\<open>try\<close>, in both iterations; the gateway returns nothing.
\<close>

lemma reply_without_content_throws:
  assumes "llmReply s = Inr []"
  shows "fst (analyzeTranscriptWithRaw rt transcript currentPrompt currentConfig existingTools s)
           = Inl (cannotRead ''undefined'' ''type'')"
    and "fst (analyzeTranscript rt transcript currentPrompt currentConfig existingTools s)
           = Inl (cannotRead ''undefined'' ''type'')"
proof -
  have l: "llmReply (listExistingWorkflows rt s) = llmReply s"
    using listExistingWorkflows_frame [of s rt] by (simp add: frame_def)
  show "fst (analyzeTranscriptWithRaw rt transcript currentPrompt currentConfig existingTools s)
           = Inl (cannotRead ''undefined'' ''type'')"
    using assms l by (simp add: analyzeTranscriptWithRaw_def Let_def)
  show "fst (analyzeTranscript rt transcript currentPrompt currentConfig existingTools s)
           = Inl (cannotRead ''undefined'' ''type'')"
    using assms by (simp add: analyzeTranscript_def Let_def)
qed

section \<open>A prompt that is not a text\<close>

text \<open>
  A profile whose system entry holds a list of content parts: \<^verbatim>\<open>getAssistant\<close> returns
  the parts as the system message, \<^verbatim>\<open>assistant.systemMessage.slice\<close> is not a
  function, and the run throws before the analysis, with nothing appended.
\<close>

lemma prompt_without_slice_aborts_run:
  "analyzeAndImprove sampleRuntime ''call-1'' ''asst'' None
     (withAssistant ''asst'' partsProfile (sampleState toolsReplyText))
   = (Inl (notFunction ''assistant.systemMessage.slice''),
      withAssistant ''asst'' partsProfile (sampleState toolsReplyText))"
proof -
  have c: "getCall ''call-1'' (withAssistant ''asst'' partsProfile (sampleState toolsReplyText))
      = (Inr sampleCall, withAssistant ''asst'' partsProfile (sampleState toolsReplyText))"
    by (simp add: getCall_def withAssistant_def sampleState_def idleState_def nextFault_def)
  have x: "extractSystemMessage partsProfile
      = Inr (Some (JObj [(''type'', JStr ''text''), (''text'', JStr ''You are a logistics assistant.'')]))"
    by (simp add: extractSystemMessage_def partsProfile_def systemEntry_def optLength_def
        lengthOf_def natNum_def)
  have a: "getAssistant ''asst'' (withAssistant ''asst'' partsProfile (sampleState toolsReplyText))
      = (Inr \<lparr>systemMessage = Some (JObj [(''type'', JStr ''text''),
                                          (''text'', JStr ''You are a logistics assistant.'')]),
              config = partsProfile\<rparr>,
         withAssistant ''asst'' partsProfile (sampleState toolsReplyText))"
    by (simp add: getAssistant_def getAssistantRaw_def bind_def withAssistant_def sampleState_def
        idleState_def nextFault_def x)
  show ?thesis
    unfolding analyzeAndImprove_def
    by (simp add: c a bind_def sliceText_def)
qed


section \<open>Provider sync inside createAndRegisterTool\<close>

lemma getAssistantRaw_errlog [simp]: "errlog (snd (getAssistantRaw a s)) = errlog s"
  by (simp add: getAssistantRaw_def split: prod.splits option.splits)

lemma patchAssistantRaw_errlog [simp]: "errlog (snd (patchAssistantRaw a p s)) = errlog s"
  by (simp add: patchAssistantRaw_def split: prod.splits option.splits)

lemma createVapiTool_errlog [simp]: "errlog (snd (createVapiTool rt n u s)) = errlog s"
  by (simp add: createVapiTool_def split: prod.splits option.splits)

lemma addToolToAssistant_errlog [simp]: "errlog (snd (addToolToAssistant a t s)) = errlog s"
proof (cases "getAssistantRaw a s")
  case (Pair r s1)
  have "errlog s1 = errlog s" using getAssistantRaw_errlog [of a s] Pair by simp
  then show ?thesis
    using Pair patchAssistantRaw_errlog [of a _ s1]
    by (cases r) (auto simp: addToolToAssistant_def bind_def split: sum.splits)
qed

text \<open>What the operator notification adds to the error log: nothing, or the refusal of the gateway.\<close>

lemma notifyOperator_errlog:
  "\<exists>rest. errlog (snd (notifyOperator rt msg s)) = errlog s @ rest \<and>
          list_all (\<lambda>l. fst l = ''[whapi] send failed:'') rest"
  by (auto simp: notifyOperator_def snd_bind_const sendWhatsApp_def Let_def nextReply_def
      split: option.splits prod.splits whapi.splits list.splits)

lemma sync_failure_logged:
  assumes b: "buildHandler rt (handlerCode spec) = Inr h"
    and a: "env rt ''VAPI_ASSISTANT_ID'' = Some a" "a \<noteq> []"
    and u: "env rt ''SERVER_URL'' = Some u" "u \<noteq> []"
    and f: "syncRequests rt spec a u (s\<lparr>registry := registerTool (newTool spec h (now s)) (registry s)\<rparr>)
              = (Inl e, t)"
  shows "\<exists>rest. errlog (snd (createAndRegisterTool rt spec s))
                  = errlog s @ (syncFailed spec, Thrown e) # rest \<and>
                list_all (\<lambda>l. fst l = ''[whapi] send failed:'') rest"
proof -
  define s1 where "s1 = s\<lparr>registry := registerTool (newTool spec h (now s)) (registry s)\<rparr>"
  have t: "errlog t = errlog s"
  proof -
    obtain r1 t1 where c: "createVapiTool rt (specName spec) (u @ ''/vapi/tool-calls'') s1 = (r1, t1)"
      by (metis prod.exhaust)
    have e1: "errlog t1 = errlog s1"
      using createVapiTool_errlog [of rt "specName spec" "u @ ''/vapi/tool-calls''" s1] c by simp
    show ?thesis
    proof (cases r1)
      case (Inl e')
      with f c e1 show ?thesis by (simp add: syncRequests_def bind_def s1_def)
    next
      case (Inr toolId)
      with f c have "addToolToAssistant a toolId t1 = (Inl e, t)"
        by (simp add: syncRequests_def bind_def s1_def)
      then have "errlog t = errlog t1" using addToolToAssistant_errlog [of a toolId t1] by simp
      with e1 show ?thesis by (simp add: s1_def)
    qed
  qed
  have s2: "syncIfConfigured rt spec s1 = t\<lparr>errlog := errlog s @ [(syncFailed spec, Thrown e)]\<rparr>"
    using a u f by (simp add: syncIfConfigured_def syncToVapi_def s1_def t)
  have "snd (createAndRegisterTool rt spec s) =
          snd (notifyOperator rt (createdNotice spec) (syncIfConfigured rt spec s1))"
    using b by (simp add: createAndRegisterTool_def Let_def snd_bind_const s1_def)
  then show ?thesis
    using notifyOperator_errlog [of rt "createdNotice spec"
            "t\<lparr>errlog := errlog s @ [(syncFailed spec, Thrown e)]\<rparr>"]
    by (auto simp: s2)
qed

text \<open>
  C10.  When the handler source compiles and the operator notification does not throw,
  \<^verbatim>\<open>createAndRegisterTool\<close> returns the capability and the registry holds it under its
  name, marked dynamic, whatever the provider answers to the sync requests.  When the
  sync is switched on and fails, at the creation of the tool on the provider or, the
  tool created, at its attachment to the assistant, the error caught is the next entry
  of the error log, under the tag of the sync; after it comes at most what the operator
  notification logs when the messaging gateway refuses it.
\<close>

theorem provider_sync_failure_is_absorbed:
  assumes "buildHandler rt (handlerCode spec) = Inr h" and "quiet s"
  shows "\<exists>s'. createAndRegisterTool rt spec s = (Inr (newTool spec h (now s)), s') \<and>
           getTool (registry s') (specName spec) = Some (newTool spec h (now s)) \<and>
           isDynamic (newTool spec h (now s)) \<and>
           handler (newTool spec h (now s)) = h \<and>
           history s' = history s \<and>
           (\<forall>a u e t.
              env rt ''VAPI_ASSISTANT_ID'' = Some a \<and> a \<noteq> [] \<and>
              env rt ''SERVER_URL'' = Some u \<and> u \<noteq> [] \<and>
              createVapiTool rt (specName spec) (u @ ''/vapi/tool-calls'')
                (s\<lparr>registry := registerTool (newTool spec h (now s)) (registry s)\<rparr>) = (Inl e, t) \<longrightarrow>
              (\<exists>rest. errlog s' = errlog s @ (syncFailed spec, Thrown e) # rest \<and>
                      list_all (\<lambda>l. fst l = ''[whapi] send failed:'') rest)) \<and>
           (\<forall>a u toolId t e t'.
              env rt ''VAPI_ASSISTANT_ID'' = Some a \<and> a \<noteq> [] \<and>
              env rt ''SERVER_URL'' = Some u \<and> u \<noteq> [] \<and>
              createVapiTool rt (specName spec) (u @ ''/vapi/tool-calls'')
                (s\<lparr>registry := registerTool (newTool spec h (now s)) (registry s)\<rparr>) = (Inr toolId, t) \<and>
              addToolToAssistant a toolId t = (Inl e, t') \<longrightarrow>
              (\<exists>rest. errlog s' = errlog s @ (syncFailed spec, Thrown e) # rest \<and>
                      list_all (\<lambda>l. fst l = ''[whapi] send failed:'') rest))"
proof -
  obtain r s' where c: "createAndRegisterTool rt spec s = (r, s')" by (metis prod.exhaust)
  note R = createAndRegisterTool_registers [OF assms(1), of s]
  have r: "r = Inr (newTool spec h (now s))" using R(5) [OF assms(2)] c by simp
  have reg: "registry s' = registerTool (newTool spec h (now s)) (registry s)" using R(1) c by simp
  have hist: "history s' = history s" using R(3) c by (simp add: kept_def)
  have g: "getTool (registry s') (specName spec) = Some (newTool spec h (now s))"
    using getTool_registerTool [of "newTool spec h (now s)" "registry s"]
    by (simp add: reg newTool_def)
  have s': "s' = snd (createAndRegisterTool rt spec s)" using c by simp
  have 1: "\<exists>rest. errlog s' = errlog s @ (syncFailed spec, Thrown e) # rest \<and>
                      list_all (\<lambda>l. fst l = ''[whapi] send failed:'') rest"
    if "env rt ''VAPI_ASSISTANT_ID'' = Some a" "a \<noteq> []" "env rt ''SERVER_URL'' = Some u" "u \<noteq> []"
       "createVapiTool rt (specName spec) (u @ ''/vapi/tool-calls'')
          (s\<lparr>registry := registerTool (newTool spec h (now s)) (registry s)\<rparr>) = (Inl e, t)"
    for a u e t
  proof -
    have "syncRequests rt spec a u (s\<lparr>registry := registerTool (newTool spec h (now s)) (registry s)\<rparr>)
            = (Inl e, t)"
      using that(5) by (simp add: syncRequests_def bind_def)
    from sync_failure_logged [OF assms(1) that(1-4) this] show ?thesis unfolding s' .
  qed
  have 2: "\<exists>rest. errlog s' = errlog s @ (syncFailed spec, Thrown e) # rest \<and>
                      list_all (\<lambda>l. fst l = ''[whapi] send failed:'') rest"
    if "env rt ''VAPI_ASSISTANT_ID'' = Some a" "a \<noteq> []" "env rt ''SERVER_URL'' = Some u" "u \<noteq> []"
       "createVapiTool rt (specName spec) (u @ ''/vapi/tool-calls'')
          (s\<lparr>registry := registerTool (newTool spec h (now s)) (registry s)\<rparr>) = (Inr toolId, t)"
       "addToolToAssistant a toolId t = (Inl e, t')"
    for a u toolId t e t'
  proof -
    have "syncRequests rt spec a u (s\<lparr>registry := registerTool (newTool spec h (now s)) (registry s)\<rparr>)
            = (Inl e, t')"
      using that(5,6) by (simp add: syncRequests_def bind_def)
    from sync_failure_logged [OF assms(1) that(1-4) this] show ?thesis unfolding s' .
  qed
  from c r g hist 1 2 show ?thesis by (auto simp: newTool_def)
qed

theorem provider_sync_failure_is_absorbed_witness:
  "buildHandler syncRuntime (handlerCode trackSpec) = Inr (\<lambda>args. Inr (Some (JStr ''1''))) \<and>
   quiet attachDown \<and>
   (\<exists>t. createVapiTool syncRuntime ''track_container'' ''https://agent.example/vapi/tool-calls''
           (attachDown\<lparr>registry := registerTool (newTool trackSpec (\<lambda>args. Inr (Some (JStr ''1''))) 0) []\<rparr>)
           = (Inr ''id-0'', t) \<and>
         addToolToAssistant ''asst'' ''id-0'' t
           = (Inl (Error ''Vapi GET /assistant/asst failed (503): unavailable''), t\<lparr>vapiFaults := []\<rparr>)) \<and>
   (\<exists>s'. createAndRegisterTool syncRuntime trackSpec attachDown
            = (Inr (newTool trackSpec (\<lambda>args. Inr (Some (JStr ''1''))) 0), s') \<and>
         getTool (registry s') ''track_container''
            = Some (newTool trackSpec (\<lambda>args. Inr (Some (JStr ''1''))) 0) \<and>
         errlog s' = [(syncFailed trackSpec,
                       Thrown (Error ''Vapi GET /assistant/asst failed (503): unavailable'')),
                      (''[whapi] send failed:'', Text ''token expired'')])"
proof -
  have b: "buildHandler syncRuntime (handlerCode trackSpec) = Inr (\<lambda>args. Inr (Some (JStr ''1'')))"
    by (simp add: buildHandler_def syncRuntime_def sampleRuntime_def sampleCompile_def trackSpec_def)
  have q: "quiet attachDown"
    by (simp add: quiet_def attachDown_def sampleState_def idleState_def)
  have e: "env syncRuntime ''VAPI_ASSISTANT_ID'' = Some ''asst''"
    "env syncRuntime ''SERVER_URL'' = Some ''https://agent.example''"
    "env syncRuntime ''OPERATOR_PHONE'' = Some ''+971501111111''"
    by (simp_all add: syncRuntime_def)
  have z: "now attachDown = 0" "errlog attachDown = []" "specName trackSpec = ''track_container''"
    "registry attachDown = []"
    by (simp_all add: attachDown_def sampleState_def idleState_def trackSpec_def)
  define s1 where "s1 = attachDown\<lparr>registry := registerTool (newTool trackSpec (\<lambda>args. Inr (Some (JStr ''1''))) 0) []\<rparr>"
  define t where "t = s1\<lparr>vapiFaults := [Some (Error ''Vapi GET /assistant/asst failed (503): unavailable'')],
                         vapiMinted := 1, vapiTools := [(''id-0'', ''track_container'')]\<rparr>"
  have m: "mintId syncRuntime 0 = ''id-0''"
    by (simp add: syncRuntime_def sampleRuntime_def showNat.simps)
  have cv: "createVapiTool syncRuntime ''track_container'' ''https://agent.example/vapi/tool-calls'' s1
              = (Inr ''id-0'', t)"
    by (simp add: createVapiTool_def nextFault_def s1_def t_def attachDown_def sampleState_def
        idleState_def m)
  have at: "addToolToAssistant ''asst'' ''id-0'' t
              = (Inl (Error ''Vapi GET /assistant/asst failed (503): unavailable''), t\<lparr>vapiFaults := []\<rparr>)"
    by (simp add: addToolToAssistant_def getAssistantRaw_def bind_def nextFault_def t_def)
  from provider_sync_failure_is_absorbed [OF b q] obtain s' where
    1: "createAndRegisterTool syncRuntime trackSpec attachDown
          = (Inr (newTool trackSpec (\<lambda>args. Inr (Some (JStr ''1''))) (now attachDown)), s')"
    and 2: "getTool (registry s') (specName trackSpec)
          = Some (newTool trackSpec (\<lambda>args. Inr (Some (JStr ''1''))) (now attachDown))"
    and 3: "\<forall>a u toolId t e t'.
              env syncRuntime ''VAPI_ASSISTANT_ID'' = Some a \<and> a \<noteq> [] \<and>
              env syncRuntime ''SERVER_URL'' = Some u \<and> u \<noteq> [] \<and>
              createVapiTool syncRuntime (specName trackSpec) (u @ ''/vapi/tool-calls'')
                (attachDown\<lparr>registry := registerTool
                    (newTool trackSpec (\<lambda>args. Inr (Some (JStr ''1''))) (now attachDown))
                    (registry attachDown)\<rparr>) = (Inr toolId, t) \<and>
              addToolToAssistant a toolId t = (Inl e, t') \<longrightarrow>
              (\<exists>rest. errlog s' = errlog attachDown @ (syncFailed trackSpec, Thrown e) # rest \<and>
                      list_all (\<lambda>l. fst l = ''[whapi] send failed:'') rest)"
    by blast
  have cv': "createVapiTool syncRuntime (specName trackSpec) (''https://agent.example'' @ ''/vapi/tool-calls'')
                (attachDown\<lparr>registry := registerTool
                    (newTool trackSpec (\<lambda>args. Inr (Some (JStr ''1''))) (now attachDown))
                    (registry attachDown)\<rparr>) = (Inr ''id-0'', t)"
    using cv by (simp add: z s1_def)
  from 3 [rule_format, of "''asst''" "''https://agent.example''" "''id-0''" t
            "Error ''Vapi GET /assistant/asst failed (503): unavailable''" "t\<lparr>vapiFaults := []\<rparr>"]
    e cv' at
  obtain rest where 4: "errlog s' = errlog attachDown @
        (syncFailed trackSpec, Thrown (Error ''Vapi GET /assistant/asst failed (503): unavailable'')) # rest"
    by auto
  have sr: "syncRequests syncRuntime trackSpec ''asst'' ''https://agent.example'' s1
              = (Inl (Error ''Vapi GET /assistant/asst failed (503): unavailable''), t\<lparr>vapiFaults := []\<rparr>)"
    using cv at by (simp add: syncRequests_def bind_def z)
  have lt: "errlog t = []" "whapiReplies t = [Refuses ''token expired'']"
    by (simp_all add: t_def s1_def attachDown_def sampleState_def idleState_def)
  have si: "syncIfConfigured syncRuntime trackSpec s1
              = t\<lparr>vapiFaults := [], errlog := [(syncFailed trackSpec,
                    Thrown (Error ''Vapi GET /assistant/asst failed (503): unavailable''))]\<rparr>"
    using sr by (simp add: syncIfConfigured_def syncToVapi_def e lt)
  have 5: "errlog s' = [(syncFailed trackSpec,
                       Thrown (Error ''Vapi GET /assistant/asst failed (503): unavailable'')),
                      (''[whapi] send failed:'', Text ''token expired'')]"
  proof -
    have "s' = snd (createAndRegisterTool syncRuntime trackSpec attachDown)" using 1 by simp
    then show ?thesis
      unfolding createAndRegisterTool_def b
      by (simp add: Let_def z s1_def [symmetric] si snd_bind_const notifyOperator_def e
          sendWhatsApp_def nextReply_def lt)
  qed
  from cv at have ex: "\<exists>t. createVapiTool syncRuntime ''track_container'' ''https://agent.example/vapi/tool-calls''
           (attachDown\<lparr>registry := registerTool (newTool trackSpec (\<lambda>args. Inr (Some (JStr ''1''))) 0) []\<rparr>)
           = (Inr ''id-0'', t) \<and>
         addToolToAssistant ''asst'' ''id-0'' t
           = (Inl (Error ''Vapi GET /assistant/asst failed (503): unavailable''), t\<lparr>vapiFaults := []\<rparr>)"
    unfolding s1_def by blast
  from 1 2 5 b q ex show ?thesis by (auto simp: z)
qed

text \<open>
  The same with the provider refusing the creation of the tool and the messaging gateway
  answering: the error of the first request is the only entry of the error log.
\<close>

lemma creation_failure_is_logged:
  "\<exists>s'. createAndRegisterTool syncRuntime trackSpec providerDown
            = (Inr (newTool trackSpec (\<lambda>args. Inr (Some (JStr ''1''))) 0), s') \<and>
         getTool (registry s') ''track_container''
            = Some (newTool trackSpec (\<lambda>args. Inr (Some (JStr ''1''))) 0) \<and>
         errlog s' = [(syncFailed trackSpec,
                       Thrown (Error ''Vapi POST /tool failed (503): unavailable''))]"
proof -
  have b: "buildHandler syncRuntime (handlerCode trackSpec) = Inr (\<lambda>args. Inr (Some (JStr ''1'')))"
    by (simp add: buildHandler_def syncRuntime_def sampleRuntime_def sampleCompile_def trackSpec_def)
  have e: "env syncRuntime ''VAPI_ASSISTANT_ID'' = Some ''asst''"
    "env syncRuntime ''SERVER_URL'' = Some ''https://agent.example''"
    "env syncRuntime ''OPERATOR_PHONE'' = Some ''+971501111111''"
    by (simp_all add: syncRuntime_def)
  show ?thesis
    unfolding createAndRegisterTool_def b
    by (simp add: Let_def e syncIfConfigured_def syncToVapi_def syncRequests_def bind_def
        createVapiTool_def nextFault_def notifyOperator_def sendWhatsApp_def nextReply_def
        providerDown_def sampleState_def idleState_def getTool_def registerTool_def newTool_def
        trackSpec_def)
qed

section \<open>Reset\<close>

section \<open>Reset\<close>

lemma resetToBaseline_ok:
  assumes "resetToBaseline assistantId s = (Inr (), s1)"
  shows "registry s1 = clearDynamicTools (registry s) \<and> history s1 = []"
proof -
  obtain r t where u: "updateAssistant assistantId BASELINE s = (r, t)" by (metis prod.exhaust)
  have f: "frame s t" using updateAssistant_frame [of s assistantId BASELINE] u by simp
  from assms u show ?thesis
    using f by (cases r) (auto simp: resetToBaseline_def bind_def clearHistory_def frame_def)
qed

lemma resetToBaseline_failed:
  assumes "resetToBaseline assistantId s = (Inl e, s1)"
  shows "registry s1 = registry s \<and> history s1 = history s"
proof -
  obtain r t where u: "updateAssistant assistantId BASELINE s = (r, t)" by (metis prod.exhaust)
  have f: "frame s t" using updateAssistant_frame [of s assistantId BASELINE] u by simp
  from assms u show ?thesis
    using f by (cases r) (auto simp: resetToBaseline_def bind_def clearHistory_def frame_def)
qed

lemma clearDynamicTools_seeds_only:
  assumes "wfRegistry reg" and "\<forall>e \<in> set reg. \<not> isDynamic (snd e)"
  shows "clearDynamicTools reg = reg"
  using assms by (simp add: clearDynamicTools_filter)

lemma reset_fixed_point:
  assumes "wfRegistry (registry t)" and "\<forall>e \<in> set (registry t). \<not> isDynamic (snd e)"
    and "history t = []"
  shows "registry (snd (resetToBaseline assistantId t)) = registry t \<and>
         history (snd (resetToBaseline assistantId t)) = []"
proof -
  obtain r t' where rt: "resetToBaseline assistantId t = (r, t')" by (metis prod.exhaust)
  show ?thesis
  proof (cases r)
    case (Inl e)
    with rt resetToBaseline_failed [of assistantId t e t'] assms(3) show ?thesis by simp
  next
    case (Inr u)
    with rt resetToBaseline_ok [of assistantId t t'] clearDynamicTools_seeds_only [OF assms(1,2)]
    show ?thesis by simp
  qed
qed

lemma resetAgain_fixed_point:
  assumes "wfRegistry (registry t)" and "\<forall>e \<in> set (registry t). \<not> isDynamic (snd e)"
    and "history t = []"
  shows "registry (resetAgain n assistantId t) = registry t \<and> history (resetAgain n assistantId t) = []"
  using assms
proof (induction n arbitrary: t)
  case 0
  then show ?case by simp
next
  case (Suc n)
  from reset_fixed_point [OF Suc.prems, of assistantId]
  have r: "registry (snd (resetToBaseline assistantId t)) = registry t"
    and h: "history (snd (resetToBaseline assistantId t)) = []" by auto
  from Suc.IH [of "snd (resetToBaseline assistantId t)"] Suc.prems r h
  show ?case by simp
qed

text \<open>
  After a reset that returns, the registry holds exactly the entries that were not
  dynamic, in their order, and the history is empty; any number of further resets,
  returning or throwing, leave the registry and the history as that first reset left them.
\<close>

lemma reset_is_idempotent:
  assumes "wfRegistry (registry s)" and "resetToBaseline assistantId s = (Inr (), s1)"
  shows "registry s1 = filter (\<lambda>e. \<not> isDynamic (snd e)) (registry s) \<and> history s1 = [] \<and>
         (\<forall>n. registry (resetAgain n assistantId s1) = registry s1 \<and>
              history (resetAgain n assistantId s1) = history s1)"
proof -
  from resetToBaseline_ok [OF assms(2)] clearDynamicTools_filter [OF assms(1)]
  have r: "registry s1 = filter (\<lambda>e. \<not> isDynamic (snd e)) (registry s)" and h: "history s1 = []"
    by auto
  have w: "wfRegistry (registry s1)" unfolding r using assms(1) by (rule wfRegistry_filter)
  have d: "\<forall>e \<in> set (registry s1). \<not> isDynamic (snd e)" unfolding r by simp
  from resetAgain_fixed_point [OF w d h, of _ assistantId] r h show ?thesis by simp
qed

lemma updateAssistant_succeeds:
  assumes "vapiFaults s = []" and "assistants s assistantId = Some profile"
  shows "fst (updateAssistant assistantId chg s) = Inr ()"
  using assms
  by (simp add: updateAssistant_def patchMaxTokens_def patchVoice_def bind_def Let_def
      getCurrentLlmConfig_def getAssistantRaw_def patchAssistantRaw_def nextFault_def
      split: option.splits)

lemma reset_of_a_busy_process:
  "wfRegistry (registry busyState) \<and>
   resetToBaseline ''asst'' busyState = (Inr (), snd (resetToBaseline ''asst'' busyState)) \<and>
   registry (snd (resetToBaseline ''asst'' busyState)) = [(''lookup'', sampleTool ''lookup'' ''found'' False)] \<and>
   history (snd (resetToBaseline ''asst'' busyState)) = [] \<and>
   registry (resetAgain 2 ''asst'' (snd (resetToBaseline ''asst'' busyState)))
     = [(''lookup'', sampleTool ''lookup'' ''found'' False)] \<and>
   history (resetAgain 2 ''asst'' (snd (resetToBaseline ''asst'' busyState))) = []"
proof -
  have w: "wfRegistry (registry busyState)"
    by (simp add: wfRegistry_def busyState_def)
  have "fst (updateAssistant ''asst'' BASELINE busyState) = Inr ()"
    by (rule updateAssistant_succeeds [where profile = liveProfile])
       (simp_all add: busyState_def sampleState_def idleState_def)
  then have "fst (resetToBaseline ''asst'' busyState) = Inr ()"
    by (cases "updateAssistant ''asst'' BASELINE busyState") (simp add: resetToBaseline_def bind_def)
  then have r: "resetToBaseline ''asst'' busyState = (Inr (), snd (resetToBaseline ''asst'' busyState))"
    by (metis prod.collapse)
  have f: "filter (\<lambda>e. \<not> isDynamic (snd e)) (registry busyState)
             = [(''lookup'', sampleTool ''lookup'' ''found'' False)]"
    by (simp add: busyState_def sampleTool_def)
  from reset_is_idempotent [OF w r] show ?thesis
    using w r by (simp add: f)
qed

lemma boot_is_flowStart: "bootState hs flowReplyText = flowStart (seedTools hs 0 [])"
  by (simp add: bootState_def flowStart_def)

text \<open>
  C9.  The process starts with the four seed capabilities.  The end-of-call run on a
  reasoning output that asks for the automation of path \<^verbatim>\<open>send-customer-whatsapp\<close>
  registers the wiring capability under the name \<^verbatim>\<open>send_customer_whatsapp\<close>, which is
  the name of a seed.  The reset that follows returns, and leaves three capabilities:
  the seed \<^verbatim>\<open>send_customer_whatsapp\<close> is gone, the registry is not the seed set, and
  further resets do not bring it back.  The history is empty.
\<close>

theorem reset_loses_overwritten_seed:
  "map fst (registry (bootState hs flowReplyText))
     = [''check_shipment_status'', ''send_customer_whatsapp'', ''send_email_notification'',
        ''escalate_to_operator''] \<and>
   list_all (\<lambda>e. \<not> isDynamic (snd e)) (registry (bootState hs flowReplyText)) \<and>
   (\<exists>r s1 s2.
      analyzeAndImprove sampleRuntime ''call-1'' ''asst'' None (bootState hs flowReplyText) = (Inr r, s1) \<and>
      toolsCreated r = [''send_customer_whatsapp''] \<and>
      resetToBaseline ''asst'' s1 = (Inr (), s2) \<and>
      map fst (registry s2)
        = [''check_shipment_status'', ''send_email_notification'', ''escalate_to_operator''] \<and>
      getTool (registry s2) ''send_customer_whatsapp'' = None \<and>
      history s2 = [] \<and>
      map fst (registry (resetAgain 3 ''asst'' s2))
        = [''check_shipment_status'', ''send_email_notification'', ''escalate_to_operator''] \<and>
      history (resetAgain 3 ''asst'' s2) = [])"
proof -
  have seeds: "map fst (seedTools hs 0 [])
     = [''check_shipment_status'', ''send_customer_whatsapp'', ''send_email_notification'',
        ''escalate_to_operator'']"
    "list_all (\<lambda>e. \<not> isDynamic (snd e)) (seedTools hs 0 [])"
    by (simp_all add: seedTools_def registerTool_def)
  have b: "registry (bootState hs flowReplyText) = seedTools hs 0 []"
    by (simp add: bootState_def)
  from flow_run [of "seedTools hs 0 []"] obtain r where
    run: "analyzeAndImprove sampleRuntime ''call-1'' ''asst'' None (bootState hs flowReplyText)
            = (Inr r, (wiredState (seedTools hs 0 []))\<lparr>history := [r]\<rparr>)"
    and tc: "toolsCreated r = [''send_customer_whatsapp'']"
    unfolding boot_is_flowStart by blast
  define s1 where "s1 = (wiredState (seedTools hs 0 []))\<lparr>history := [r]\<rparr>"
  have "fst (updateAssistant ''asst'' BASELINE s1) = Inr ()"
    by (rule updateAssistant_succeeds [where profile = liveProfile])
       (simp_all add: s1_def wiredState_def sampleState_def idleState_def)
  then have "fst (resetToBaseline ''asst'' s1) = Inr ()"
    by (cases "updateAssistant ''asst'' BASELINE s1") (simp add: resetToBaseline_def bind_def)
  then obtain s2 where rs: "resetToBaseline ''asst'' s1 = (Inr (), s2)"
    by (metis prod.collapse)
  from resetToBaseline_ok [OF rs]
  have r2: "registry s2 = clearDynamicTools (registry s1)" and h2: "history s2 = []" by auto
  have w1: "wfRegistry (registry s1)"
    by (simp add: s1_def wiredState_def wfRegistry_def seedTools_def registerTool_def
        wiringTool_def newTool_def wireSpec_def)
  have names0: "map fst (filter (\<lambda>e. \<not> isDynamic (snd e)) (registry s1))
       = [''check_shipment_status'', ''send_email_notification'', ''escalate_to_operator'']"
    by (simp add: s1_def wiredState_def seedTools_def registerTool_def
        wiringTool_def newTool_def wireSpec_def)
  have f2: "registry s2 = filter (\<lambda>e. \<not> isDynamic (snd e)) (registry s1)"
    unfolding r2 by (rule clearDynamicTools_filter [OF w1])
  have names: "map fst (registry s2)
       = [''check_shipment_status'', ''send_email_notification'', ''escalate_to_operator'']"
    unfolding f2 by (rule names0)
  have gone: "getTool (registry s2) ''send_customer_whatsapp'' = None"
  proof -
    have "fst ` set (registry s2) = set (map fst (registry s2))" by simp
    then show ?thesis unfolding getTool_def map_of_eq_None_iff names by simp
  qed
  have w2: "wfRegistry (registry s2)" unfolding f2 using w1 by (rule wfRegistry_filter)
  have d2: "\<forall>e \<in> set (registry s2). \<not> isDynamic (snd e)" unfolding f2 by simp
  from resetAgain_fixed_point [OF w2 d2 h2, of 3 "''asst''"]
  have again: "registry (resetAgain 3 ''asst'' s2) = registry s2"
    "history (resetAgain 3 ''asst'' s2) = []" by auto
  from run tc rs names gone h2 again seeds b show ?thesis
    unfolding s1_def [symmetric] by auto
qed


end
